theory Spec2Isabelle
  imports Complex_Main
begin

section \<open>The LoRA stacker node: state store, persistence bridge, UI reconciler\<close>

text \<open>
  A shallow embedding of \<^verbatim>\<open>js/advanced_lora_stacker.js\<close> (the v2 file).  The node object
  becomes the record \<open>node\<close>; every method takes the node and returns the new
  node.  Typing of the JavaScript values, as the data model has it:
  \<^item> an id is a number minted by a counter that starts at 1, here a \<open>nat\<close>;
    \<open>group_id\<close> is \<^verbatim>\<open>null\<close> (\<open>None\<close>) or a number.  The code tests
    \<open>group_id\<close> for truthiness, so \<open>Some 0\<close> is as falsy as \<open>None\<close>;
  \<^item> numeric fields are exact reals (no NaN, no infinities, no negative zero), so
    that \<^verbatim>\<open>JSON.parse(JSON.stringify(x))\<close> returns the fields of \<open>x\<close>;
  \<^item> a key that an object does not hold reads as \<^verbatim>\<open>undefined\<close>: the variant
    fields of an item, and the two lists of a snapshot, are options, \<open>None\<close> for
    an absent key;
  \<^item> a text is modelled by what \<^verbatim>\<open>JSON.parse\<close> makes of it: empty (falsy), not
    JSON, or the text of an object.
\<close>

subsection \<open>Data model\<close>

record group =
  grp_id :: nat
  grp_index :: nat
  grp_max_model :: real
  grp_max_clip :: real

record lora =
  lora_id :: nat
  group_id :: "nat option"
  name :: string
  preset :: string
  model_strength :: "real option"
  clip_strength :: "real option"
  random_model :: "bool option"
  min_model :: "real option"
  max_model :: "real option"
  random_clip :: "bool option"
  min_clip :: "real option"
  max_clip :: "real option"
  lock_model :: "bool option"
  locked_model_value :: "real option"
  lock_clip :: "bool option"
  locked_clip_value :: "real option"

record snapshot =
  groups :: "group list option"
  loras :: "lora list option"

text \<open>The value of a string: \<open>NoText\<close> is the empty or missing string (falsy),
  \<open>BadText\<close> a non-empty string on which \<^verbatim>\<open>JSON.parse\<close> throws, \<open>Text s\<close> a
  string that parses to the object \<open>s\<close>; \<^verbatim>\<open>JSON.stringify(s)\<close> is \<open>Text s\<close>.\<close>

datatype json_text = NoText | BadText | Text snapshot

datatype js_error = TypeError

subsection \<open>Controls\<close>

text \<open>What a control shows.  The constructors stand for the literals of the source:
  \<open>L_GroupHeader c i\<close> for the arrow (right when collapsed, down otherwise) followed
  by \<^verbatim>\<open>Group i\<close>; \<open>L_Remove\<close> for the cross and \<^verbatim>\<open>Remove\<close>; \<open>L_LoRA p\<close> and \<open>L_Type p\<close>
  for \<^verbatim>\<open>LoRA\<close> and \<^verbatim>\<open>Type\<close> after the four-space prefix when \<open>p\<close> holds; \<open>L_X\<close> for
  the bare cross; \<open>L_Min\<close> and \<open>L_Max\<close> for \<^verbatim>\<open>Min\<close> and \<^verbatim>\<open>Max\<close>.\<close>

datatype label =
    L_GroupHeader bool nat | L_Remove | L_MaxMODEL | L_MaxCLIP | L_AddLoRAToGroup
  | L_LoRA bool | L_X | L_Type bool
  | L_LockMODEL | L_Value | L_LockCLIP
  | L_MODELStr | L_Random | L_Min | L_Max | L_CLIPStr

datatype wvalue = VNull | VUndefined | VBool bool | VNum real | VStr string

text \<open>The closure a control calls, with the id it captured.\<close>

datatype callback =
    ToggleGroupCollapse nat | RemoveGroup nat | SetGroupMaxModel nat | SetGroupMaxClip nat
  | AddLoraTo nat
  | SetName nat | RemoveLora nat | SetPreset nat
  | SetLockModel nat | SetLockedModelValue nat | SetLockClip nat | SetLockedClipValue nat
  | SetModelStrength nat | SetRandomModel nat | SetMinModel nat | SetMaxModel nat
  | SetClipStrength nat | SetRandomClip nat | SetMinClip nat | SetMaxClip nat

text \<open>The options a control is created with: the shared candidate list (passed by
  reference), the five presets, or the default of a FLOAT (min 0, max 10, step 0.01)
  or BOOLEAN widget.\<close>

datatype woptions = NoOptions | AvailableLoRAs | Presets | FloatDefault wvalue | BooleanDefault wvalue

text \<open>The tags \<^verbatim>\<open>_loraId\<close> and \<^verbatim>\<open>_groupId\<close>: never assigned, assigned
  \<^verbatim>\<open>null\<close>, or assigned an id.\<close>

datatype tag = Unset | Null | Id nat

record control =
  label :: label
  wtype :: string
  wvalue :: wvalue
  options :: woptions
  callback :: callback
  loraId_tag :: tag
  groupId_tag :: tag
  isGroupWidget :: bool

text \<open>A widget of the node: the three permanent widgets the node keeps a reference
  to, a widget of the host (name, type, and the height its \<^verbatim>\<open>computeSize\<close> returns when
  it has one), or a control created from the state.\<close>

datatype widget =
    StackDataWidget | AddLoraButton | AddGroupButton
  | HostWidget string string "int option"
  | Dynamic control

record node =
  node_id :: "int option"
  loraState :: snapshot
  nextGroupId :: nat
  nextLoraId :: nat
  collapsedGroups :: "nat set"
  widgets :: "widget list"
  stack_data :: json_text
  saving :: bool
  node_size :: "int \<times> int"
  localStorage :: "int option \<Rightarrow> json_text"
  storage_ok :: bool

subsection \<open>Truthiness and small helpers\<close>

definition truthy :: "nat option \<Rightarrow> bool" where
  "truthy v = (case v of None \<Rightarrow> False | Some k \<Rightarrow> k \<noteq> 0)"

definition truthy_bool :: "bool option \<Rightarrow> bool" where
  "truthy_bool v = (case v of None \<Rightarrow> False | Some b \<Rightarrow> b)"

definition num_value :: "real option \<Rightarrow> wvalue" where
  "num_value v = (case v of None \<Rightarrow> VUndefined | Some x \<Rightarrow> VNum x)"

definition bool_value :: "bool option \<Rightarrow> wvalue" where
  "bool_value v = (case v of None \<Rightarrow> VUndefined | Some b \<Rightarrow> VBool b)"

definition tag_of :: "nat option \<Rightarrow> tag" where
  "tag_of v = (case v of None \<Rightarrow> Null | Some k \<Rightarrow> Id k)"

text \<open>\<^verbatim>\<open>state.groups || []\<close>: an array is truthy even when empty.\<close>

definition or_empty :: "'a list option \<Rightarrow> 'a list" where
  "or_empty v = (case v of None \<Rightarrow> [] | Some xs \<Rightarrow> xs)"

fun indexOf :: "'a \<Rightarrow> 'a list \<Rightarrow> nat option" where
  "indexOf x [] = None"
| "indexOf x (y # ys) = (if x = y then Some 0 else map_option Suc (indexOf x ys))"

fun findIndex :: "('a \<Rightarrow> bool) \<Rightarrow> 'a list \<Rightarrow> nat option" where
  "findIndex P [] = None"
| "findIndex P (y # ys) = (if P y then Some 0 else map_option Suc (findIndex P ys))"

subsection \<open>Local backup cache\<close>

text \<open>The key is the constant prefix followed by the node id; the model keys the
  store by the id itself.  \<open>storage_ok\<close> false stands for a store whose calls
  throw; both functions catch and log.\<close>

definition saveStateToLocalStorage :: "int option \<Rightarrow> snapshot \<Rightarrow> node \<Rightarrow> node" where
  "saveStateToLocalStorage nodeId state n =
     (if storage_ok n then n\<lparr>localStorage := (localStorage n)(nodeId := Text state)\<rparr> else n)"

definition loadStateFromLocalStorage :: "int option \<Rightarrow> node \<Rightarrow> snapshot option" where
  "loadStateFromLocalStorage nodeId n =
     (if storage_ok n then
        (case localStorage n nodeId of
           NoText \<Rightarrow> None
         | BadText \<Rightarrow> None
         | Text s \<Rightarrow> Some s)
      else None)"

definition truthy_id :: "int option \<Rightarrow> bool" where
  "truthy_id v = (case v of None \<Rightarrow> False | Some k \<Rightarrow> k \<noteq> 0)"

definition saveState :: "node \<Rightarrow> node" where
  "saveState n =
     (if saving n then n
      else
        let n1 = n\<lparr>saving := True\<rparr>;
            stateJson = Text (loraState n1);
            n2 = n1\<lparr>stack_data := stateJson\<rparr>;
            n3 = (if truthy_id (node_id n2)
                  then saveStateToLocalStorage (node_id n2) (loraState n2) n2 else n2)
        in n3\<lparr>saving := False\<rparr>)"

subsection \<open>The widget list\<close>

definition is_named :: "string \<Rightarrow> widget \<Rightarrow> bool" where
  "is_named nm w =
     (case w of
        StackDataWidget \<Rightarrow> nm = ''stack_data''
      | HostWidget wn _ _ \<Rightarrow> wn = nm
      | _ \<Rightarrow> False)"

text \<open>Keeps the first widget named \<^verbatim>\<open>seed\<close>, the stack-data widget and the two action
  buttons, in their order; removes every other widget.\<close>

definition clearDynamicWidgets :: "widget list \<Rightarrow> widget list" where
  "clearDynamicWidgets ws =
     (let keepWidgets =
            (case find (is_named ''seed'') ws of None \<Rightarrow> [] | Some w \<Rightarrow> [w])
            @ [StackDataWidget, AddLoraButton, AddGroupButton]
      in filter (\<lambda>w. w \<in> set keepWidgets) ws)"

text \<open>\<^verbatim>\<open>addWidget\<close> followed by \<^verbatim>\<open>moveWidgetBeforeActionButtons\<close>: the new widget is
  pushed last, so its index exceeds that of the Add-LoRA button (or \<open>-1\<close> when the
  button is missing); it is spliced out and back in at the button's index, and
  \<^verbatim>\<open>splice(-1, 0, w)\<close> inserts before the last element.\<close>

definition insertBeforeActionButtons :: "widget \<Rightarrow> widget list \<Rightarrow> widget list" where
  "insertBeforeActionButtons w ws =
     (let actionButtonIdx =
            (case indexOf AddLoraButton ws of Some i \<Rightarrow> i | None \<Rightarrow> length ws - 1)
      in take actionButtonIdx ws @ [w] @ drop actionButtonIdx ws)"

fun createWidgets :: "control list \<Rightarrow> widget list \<Rightarrow> widget list" where
  "createWidgets [] ws = ws"
| "createWidgets (c # cs) ws = createWidgets cs (insertBeforeActionButtons (Dynamic c) ws)"

definition groupWidgets :: "nat set \<Rightarrow> nat \<Rightarrow> group \<Rightarrow> control list" where
  "groupWidgets collapsedSet groupId groupData =
     (let collapsed = (groupId \<in> collapsedSet) in
      [ \<lparr>label = L_GroupHeader collapsed (grp_index groupData), wtype = ''button'',
          wvalue = VNull, options = NoOptions, callback = ToggleGroupCollapse groupId,
          loraId_tag = Unset, groupId_tag = Id groupId, isGroupWidget = True\<rparr>,
        \<lparr>label = L_Remove, wtype = ''button'',
          wvalue = VNull, options = NoOptions, callback = RemoveGroup groupId,
          loraId_tag = Unset, groupId_tag = Id groupId, isGroupWidget = True\<rparr>,
        \<lparr>label = L_MaxMODEL, wtype = ''number'',
          wvalue = VNum (grp_max_model groupData),
          options = FloatDefault (VNum (grp_max_model groupData)),
          callback = SetGroupMaxModel groupId,
          loraId_tag = Unset, groupId_tag = Id groupId, isGroupWidget = True\<rparr>,
        \<lparr>label = L_MaxCLIP, wtype = ''number'',
          wvalue = VNum (grp_max_clip groupData),
          options = FloatDefault (VNum (grp_max_clip groupData)),
          callback = SetGroupMaxClip groupId,
          loraId_tag = Unset, groupId_tag = Id groupId, isGroupWidget = True\<rparr>,
        \<lparr>label = L_AddLoRAToGroup, wtype = ''button'',
          wvalue = VNull, options = NoOptions, callback = AddLoraTo groupId,
          loraId_tag = Unset, groupId_tag = Id groupId, isGroupWidget = True\<rparr> ])"

definition createGroupWidgets :: "nat set \<Rightarrow> nat \<Rightarrow> group \<Rightarrow> widget list \<Rightarrow> widget list" where
  "createGroupWidgets collapsedSet groupId groupData ws =
     createWidgets (groupWidgets collapsedSet groupId groupData) ws"

definition float_control :: "label \<Rightarrow> real option \<Rightarrow> callback \<Rightarrow> tag \<Rightarrow> tag \<Rightarrow> control" where
  "float_control l v cb lt gt =
     \<lparr>label = l, wtype = ''number'', wvalue = num_value v, options = FloatDefault (num_value v),
      callback = cb, loraId_tag = lt, groupId_tag = gt, isGroupWidget = False\<rparr>"

definition boolean_control :: "label \<Rightarrow> bool option \<Rightarrow> callback \<Rightarrow> tag \<Rightarrow> tag \<Rightarrow> control" where
  "boolean_control l v cb lt gt =
     \<lparr>label = l, wtype = ''toggle'', wvalue = bool_value v, options = BooleanDefault (bool_value v),
      callback = cb, loraId_tag = lt, groupId_tag = gt, isGroupWidget = False\<rparr>"

definition createGroupedLoraControls :: "nat \<Rightarrow> nat option \<Rightarrow> lora \<Rightarrow> control list" where
  "createGroupedLoraControls loraId groupId loraData =
     [boolean_control L_LockMODEL (lock_model loraData) (SetLockModel loraId)
        (Id loraId) (tag_of groupId)]
     @ (if truthy_bool (lock_model loraData)
        then [float_control L_Value (locked_model_value loraData) (SetLockedModelValue loraId)
                (Id loraId) (tag_of groupId)]
        else [])
     @ [boolean_control L_LockCLIP (lock_clip loraData) (SetLockClip loraId)
          (Id loraId) (tag_of groupId)]
     @ (if truthy_bool (lock_clip loraData)
        then [float_control L_Value (locked_clip_value loraData) (SetLockedClipValue loraId)
                (Id loraId) (tag_of groupId)]
        else [])"

definition createUngroupedLoraControls :: "nat \<Rightarrow> lora \<Rightarrow> control list" where
  "createUngroupedLoraControls loraId loraData =
     [float_control L_MODELStr (model_strength loraData) (SetModelStrength loraId) (Id loraId) Unset,
      boolean_control L_Random (random_model loraData) (SetRandomModel loraId) (Id loraId) Unset]
     @ (if truthy_bool (random_model loraData)
        then [float_control L_Min (min_model loraData) (SetMinModel loraId) (Id loraId) Unset,
              float_control L_Max (max_model loraData) (SetMaxModel loraId) (Id loraId) Unset]
        else [])
     @ [float_control L_CLIPStr (clip_strength loraData) (SetClipStrength loraId) (Id loraId) Unset,
        boolean_control L_Random (random_clip loraData) (SetRandomClip loraId) (Id loraId) Unset]
     @ (if truthy_bool (random_clip loraData)
        then [float_control L_Min (min_clip loraData) (SetMinClip loraId) (Id loraId) Unset,
              float_control L_Max (max_clip loraData) (SetMaxClip loraId) (Id loraId) Unset]
        else [])"

definition loraWidgets :: "nat \<Rightarrow> nat option \<Rightarrow> lora \<Rightarrow> control list" where
  "loraWidgets loraId groupId loraData =
     (let prefix = truthy groupId in
      [ \<lparr>label = L_LoRA prefix, wtype = ''combo'', wvalue = VStr (name loraData),
          options = AvailableLoRAs, callback = SetName loraId,
          loraId_tag = Id loraId, groupId_tag = tag_of groupId, isGroupWidget = False\<rparr>,
        \<lparr>label = L_X, wtype = ''button'', wvalue = VNull,
          options = NoOptions, callback = RemoveLora loraId,
          loraId_tag = Id loraId, groupId_tag = tag_of groupId, isGroupWidget = False\<rparr>,
        \<lparr>label = L_Type prefix, wtype = ''combo'', wvalue = VStr (preset loraData),
          options = Presets, callback = SetPreset loraId,
          loraId_tag = Id loraId, groupId_tag = tag_of groupId, isGroupWidget = False\<rparr> ]
      @ (if groupId \<noteq> None
         then createGroupedLoraControls loraId groupId loraData
         else createUngroupedLoraControls loraId loraData))"

definition createLoraWidgets :: "nat \<Rightarrow> nat option \<Rightarrow> lora \<Rightarrow> widget list \<Rightarrow> widget list" where
  "createLoraWidgets loraId groupId loraData ws =
     createWidgets (loraWidgets loraId groupId loraData) ws"

subsection \<open>Size computation\<close>

text \<open>Only the stack-data widget is given a \<^verbatim>\<open>computeSize\<close> by this file (it returns
  \<^verbatim>\<open>[0, -4]\<close>); the controls are made by the host's \<^verbatim>\<open>addWidget\<close> and by
  \<^verbatim>\<open>ComfyWidgets\<close>, which give them a type and no \<^verbatim>\<open>computeSize\<close>.\<close>

definition widget_computeSize :: "widget \<Rightarrow> int option" where
  "widget_computeSize w =
     (case w of
        StackDataWidget \<Rightarrow> Some (- 4)
      | HostWidget _ _ h \<Rightarrow> h
      | _ \<Rightarrow> None)"

definition widget_type :: "widget \<Rightarrow> string" where
  "widget_type w =
     (case w of
        StackDataWidget \<Rightarrow> ''converted-widget''
      | AddLoraButton \<Rightarrow> ''button''
      | AddGroupButton \<Rightarrow> ''button''
      | HostWidget _ t _ \<Rightarrow> t
      | Dynamic c \<Rightarrow> wtype c)"

text \<open>What one widget adds to the height in the loop of \<^verbatim>\<open>computeSize\<close>.\<close>

definition widget_height :: "widget \<Rightarrow> int" where
  "widget_height w =
     (case widget_computeSize w of
        Some h \<Rightarrow> (if h > 0 then h + 4 else 0)
      | None \<Rightarrow> (if widget_type w \<noteq> ''converted-widget'' then 30 else 0))"

definition computeSize :: "node \<Rightarrow> int \<times> int" where
  "computeSize n =
     (let height = 60 + sum_list (map widget_height (widgets n));
          width = 450
      in (width, max 140 height))"

subsection \<open>Rebuild\<close>

record build =
  b_widgets :: "widget list"
  groupIdMap :: "nat \<Rightarrow> nat option"
  loraIdMap :: "nat \<Rightarrow> nat option"
  nextGlobalGroupId :: nat
  nextGlobalLoraId :: nat

fun rebuildLoras :: "nat option \<Rightarrow> lora list \<Rightarrow> build \<Rightarrow> build" where
  "rebuildLoras newGroupId [] b = b"
| "rebuildLoras newGroupId (loraData # rest) b =
     (let oldLoraId = lora_id loraData;
          newLoraId = nextGlobalLoraId b
      in rebuildLoras newGroupId rest
           (b\<lparr>nextGlobalLoraId := newLoraId + 1,
              loraIdMap := (loraIdMap b)(oldLoraId \<mapsto> newLoraId),
              b_widgets := createLoraWidgets newLoraId newGroupId loraData (b_widgets b)\<rparr>))"

fun rebuildGroups :: "nat set \<Rightarrow> lora list \<Rightarrow> group list \<Rightarrow> build \<Rightarrow> build" where
  "rebuildGroups collapsedSet ls [] b = b"
| "rebuildGroups collapsedSet ls (groupData # rest) b =
     (let oldGroupId = grp_id groupData;
          newGroupId = nextGlobalGroupId b;
          b1 = b\<lparr>nextGlobalGroupId := newGroupId + 1,
                 groupIdMap := (groupIdMap b)(oldGroupId \<mapsto> newGroupId),
                 b_widgets := createGroupWidgets collapsedSet newGroupId groupData (b_widgets b)\<rparr>;
          groupLoras = filter (\<lambda>l. group_id l = Some oldGroupId) ls
      in rebuildGroups collapsedSet ls rest (rebuildLoras (Some newGroupId) groupLoras b1))"

text \<open>The two loops that write the new ids into the state.  Each object is visited
  once and looked up by its own old id, so the in-place loop is a map.\<close>

definition updateGroupId :: "(nat \<Rightarrow> nat option) \<Rightarrow> group \<Rightarrow> group" where
  "updateGroupId gm g =
     (case gm (grp_id g) of
        None \<Rightarrow> g
      | Some newId \<Rightarrow> (if newId \<noteq> 0 then g\<lparr>grp_id := newId\<rparr> else g))"

definition updateLoraIds :: "(nat \<Rightarrow> nat option) \<Rightarrow> (nat \<Rightarrow> nat option) \<Rightarrow> lora \<Rightarrow> lora" where
  "updateLoraIds gm lm l =
     (let newLoraId = lm (lora_id l);
          newGroupId = (if truthy (group_id l)
                        then map_option Some (gm (the (group_id l)))
                        else Some None);
          l1 = (case newLoraId of
                  None \<Rightarrow> l
                | Some k \<Rightarrow> (if k \<noteq> 0 then l\<lparr>lora_id := k\<rparr> else l))
      in (case newGroupId of
            None \<Rightarrow> l1
          | Some g \<Rightarrow> l1\<lparr>group_id := g\<rparr>))"

definition rebuildUI :: "node \<Rightarrow> node" where
  "rebuildUI n =
     (let state = loraState n;
          b0 = \<lparr>b_widgets = clearDynamicWidgets (widgets n),
                groupIdMap = Map.empty, loraIdMap = Map.empty,
                nextGlobalGroupId = 1, nextGlobalLoraId = 1\<rparr>;
          b1 = rebuildGroups (collapsedGroups n) (or_empty (loras state)) (or_empty (groups state)) b0;
          ungroupedLoras = filter (\<lambda>l. \<not> truthy (group_id l)) (or_empty (loras state));
          b2 = rebuildLoras None ungroupedLoras b1;
          state' = \<lparr>groups = map_option (map (updateGroupId (groupIdMap b2))) (groups state),
                    loras = map_option (map (updateLoraIds (groupIdMap b2) (loraIdMap b2))) (loras state)\<rparr>;
          n1 = n\<lparr>widgets := b_widgets b2, loraState := state',
                 nextGroupId := nextGlobalGroupId b2, nextLoraId := nextGlobalLoraId b2\<rparr>
      in n1\<lparr>node_size := computeSize n1\<rparr>)"

subsection \<open>Load\<close>

definition restoreState :: "node \<Rightarrow> node" where
  "restoreState n =
     (case (if stack_data n = NoText
            then (case loadStateFromLocalStorage (node_id n) n of
                    Some localState \<Rightarrow> Some (saveState (n\<lparr>loraState := localState\<rparr>))
                  | None \<Rightarrow> None)
            else Some n) of
        None \<Rightarrow> n
      | Some n1 \<Rightarrow>
          (case stack_data n1 of
             Text state \<Rightarrow>
               rebuildUI (n1\<lparr>widgets := clearDynamicWidgets (widgets n1), loraState := state\<rparr>)
           | _ \<Rightarrow> n1))"

text \<open>\<open>widgets_values\<close> is the list the host recorded at the last save, one entry
  per widget; only the entry at the index of the stack-data widget is read.\<close>

definition onConfigure :: "json_text list option \<Rightarrow> node \<Rightarrow> node" where
  "onConfigure widgets_values n =
     (let n1 =
            (case widgets_values of
               None \<Rightarrow> n
             | Some vs \<Rightarrow>
                 (case findIndex (is_named ''stack_data'') (widgets n) of
                    None \<Rightarrow> n
                  | Some stackDataIndex \<Rightarrow>
                      (if stackDataIndex < length vs \<and> vs ! stackDataIndex \<noteq> NoText
                       then n\<lparr>stack_data := vs ! stackDataIndex\<rparr>
                       else n)))
      in restoreState n1)"

text \<open>The node as \<^verbatim>\<open>onNodeCreated\<close> leaves it, from the widgets the host made, the id
  the host gave and the browser's store.\<close>

definition onNodeCreated ::
    "int option \<Rightarrow> widget list \<Rightarrow> (int option \<Rightarrow> json_text) \<Rightarrow> bool \<Rightarrow> node" where
  "onNodeCreated nid hostWidgets store ok =
     \<lparr>node_id = nid,
      loraState = \<lparr>groups = Some [], loras = Some []\<rparr>,
      nextGroupId = 1, nextLoraId = 1,
      collapsedGroups = {},
      widgets =
        (case findIndex (is_named ''stack_data'') hostWidgets of
           Some i \<Rightarrow> hostWidgets[i := StackDataWidget]
         | None \<Rightarrow> hostWidgets @ [StackDataWidget])
        @ [AddLoraButton, AddGroupButton],
      stack_data = NoText,
      saving = False,
      node_size = (450, 140),
      localStorage = store,
      storage_ok = ok\<rparr>"

subsection \<open>Mutation API\<close>

text \<open>A method that reads \<^verbatim>\<open>this.loraState.groups\<close> or \<^verbatim>\<open>this.loraState.loras\<close> of a
  state without that key throws; the model returns \<open>Inl TypeError\<close> and follows the
  node no further.\<close>

definition addGroup :: "node \<Rightarrow> js_error + node" where
  "addGroup n =
     (let groupId = nextGroupId n;
          n1 = n\<lparr>nextGroupId := groupId + 1\<rparr>
      in (case groups (loraState n1) of
            None \<Rightarrow> Inl TypeError
          | Some gs \<Rightarrow>
              (let groupIndex = length gs + 1;
                   groupData = \<lparr>grp_id = groupId, grp_index = groupIndex,
                                grp_max_model = 1.0, grp_max_clip = 1.0\<rparr>;
                   n2 = n1\<lparr>loraState := (loraState n1)\<lparr>groups := Some (gs @ [groupData])\<rparr>\<rparr>;
                   n3 = n2\<lparr>widgets :=
                           createGroupWidgets (collapsedGroups n2) groupId groupData (widgets n2)\<rparr>;
                   n4 = saveState n3
               in Inr (n4\<lparr>node_size := computeSize n4\<rparr>))))"

fun reindex :: "nat \<Rightarrow> group list \<Rightarrow> group list" where
  "reindex i [] = []"
| "reindex i (g # gs) = g\<lparr>grp_index := i + 1\<rparr> # reindex (i + 1) gs"

definition removeGroup :: "nat \<Rightarrow> node \<Rightarrow> js_error + node" where
  "removeGroup groupId n =
     (case groups (loraState n) of
        None \<Rightarrow> Inl TypeError
      | Some gs \<Rightarrow>
          (case findIndex (\<lambda>g. grp_id g = groupId) gs of
             None \<Rightarrow> Inr n
           | Some groupIdx \<Rightarrow>
               (case loras (loraState n) of
                  None \<Rightarrow> Inl TypeError
                | Some ls \<Rightarrow>
                    (let ls' = filter (\<lambda>l. group_id l \<noteq> Some groupId) ls;
                         gs' = take groupIdx gs @ drop (Suc groupIdx) gs;
                         n1 = n\<lparr>loraState :=
                                 (loraState n)\<lparr>loras := Some ls', groups := Some (reindex 0 gs')\<rparr>\<rparr>
                     in Inr (saveState (rebuildUI n1))))))"

definition toggleGroupCollapse :: "nat \<Rightarrow> node \<Rightarrow> node" where
  "toggleGroupCollapse groupId n =
     rebuildUI (if groupId \<in> collapsedGroups n
                then n\<lparr>collapsedGroups := collapsedGroups n - {groupId}\<rparr>
                else n\<lparr>collapsedGroups := insert groupId (collapsedGroups n)\<rparr>)"

definition newLora :: "nat \<Rightarrow> nat option \<Rightarrow> lora" where
  "newLora loraId groupId =
     (if groupId = None
      then \<lparr>lora_id = loraId, group_id = groupId, name = ''None'', preset = ''Full'',
            model_strength = Some 1.0, clip_strength = Some 1.0,
            random_model = Some False, min_model = Some 0.0, max_model = Some 1.0,
            random_clip = Some False, min_clip = Some 0.0, max_clip = Some 1.0,
            lock_model = None, locked_model_value = None,
            lock_clip = None, locked_clip_value = None\<rparr>
      else \<lparr>lora_id = loraId, group_id = groupId, name = ''None'', preset = ''Full'',
            model_strength = None, clip_strength = None,
            random_model = None, min_model = None, max_model = None,
            random_clip = None, min_clip = None, max_clip = None,
            lock_model = Some False, locked_model_value = Some 0.0,
            lock_clip = Some False, locked_clip_value = Some 0.0\<rparr>)"

definition addLora :: "nat option \<Rightarrow> node \<Rightarrow> js_error + node" where
  "addLora groupId n =
     (let loraId = nextLoraId n;
          n1 = n\<lparr>nextLoraId := loraId + 1\<rparr>;
          loraData = newLora loraId groupId
      in (case loras (loraState n1) of
            None \<Rightarrow> Inl TypeError
          | Some ls \<Rightarrow>
              (let n2 = n1\<lparr>loraState := (loraState n1)\<lparr>loras := Some (ls @ [loraData])\<rparr>\<rparr>;
                   n3 = n2\<lparr>widgets := createLoraWidgets loraId groupId loraData (widgets n2)\<rparr>;
                   n4 = saveState n3
               in Inr (n4\<lparr>node_size := computeSize n4\<rparr>))))"

definition removeLora :: "nat \<Rightarrow> node \<Rightarrow> js_error + node" where
  "removeLora loraId n =
     (case loras (loraState n) of
        None \<Rightarrow> Inl TypeError
      | Some ls \<Rightarrow>
          (case findIndex (\<lambda>l. lora_id l = loraId) ls of
             None \<Rightarrow> Inr n
           | Some loraIdx \<Rightarrow>
               Inr (saveState (rebuildUI
                 (n\<lparr>loraState :=
                      (loraState n)\<lparr>loras := Some (take loraIdx ls @ drop (Suc loraIdx) ls)\<rparr>\<rparr>)))))"

text \<open>The callback of the Random toggle of the clip channel, created for the item
  \<open>loraId\<close>: it writes the field of the first item with that id, rebuilds and saves.\<close>

definition randomClipCallback :: "nat \<Rightarrow> bool \<Rightarrow> node \<Rightarrow> js_error + node" where
  "randomClipCallback loraId v n =
     (case loras (loraState n) of
        None \<Rightarrow> Inl TypeError
      | Some ls \<Rightarrow>
          (case findIndex (\<lambda>l. lora_id l = loraId) ls of
             None \<Rightarrow> Inr n
           | Some i \<Rightarrow>
               Inr (saveState (rebuildUI
                 (n\<lparr>loraState :=
                      (loraState n)\<lparr>loras := Some (ls[i := (ls ! i)\<lparr>random_clip := Some v\<rparr>])\<rparr>\<rparr>)))))"

section \<open>Closed forms of the rebuild and well-formed snapshots\<close>

text \<open>The definitions of this section are not code of the repository: they describe
  what the loops of \<open>rebuildUI\<close> compute (proved below), and the snapshots the
  data model admits.\<close>

text \<open>The id map after numbering a list of old ids from \<open>k\<close>: a later entry with
  the same old id overwrites an earlier one.\<close>

fun assign_ids :: "(nat \<Rightarrow> nat option) \<Rightarrow> nat \<Rightarrow> nat list \<Rightarrow> (nat \<Rightarrow> nat option)" where
  "assign_ids m k [] = m"
| "assign_ids m k (x # xs) = assign_ids (m(x \<mapsto> k)) (k + 1) xs"

text \<open>The controls the inner loop creates for a list of items, numbered from \<open>k\<close>.\<close>

fun lora_controls :: "nat option \<Rightarrow> nat \<Rightarrow> lora list \<Rightarrow> control list" where
  "lora_controls t k [] = []"
| "lora_controls t k (l # ls) = loraWidgets k t l @ lora_controls t (k + 1) ls"

text \<open>The items a group shows, the ungrouped items, and the order in which the rebuild
  visits items: group by group, then the ungrouped ones.\<close>

definition members :: "nat \<Rightarrow> lora list \<Rightarrow> lora list" where
  "members gid ls = filter (\<lambda>l. group_id l = Some gid) ls"

definition ungrouped :: "lora list \<Rightarrow> lora list" where
  "ungrouped ls = filter (\<lambda>l. \<not> truthy (group_id l)) ls"

definition grouped_order :: "group list \<Rightarrow> lora list \<Rightarrow> lora list" where
  "grouped_order gs ls = concat (map (\<lambda>g. members (grp_id g) ls) gs)"

definition build_order :: "group list \<Rightarrow> lora list \<Rightarrow> lora list" where
  "build_order gs ls = grouped_order gs ls @ ungrouped ls"

fun group_controls :: "nat set \<Rightarrow> lora list \<Rightarrow> nat \<Rightarrow> nat \<Rightarrow> group list \<Rightarrow> control list" where
  "group_controls cs ls kg kl [] = []"
| "group_controls cs ls kg kl (g # gs) =
     groupWidgets cs kg g @ lora_controls (Some kg) kl (members (grp_id g) ls)
     @ group_controls cs ls (kg + 1) (kl + length (members (grp_id g) ls)) gs"

definition all_controls :: "nat set \<Rightarrow> group list \<Rightarrow> lora list \<Rightarrow> control list" where
  "all_controls cs gs ls =
     group_controls cs ls 1 1 gs
     @ lora_controls None (1 + length (grouped_order gs ls)) (ungrouped ls)"

text \<open>The two id maps at the end of the build loops, and the lists after the update
  loops.\<close>

definition final_groupIdMap :: "group list \<Rightarrow> nat \<Rightarrow> nat option" where
  "final_groupIdMap gs = assign_ids Map.empty 1 (map grp_id gs)"

definition final_loraIdMap :: "group list \<Rightarrow> lora list \<Rightarrow> nat \<Rightarrow> nat option" where
  "final_loraIdMap gs ls = assign_ids Map.empty 1 (map lora_id (build_order gs ls))"

definition renumber_groups :: "group list \<Rightarrow> group list" where
  "renumber_groups gs = map (updateGroupId (final_groupIdMap gs)) gs"

definition renumber_loras :: "group list \<Rightarrow> lora list \<Rightarrow> lora list" where
  "renumber_loras gs ls = map (updateLoraIds (final_groupIdMap gs) (final_loraIdMap gs ls)) ls"

text \<open>The data model's typing of a snapshot: ids are unique among groups and among
  items.\<close>

definition ids_ok :: "snapshot \<Rightarrow> bool" where
  "ids_ok s =
     (distinct (map grp_id (or_empty (groups s))) \<and>
      distinct (map lora_id (or_empty (loras s))))"

text \<open>Well-formed references: every item's \<open>group_id\<close> is an existing group's id
  or the ungrouped sentinel (a falsy value, as \<open>rebuildUI\<close> tests it), and no group
  has the sentinel for its id (the counters mint ids from 1).\<close>

definition refs_ok :: "snapshot \<Rightarrow> bool" where
  "refs_ok s =
     (0 \<notin> set (map grp_id (or_empty (groups s))) \<and>
      list_all (\<lambda>l. group_id l \<in> set (map (\<lambda>g. Some (grp_id g)) (or_empty (groups s)))
                  \<or> \<not> truthy (group_id l))
        (or_empty (loras s)))"

text \<open>Both conditions, on the two lists.\<close>

definition lists_ok :: "group list \<Rightarrow> lora list \<Rightarrow> bool" where
  "lists_ok gs ls =
     (distinct (map grp_id gs) \<and> 0 \<notin> grp_id ` set gs \<and> distinct (map lora_id ls) \<and>
      (\<forall>l\<in>set ls. group_id l \<in> set (map (\<lambda>g. Some (grp_id g)) gs) \<or> \<not> truthy (group_id l)))"

text \<open>A snapshot as a rebuild leaves it: groups numbered 1..N in list order, items
  numbered 1..M in build order, ungrouped items with \<open>group_id\<close> null.\<close>

definition canonical :: "group list \<Rightarrow> lora list \<Rightarrow> bool" where
  "canonical gs ls =
     (lists_ok gs ls \<and>
      map grp_id gs = map Suc [0..<length gs] \<and>
      map lora_id (build_order gs ls) = map Suc [0..<length ls] \<and>
      (\<forall>l\<in>set ls. \<not> truthy (group_id l) \<longrightarrow> group_id l = None))"

text \<open>The two lists of the node's snapshot, read as the rebuild reads them.\<close>

definition the_groups :: "node \<Rightarrow> group list" where
  "the_groups n = or_empty (groups (loraState n))"

definition the_loras :: "node \<Rightarrow> lora list" where
  "the_loras n = or_empty (loras (loraState n))"

text \<open>Structural equality of two snapshots up to id renumbering: the same keys, the
  groups and the items pairwise equal in every field but the ids, in the same order,
  and the same membership of items in groups.\<close>

definition same_up_to_ids :: "snapshot \<Rightarrow> snapshot \<Rightarrow> bool" where
  "same_up_to_ids s s' =
     ((groups s' = None) = (groups s = None) \<and>
      (loras s' = None) = (loras s = None) \<and>
      list_all2 (\<lambda>g g'. g' = g\<lparr>grp_id := grp_id g'\<rparr>) (or_empty (groups s)) (or_empty (groups s')) \<and>
      list_all2 (\<lambda>l l'. l' = l\<lparr>lora_id := lora_id l', group_id := group_id l'\<rparr>)
        (or_empty (loras s)) (or_empty (loras s')) \<and>
      (\<forall>i<length (or_empty (loras s)). \<forall>j<length (or_empty (groups s)).
         (group_id (or_empty (loras s') ! i) = Some (grp_id (or_empty (groups s') ! j)))
         = (group_id (or_empty (loras s) ! i) = Some (grp_id (or_empty (groups s) ! j)))) \<and>
      (\<forall>i<length (or_empty (loras s)).
         truthy (group_id (or_empty (loras s') ! i)) = truthy (group_id (or_empty (loras s) ! i))))"

text \<open>The callbacks of the controls of a widget list, in order.\<close>

definition control_callbacks :: "widget list \<Rightarrow> callback list" where
  "control_callbacks ws = concat (map (\<lambda>w. case w of Dynamic c \<Rightarrow> [callback c] | _ \<Rightarrow> []) ws)"

text \<open>A control bound to one of the two clip bounds of the item \<open>k\<close>.\<close>

definition clip_bound_of :: "nat \<Rightarrow> control \<Rightarrow> bool" where
  "clip_bound_of k c = (callback c = SetMinClip k \<or> callback c = SetMaxClip k)"

text \<open>The values the host recorded hold no text for the stack-data widget: there is no
  list, the widget is not found, the list is too short, or the entry is empty.\<close>

definition no_prior_text :: "json_text list option \<Rightarrow> node \<Rightarrow> bool" where
  "no_prior_text widgets_values n =
     (case widgets_values of
        None \<Rightarrow> True
      | Some vs \<Rightarrow>
          (case findIndex (is_named ''stack_data'') (widgets n) of
             None \<Rightarrow> True
           | Some k \<Rightarrow> \<not> (k < length vs \<and> vs ! k \<noteq> NoText)))"

section \<open>Example nodes\<close>

text \<open>A node as \<open>onNodeCreated\<close> makes it, with a seed widget from the host, node id 7
  and an empty store.\<close>

definition fresh_node :: node where
  "fresh_node = onNodeCreated (Some 7) [HostWidget ''seed'' ''number'' None] (\<lambda>_. NoText) True"

definition group_a :: group where
  "group_a = \<lparr>grp_id = 3, grp_index = 1, grp_max_model = 1.0, grp_max_clip = 0.5\<rparr>"

definition group_b :: group where
  "group_b = \<lparr>grp_id = 8, grp_index = 2, grp_max_model = 2.0, grp_max_clip = 1.0\<rparr>"

definition item_free :: lora where
  "item_free = (newLora 4 None)\<lparr>random_clip := Some True, min_clip := Some 0.2, max_clip := Some 0.8\<rparr>"

definition item_in_b :: lora where
  "item_in_b = (newLora 2 (Some 8))\<lparr>name := ''style.safetensors''\<rparr>"

definition item_in_a :: lora where
  "item_in_a = (newLora 9 (Some 3))\<lparr>lock_model := Some True, locked_model_value := Some 0.7\<rparr>"

text \<open>Two groups with ids 3 and 8; an ungrouped item with randomized clip strength,
  an item of the second group and an item of the first, in that order.\<close>

definition sample_state :: snapshot where
  "sample_state = \<lparr>groups = Some [group_a, group_b], loras = Some [item_free, item_in_b, item_in_a]\<rparr>"

definition sample_node :: node where
  "sample_node = fresh_node\<lparr>loraState := sample_state, nextGroupId := 9, nextLoraId := 10\<rparr>"

text \<open>One group with id 5 and one item whose \<open>group_id\<close> 1 names no group.\<close>

definition dangling_state :: snapshot where
  "dangling_state =
     \<lparr>groups = Some [\<lparr>grp_id = 5, grp_index = 1, grp_max_model = 1.0, grp_max_clip = 1.0\<rparr>],
      loras = Some [newLora 1 (Some 1)]\<rparr>"

definition dangling_node :: node where
  "dangling_node = fresh_node\<lparr>loraState := dangling_state\<rparr>"

text \<open>A new node whose cache holds the sample snapshot under the node's key.\<close>

definition cached_node :: node where
  "cached_node = fresh_node\<lparr>localStorage := (\<lambda>_. NoText)(Some 7 := Text sample_state)\<rparr>"

text \<open>One group with id 1, collapsed.\<close>

definition collapsed_node :: node where
  "collapsed_node =
     fresh_node\<lparr>loraState :=
                  \<lparr>groups = Some [\<lparr>grp_id = 1, grp_index = 1, grp_max_model = 1.0, grp_max_clip = 1.0\<rparr>],
                   loras = Some []\<rparr>,
                collapsedGroups := {1}\<rparr>"

text \<open>One group with id 2, an ungrouped item, and an item whose \<open>group_id\<close> 1 names
  no group.\<close>

definition stray_state :: snapshot where
  "stray_state =
     \<lparr>groups = Some [\<lparr>grp_id = 2, grp_index = 1, grp_max_model = 1.0, grp_max_clip = 1.0\<rparr>],
      loras = Some [newLora 1 None, newLora 2 (Some 1)]\<rparr>"

definition stray_node :: node where
  "stray_node = fresh_node\<lparr>loraState := stray_state\<rparr>"

text \<open>Two groups that share the id 3, and no item.\<close>

definition twin_node :: node where
  "twin_node = fresh_node\<lparr>loraState := \<lparr>groups = Some [group_a, group_a\<lparr>grp_index := 2\<rparr>],
                                       loras = Some []\<rparr>\<rparr>"

section \<open>Lemmas about the widget list and the rebuild loops\<close>

lemma set_take_drop: "set (take k ws) \<union> set (drop k ws) = set ws"
  using set_append [of "take k ws" "drop k ws"] by (simp only: append_take_drop_id)

lemma filter_take_drop: "filter P (take k ws) @ filter P (drop k ws) = filter P ws"
  using filter_append [of P "take k ws" "drop k ws"] by (simp only: append_take_drop_id)

lemma set_insertBeforeActionButtons:
  "set (insertBeforeActionButtons w ws) = insert w (set ws)"
  by (simp add: insertBeforeActionButtons_def Let_def set_take_drop)

lemma set_createWidgets: "set (createWidgets cs ws) = set ws \<union> Dynamic ` set cs"
  by (induction cs arbitrary: ws) (auto simp: set_insertBeforeActionButtons)

lemma createWidgets_append:
  "createWidgets (xs @ ys) ws = createWidgets ys (createWidgets xs ws)"
  by (induction xs arbitrary: ws) auto

lemma find_mid: "\<not> P w \<Longrightarrow> find P (xs @ [w] @ ys) = find P (xs @ ys)"
  by (induction xs) auto

lemma find_insert_unnamed:
  "\<not> P w \<Longrightarrow> find P (take k ws @ [w] @ drop k ws) = find P ws"
  using find_mid [of P w "take k ws" "drop k ws"] by simp

lemma seed_not_dynamic: "find (is_named nm) ws \<noteq> Some (Dynamic c)"
proof
  assume "find (is_named nm) ws = Some (Dynamic c)"
  then have "is_named nm (Dynamic c)" by (auto simp: find_Some_iff)
  then show False by (simp add: is_named_def)
qed

lemma clear_insert_at:
  "clearDynamicWidgets (take k ws @ [Dynamic c] @ drop k ws) = clearDynamicWidgets ws"
proof -
  define K where "K = (case find (is_named ''seed'') ws of None \<Rightarrow> [] | Some w \<Rightarrow> [w])
            @ [StackDataWidget, AddLoraButton, AddGroupButton]"
  have nn: "\<not> is_named ''seed'' (Dynamic c)" by (simp add: is_named_def)
  have f: "find (is_named ''seed'') (take k ws @ [Dynamic c] @ drop k ws) = find (is_named ''seed'') ws"
    using nn by (rule find_insert_unnamed)
  have notin: "Dynamic c \<notin> set K"
    using seed_not_dynamic [of "''seed''" ws c] by (auto simp: K_def split: option.splits)
  have "clearDynamicWidgets (take k ws @ [Dynamic c] @ drop k ws)
        = filter (\<lambda>w. w \<in> set K) (take k ws @ [Dynamic c] @ drop k ws)"
    unfolding clearDynamicWidgets_def Let_def f K_def ..
  also have "\<dots> = filter (\<lambda>w. w \<in> set K) ws"
    using notin by (simp add: filter_take_drop)
  also have "\<dots> = clearDynamicWidgets ws"
    unfolding clearDynamicWidgets_def Let_def K_def ..
  finally show ?thesis .
qed

lemma clear_insert:
  "clearDynamicWidgets (insertBeforeActionButtons (Dynamic c) ws) = clearDynamicWidgets ws"
  unfolding insertBeforeActionButtons_def Let_def by (rule clear_insert_at)

lemma clear_createWidgets:
  "clearDynamicWidgets (createWidgets cs ws) = clearDynamicWidgets ws"
  by (induction cs arbitrary: ws) (auto simp: clear_insert)

lemma clear_no_dynamic: "Dynamic c \<notin> set (clearDynamicWidgets ws)"
  using seed_not_dynamic [of "''seed''" ws c]
  by (auto simp: clearDynamicWidgets_def Let_def split: option.splits)

lemma find_filter_keep:
  "(\<And>x. P x \<Longrightarrow> find P xs = Some x \<Longrightarrow> Q x) \<Longrightarrow> find P (filter Q xs) = find P xs"
proof (induction xs)
  case Nil then show ?case by simp
next
  case (Cons a xs)
  show ?case
  proof (cases "P a")
    case True
    with Cons.prems [of a] show ?thesis by simp
  next
    case False
    then have "find P (filter Q xs) = find P xs" using Cons by simp
    with False show ?thesis by simp
  qed
qed

lemma clear_idem:
  "clearDynamicWidgets (clearDynamicWidgets ws) = clearDynamicWidgets ws"
proof -
  define K where "K = (case find (is_named ''seed'') ws of None \<Rightarrow> [] | Some w \<Rightarrow> [w])
            @ [StackDataWidget, AddLoraButton, AddGroupButton]"
  have c: "clearDynamicWidgets ws = filter (\<lambda>w. w \<in> set K) ws"
    by (simp add: clearDynamicWidgets_def K_def Let_def)
  have "find (is_named ''seed'') (filter (\<lambda>w. w \<in> set K) ws) = find (is_named ''seed'') ws"
    by (rule find_filter_keep) (simp add: K_def)
  then have "clearDynamicWidgets (filter (\<lambda>w. w \<in> set K) ws) = filter (\<lambda>w. w \<in> set K) (filter (\<lambda>w. w \<in> set K) ws)"
    by (simp add: clearDynamicWidgets_def K_def Let_def)
  then show ?thesis by (simp add: c)
qed

lemma assign_ids_append:
  "assign_ids m k (xs @ ys) = assign_ids (assign_ids m k xs) (k + length xs) ys"
  by (induction xs arbitrary: m k) auto

lemma assign_ids_notin: "x \<notin> set xs \<Longrightarrow> assign_ids m k xs x = m x"
  by (induction xs arbitrary: m k) auto

lemma assign_ids_nth:
  "distinct xs \<Longrightarrow> i < length xs \<Longrightarrow> assign_ids m k xs (xs ! i) = Some (k + i)"
proof (induction xs arbitrary: m k i)
  case Nil then show ?case by simp
next
  case (Cons x xs)
  show ?case
  proof (cases i)
    case 0
    with Cons.prems show ?thesis by (simp add: assign_ids_notin)
  next
    case (Suc j)
    with Cons.prems show ?thesis by (simp add: Cons.IH)
  qed
qed

lemma assign_ids_Some:
  "assign_ids m k xs x = Some v \<Longrightarrow>
     (x \<notin> set xs \<and> m x = Some v) \<or> (\<exists>i<length xs. xs ! i = x \<and> v = k + i)"
proof (induction xs arbitrary: m k)
  case Nil then show ?case by simp
next
  case (Cons y ys)
  have step: "assign_ids (m(y \<mapsto> k)) (k + 1) ys x = Some v"
    using Cons.prems by simp
  from Cons.IH [OF step]
  show ?case
  proof
    assume a: "x \<notin> set ys \<and> (m(y \<mapsto> k)) x = Some v"
    show ?thesis
    proof (cases "x = y")
      case True
      with a have "0 < length (y # ys) \<and> (y # ys) ! 0 = x \<and> v = k + 0" by simp
      then show ?thesis by blast
    next
      case False
      with a show ?thesis by simp
    qed
  next
    assume "\<exists>i<length ys. ys ! i = x \<and> v = k + 1 + i"
    then obtain i where "i < length ys" "ys ! i = x" "v = k + 1 + i" by blast
    then have "Suc i < length (y # ys) \<and> (y # ys) ! Suc i = x \<and> v = k + Suc i" by simp
    then show ?thesis by blast
  qed
qed

lemma rebuildLoras_eq:
  "rebuildLoras t ls b =
     b\<lparr>nextGlobalLoraId := nextGlobalLoraId b + length ls,
       loraIdMap := assign_ids (loraIdMap b) (nextGlobalLoraId b) (map lora_id ls),
       b_widgets := createWidgets (lora_controls t (nextGlobalLoraId b) ls) (b_widgets b)\<rparr>"
  by (induction ls arbitrary: b) (simp_all add: Let_def createLoraWidgets_def createWidgets_append)

lemma rebuildGroups_eq:
  "rebuildGroups cs ls gs b =
     b\<lparr>nextGlobalGroupId := nextGlobalGroupId b + length gs,
       groupIdMap := assign_ids (groupIdMap b) (nextGlobalGroupId b) (map grp_id gs),
       nextGlobalLoraId := nextGlobalLoraId b + length (grouped_order gs ls),
       loraIdMap := assign_ids (loraIdMap b) (nextGlobalLoraId b) (map lora_id (grouped_order gs ls)),
       b_widgets := createWidgets (group_controls cs ls (nextGlobalGroupId b) (nextGlobalLoraId b) gs) (b_widgets b)\<rparr>"
proof (induction gs arbitrary: b)
  case Nil
  then show ?case by (simp add: grouped_order_def)
next
  case (Cons g gs)
  show ?case
    by (simp add: Let_def Cons.IH rebuildLoras_eq createGroupWidgets_def createWidgets_append
        grouped_order_def members_def assign_ids_append add.assoc)
qed

lemma or_empty_map_option [simp]: "or_empty (map_option (map f) v) = map f (or_empty v)"
  by (cases v) (simp_all add: or_empty_def)

lemma rebuildUI_loraState:
  "loraState (rebuildUI n) =
     \<lparr>groups = map_option (map (updateGroupId (final_groupIdMap (or_empty (groups (loraState n))))))
                 (groups (loraState n)),
      loras = map_option (map (updateLoraIds (final_groupIdMap (or_empty (groups (loraState n))))
                 (final_loraIdMap (or_empty (groups (loraState n))) (or_empty (loras (loraState n))))))
                 (loras (loraState n))\<rparr>"
  by (simp add: rebuildUI_def Let_def rebuildGroups_eq rebuildLoras_eq final_groupIdMap_def
      final_loraIdMap_def build_order_def ungrouped_def assign_ids_append)

lemma rebuildUI_groups:
  "or_empty (groups (loraState (rebuildUI n))) = renumber_groups (or_empty (groups (loraState n)))"
  by (simp add: rebuildUI_loraState renumber_groups_def)

lemma rebuildUI_loras:
  "or_empty (loras (loraState (rebuildUI n))) =
     renumber_loras (or_empty (groups (loraState n))) (or_empty (loras (loraState n)))"
  by (simp add: rebuildUI_loraState renumber_loras_def)

lemma rebuildUI_widgets:
  "widgets (rebuildUI n) =
     createWidgets (all_controls (collapsedGroups n) (or_empty (groups (loraState n)))
                      (or_empty (loras (loraState n))))
       (clearDynamicWidgets (widgets n))"
  by (simp add: rebuildUI_def Let_def rebuildGroups_eq rebuildLoras_eq all_controls_def
      ungrouped_def createWidgets_append)

lemma rebuildUI_counters:
  "nextGroupId (rebuildUI n) = 1 + length (or_empty (groups (loraState n)))"
  "nextLoraId (rebuildUI n) =
     1 + length (build_order (or_empty (groups (loraState n))) (or_empty (loras (loraState n))))"
  by (simp_all add: rebuildUI_def Let_def rebuildGroups_eq rebuildLoras_eq build_order_def ungrouped_def)

lemma rebuildUI_frame:
  "collapsedGroups (rebuildUI n) = collapsedGroups n"
  "stack_data (rebuildUI n) = stack_data n"
  "saving (rebuildUI n) = saving n"
  "node_id (rebuildUI n) = node_id n"
  "localStorage (rebuildUI n) = localStorage n"
  "storage_ok (rebuildUI n) = storage_ok n"
  by (simp_all add: rebuildUI_def Let_def)

lemma rebuildUI_size: "node_size (rebuildUI n) = computeSize (rebuildUI n)"
  by (simp add: rebuildUI_def Let_def computeSize_def)

lemma updateGroupId_canon:
  "updateGroupId gm g = g\<lparr>grp_id := grp_id (updateGroupId gm g)\<rparr>"
  by (simp add: updateGroupId_def split: option.splits)

lemma updateLoraIds_canon:
  "updateLoraIds gm lm l =
     l\<lparr>lora_id := lora_id (updateLoraIds gm lm l), group_id := group_id (updateLoraIds gm lm l)\<rparr>"
  by (simp add: updateLoraIds_def Let_def split: option.splits)

lemma groupWidgets_ignores_id: "groupWidgets cs k (g\<lparr>grp_id := a\<rparr>) = groupWidgets cs k g"
  by (simp add: groupWidgets_def)

lemma loraWidgets_ignores_ids:
  "loraWidgets k t (l\<lparr>lora_id := a, group_id := b\<rparr>) = loraWidgets k t l"
  by (simp add: loraWidgets_def createGroupedLoraControls_def createUngroupedLoraControls_def)

lemma groupWidgets_update: "groupWidgets cs k (updateGroupId gm g) = groupWidgets cs k g"
  using groupWidgets_ignores_id [where g = g and a = "grp_id (updateGroupId gm g)" and cs = cs and k = k]
  by (simp only: updateGroupId_canon [symmetric])

lemma loraWidgets_update: "loraWidgets k t (updateLoraIds gm lm l) = loraWidgets k t l"
  using loraWidgets_ignores_ids [where l = l and a = "lora_id (updateLoraIds gm lm l)"
      and b = "group_id (updateLoraIds gm lm l)" and k = k and t = t]
  by (simp only: updateLoraIds_canon [symmetric])

lemma lora_controls_update:
  "lora_controls t k (map (updateLoraIds gm lm) ls) = lora_controls t k ls"
  by (induction ls arbitrary: k) (simp_all add: loraWidgets_update)

lemma final_groupIdMap_nth:
  "distinct (map grp_id gs) \<Longrightarrow> j < length gs \<Longrightarrow> final_groupIdMap gs (grp_id (gs ! j)) = Some (Suc j)"
  using assign_ids_nth [of "map grp_id gs" j Map.empty 1] by (simp add: final_groupIdMap_def)

lemma final_groupIdMap_None:
  "x \<notin> grp_id ` set gs \<Longrightarrow> final_groupIdMap gs x = None"
  by (simp add: final_groupIdMap_def assign_ids_notin)

lemma updateGroupId_nth:
  "distinct (map grp_id gs) \<Longrightarrow> j < length gs \<Longrightarrow>
     updateGroupId (final_groupIdMap gs) (gs ! j) = (gs ! j)\<lparr>grp_id := Suc j\<rparr>"
  by (simp add: updateGroupId_def final_groupIdMap_nth)

lemma renumber_groups_ids:
  assumes "distinct (map grp_id gs)"
  shows "map grp_id (renumber_groups gs) = map Suc [0..<length gs]"
proof (rule nth_equalityI)
  show "length (map grp_id (renumber_groups gs)) = length (map Suc [0..<length gs])"
    by (simp add: renumber_groups_def)
next
  fix j assume "j < length (map grp_id (renumber_groups gs))"
  then have j: "j < length gs" by (simp add: renumber_groups_def)
  then show "map grp_id (renumber_groups gs) ! j = map Suc [0..<length gs] ! j"
    using assms by (simp add: renumber_groups_def updateGroupId_nth)
qed

lemma in_members: "x \<in> set (members gid ls) \<longleftrightarrow> x \<in> set ls \<and> group_id x = Some gid"
  by (auto simp: members_def)

lemma in_ungrouped: "x \<in> set (ungrouped ls) \<longleftrightarrow> x \<in> set ls \<and> \<not> truthy (group_id x)"
  by (auto simp: ungrouped_def)

lemma in_grouped_order:
  "x \<in> set (grouped_order gs ls) \<longleftrightarrow> x \<in> set ls \<and> (\<exists>g\<in>set gs. group_id x = Some (grp_id g))"
  by (auto simp: grouped_order_def in_members)

lemma in_build_order:
  "x \<in> set (build_order gs ls) \<longleftrightarrow>
     x \<in> set ls \<and> ((\<exists>g\<in>set gs. group_id x = Some (grp_id g)) \<or> \<not> truthy (group_id x))"
  by (auto simp: build_order_def in_grouped_order in_ungrouped)

lemma grouped_order_Cons:
  "grouped_order (g # gs) ls = members (grp_id g) ls @ grouped_order gs ls"
  by (simp add: grouped_order_def)

lemma distinct_build_order:
  assumes "distinct (map grp_id gs)" and "0 \<notin> grp_id ` set gs" and "distinct ls"
  shows "distinct (build_order gs ls)"
  using assms(1,2)
proof (induction gs)
  case Nil
  then show ?case using assms(3) by (simp add: build_order_def grouped_order_def ungrouped_def)
next
  case (Cons g gs)
  have ih: "distinct (grouped_order gs ls @ ungrouped ls)"
    using Cons by (simp add: build_order_def)
  have dm: "distinct (members (grp_id g) ls)"
    using assms(3) by (simp add: members_def)
  have disj: "x \<notin> set (grouped_order gs ls @ ungrouped ls)" if "x \<in> set (members (grp_id g) ls)" for x
  proof -
    from that have gx: "group_id x = Some (grp_id g)" by (simp add: in_members)
    have "grp_id g \<noteq> 0" using Cons.prems(2) by auto
    then have "truthy (group_id x)" using gx by (simp add: truthy_def)
    moreover have "\<not> (\<exists>g'\<in>set gs. group_id x = Some (grp_id g'))"
      using Cons.prems(1) gx by auto
    ultimately show ?thesis by (simp add: in_grouped_order in_ungrouped)
  qed
  show ?case
    unfolding build_order_def grouped_order_Cons append_assoc
    using ih dm disj by (simp only: distinct_append) blast
qed

lemma distinct_ids_build_order:
  assumes "distinct (map grp_id gs)" and "0 \<notin> grp_id ` set gs" and "distinct (map lora_id ls)"
  shows "distinct (map lora_id (build_order gs ls))"
proof -
  from assms(3) have d: "distinct ls" and inj: "inj_on lora_id (set ls)"
    by (simp_all add: distinct_map)
  have sub: "set (build_order gs ls) \<subseteq> set ls"
    by (auto simp: in_build_order)
  have "distinct (build_order gs ls)"
    using assms(1,2) d by (rule distinct_build_order)
  moreover have "inj_on lora_id (set (build_order gs ls))"
    using inj sub by (rule inj_on_subset)
  ultimately show ?thesis by (simp add: distinct_map)
qed

lemma set_build_order:
  assumes "\<forall>l\<in>set ls. group_id l \<in> set (map (\<lambda>g. Some (grp_id g)) gs) \<or> \<not> truthy (group_id l)"
  shows "set (build_order gs ls) = set ls"
proof (rule set_eqI)
  fix x
  show "x \<in> set (build_order gs ls) \<longleftrightarrow> x \<in> set ls"
  proof
    assume "x \<in> set (build_order gs ls)"
    then show "x \<in> set ls" by (simp add: in_build_order)
  next
    assume x: "x \<in> set ls"
    with assms have "group_id x \<in> set (map (\<lambda>g. Some (grp_id g)) gs) \<or> \<not> truthy (group_id x)"
      by blast
    then have "(\<exists>g\<in>set gs. group_id x = Some (grp_id g)) \<or> \<not> truthy (group_id x)"
      by auto
    with x show "x \<in> set (build_order gs ls)" by (simp add: in_build_order)
  qed
qed

lemma length_build_order:
  assumes "distinct (map grp_id gs)" and "0 \<notin> grp_id ` set gs" and "distinct (map lora_id ls)"
      and "\<forall>l\<in>set ls. group_id l \<in> set (map (\<lambda>g. Some (grp_id g)) gs) \<or> \<not> truthy (group_id l)"
  shows "length (build_order gs ls) = length ls"
proof -
  from assms(3) have d: "distinct ls" by (simp add: distinct_map)
  have db: "distinct (build_order gs ls)"
    using assms(1,2) d by (rule distinct_build_order)
  have "length (build_order gs ls) = card (set (build_order gs ls))"
    using db by (simp add: distinct_card)
  also have "\<dots> = card (set ls)" using set_build_order [OF assms(4)] by simp
  also have "\<dots> = length ls" using d by (simp add: distinct_card)
  finally show ?thesis .
qed

lemma final_loraIdMap_nth:
  assumes "distinct (map grp_id gs)" and "0 \<notin> grp_id ` set gs" and "distinct (map lora_id ls)"
      and "i < length (build_order gs ls)"
  shows "final_loraIdMap gs ls (lora_id (build_order gs ls ! i)) = Some (Suc i)"
  using assign_ids_nth [OF distinct_ids_build_order [OF assms(1-3)], of i Map.empty 1] assms(4)
  by (simp add: final_loraIdMap_def)

lemma final_loraIdMap_None:
  "x \<notin> lora_id ` set (build_order gs ls) \<Longrightarrow> final_loraIdMap gs ls x = None"
  by (simp add: final_loraIdMap_def assign_ids_notin)

lemma updateLoraIds_id_Some:
  "lm (lora_id l) = Some k \<Longrightarrow> k \<noteq> 0 \<Longrightarrow> lora_id (updateLoraIds gm lm l) = k"
  by (simp add: updateLoraIds_def Let_def split: option.splits)

lemma updateLoraIds_id_None:
  "lm (lora_id l) = None \<Longrightarrow> lora_id (updateLoraIds gm lm l) = lora_id l"
  by (simp add: updateLoraIds_def Let_def split: option.splits)

lemma updateLoraIds_gid_falsy:
  "\<not> truthy (group_id l) \<Longrightarrow> group_id (updateLoraIds gm lm l) = None"
  by (simp add: updateLoraIds_def Let_def split: option.splits)

lemma updateLoraIds_gid_Some:
  "group_id l = Some gid \<Longrightarrow> gid \<noteq> 0 \<Longrightarrow> gm gid = Some k \<Longrightarrow>
     group_id (updateLoraIds gm lm l) = Some k"
  by (simp add: updateLoraIds_def Let_def truthy_def split: option.splits)

lemma updateLoraIds_gid_None:
  "group_id l = Some gid \<Longrightarrow> gid \<noteq> 0 \<Longrightarrow> gm gid = None \<Longrightarrow>
     group_id (updateLoraIds gm lm l) = Some gid"
  by (simp add: updateLoraIds_def Let_def truthy_def split: option.splits)

lemma renumbered_gid_nth:
  assumes "distinct (map grp_id gs)" and "0 \<notin> grp_id ` set gs"
      and "j < length gs" and "group_id l = Some (grp_id (gs ! j))"
  shows "group_id (updateLoraIds (final_groupIdMap gs) lm l) = Some (Suc j)"
proof -
  have "grp_id (gs ! j) \<noteq> 0" using assms(2,3) by (metis image_eqI nth_mem)
  then show ?thesis
    using assms(1,3,4) by (simp add: updateLoraIds_gid_Some final_groupIdMap_nth)
qed

lemma membership_preserved:
  assumes dg: "distinct (map grp_id gs)" and nz: "0 \<notin> grp_id ` set gs"
      and ref: "group_id l \<in> set (map (\<lambda>g. Some (grp_id g)) gs) \<or> \<not> truthy (group_id l)"
      and g: "g \<in> set gs"
  shows "(group_id (updateLoraIds (final_groupIdMap gs) lm l)
            = Some (grp_id (updateGroupId (final_groupIdMap gs) g)))
         = (group_id l = Some (grp_id g))"
proof -
  from g obtain j where j: "j < length gs" "gs ! j = g" by (auto simp: in_set_conv_nth)
  have gj: "grp_id (updateGroupId (final_groupIdMap gs) g) = Suc j"
    using updateGroupId_nth [OF dg j(1)] j(2) by simp
  have gnz: "grp_id g \<noteq> 0" using nz g by auto
  show ?thesis
  proof (cases "truthy (group_id l)")
    case False
    then have "group_id (updateLoraIds (final_groupIdMap gs) lm l) = None"
      by (rule updateLoraIds_gid_falsy)
    moreover have "group_id l \<noteq> Some (grp_id g)"
      using False gnz by (auto simp: truthy_def)
    ultimately show ?thesis by simp
  next
    case True
    with ref obtain g' where g': "g' \<in> set gs" "group_id l = Some (grp_id g')" by auto
    then obtain j' where j': "j' < length gs" "gs ! j' = g'" by (auto simp: in_set_conv_nth)
    have "group_id (updateLoraIds (final_groupIdMap gs) lm l) = Some (Suc j')"
      using renumbered_gid_nth [OF dg nz j'(1)] g'(2) j'(2) by simp
    moreover have "(j' = j) = (grp_id g' = grp_id g)"
      using nth_eq_iff_index_eq [OF dg, of j' j] j j' by simp
    ultimately show ?thesis using gj g'(2) by simp
  qed
qed

lemma truthy_preserved:
  assumes dg: "distinct (map grp_id gs)" and nz: "0 \<notin> grp_id ` set gs"
      and ref: "group_id l \<in> set (map (\<lambda>g. Some (grp_id g)) gs) \<or> \<not> truthy (group_id l)"
  shows "truthy (group_id (updateLoraIds (final_groupIdMap gs) lm l)) = truthy (group_id l)"
proof (cases "truthy (group_id l)")
  case False
  then show ?thesis by (simp add: updateLoraIds_gid_falsy truthy_def)
next
  case True
  with ref obtain g' where g': "g' \<in> set gs" "group_id l = Some (grp_id g')" by auto
  then obtain j' where j': "j' < length gs" "gs ! j' = g'" by (auto simp: in_set_conv_nth)
  have "group_id (updateLoraIds (final_groupIdMap gs) lm l) = Some (Suc j')"
    using renumbered_gid_nth [OF dg nz j'(1)] g'(2) j'(2) by simp
  then show ?thesis using True by (simp add: truthy_def)
qed

lemma lists_okI:
  "ids_ok s \<Longrightarrow> refs_ok s \<Longrightarrow> lists_ok (or_empty (groups s)) (or_empty (loras s))"
  by (simp add: ids_ok_def refs_ok_def lists_ok_def list_all_iff)

lemma members_cong:
  assumes "\<And>l. l \<in> set ls \<Longrightarrow> (group_id (h l) = Some gid') = (group_id l = Some gid)"
  shows "members gid' (map h ls) = map h (members gid ls)"
proof -
  have "filter ((\<lambda>l. group_id l = Some gid') \<circ> h) ls = filter (\<lambda>l. group_id l = Some gid) ls"
    by (rule filter_cong) (simp_all add: assms)
  then show ?thesis by (simp add: members_def filter_map)
qed

lemma ungrouped_cong:
  assumes "\<And>l. l \<in> set ls \<Longrightarrow> truthy (group_id (h l)) = truthy (group_id l)"
  shows "ungrouped (map h ls) = map h (ungrouped ls)"
proof -
  have "filter ((\<lambda>l. \<not> truthy (group_id l)) \<circ> h) ls = filter (\<lambda>l. \<not> truthy (group_id l)) ls"
    by (rule filter_cong) (simp_all add: assms)
  then show ?thesis by (simp add: ungrouped_def filter_map)
qed

lemma grouped_order_cong:
  assumes "\<And>g l. g \<in> set gs \<Longrightarrow> l \<in> set ls \<Longrightarrow>
             (group_id (h l) = Some (grp_id (f g))) = (group_id l = Some (grp_id g))"
  shows "grouped_order (map f gs) (map h ls) = map h (grouped_order gs ls)"
  using assms
proof (induction gs)
  case Nil
  then show ?case by (simp add: grouped_order_def)
next
  case (Cons g gs)
  have "members (grp_id (f g)) (map h ls) = map h (members (grp_id g) ls)"
    by (rule members_cong) (simp add: Cons.prems)
  moreover have "grouped_order (map f gs) (map h ls) = map h (grouped_order gs ls)"
    by (rule Cons.IH) (simp add: Cons.prems)
  ultimately show ?case by (simp add: grouped_order_Cons)
qed

lemma group_controls_cong:
  assumes "\<And>g l. g \<in> set gs \<Longrightarrow> l \<in> set ls \<Longrightarrow>
             (group_id (updateLoraIds gm lm l) = Some (grp_id (updateGroupId gm' g)))
             = (group_id l = Some (grp_id g))"
  shows "group_controls cs (map (updateLoraIds gm lm) ls) kg kl (map (updateGroupId gm') gs)
         = group_controls cs ls kg kl gs"
  using assms
proof (induction gs arbitrary: kg kl)
  case Nil
  then show ?case by simp
next
  case (Cons g gs)
  have m: "members (grp_id (updateGroupId gm' g)) (map (updateLoraIds gm lm) ls)
           = map (updateLoraIds gm lm) (members (grp_id g) ls)"
    by (rule members_cong) (simp add: Cons.prems)
  have ih: "group_controls cs (map (updateLoraIds gm lm) ls) kg' kl' (map (updateGroupId gm') gs)
            = group_controls cs ls kg' kl' gs" for kg' kl'
    by (rule Cons.IH) (simp add: Cons.prems)
  show ?case
    by (simp add: m ih groupWidgets_update lora_controls_update)
qed

lemma renumber_build_order:
  assumes "lists_ok gs ls"
  shows "build_order (renumber_groups gs) (renumber_loras gs ls)
         = map (updateLoraIds (final_groupIdMap gs) (final_loraIdMap gs ls)) (build_order gs ls)"
proof -
  from assms have dg: "distinct (map grp_id gs)" and nz: "0 \<notin> grp_id ` set gs"
    and ref: "\<And>l. l \<in> set ls \<Longrightarrow>
                group_id l \<in> set (map (\<lambda>g. Some (grp_id g)) gs) \<or> \<not> truthy (group_id l)"
    by (simp_all add: lists_ok_def)
  have "grouped_order (renumber_groups gs) (renumber_loras gs ls)
        = map (updateLoraIds (final_groupIdMap gs) (final_loraIdMap gs ls)) (grouped_order gs ls)"
    unfolding renumber_groups_def renumber_loras_def
    by (rule grouped_order_cong) (simp add: membership_preserved [OF dg nz ref])
  moreover have "ungrouped (renumber_loras gs ls)
        = map (updateLoraIds (final_groupIdMap gs) (final_loraIdMap gs ls)) (ungrouped ls)"
    unfolding renumber_loras_def
    by (rule ungrouped_cong) (simp add: truthy_preserved [OF dg nz ref])
  ultimately show ?thesis by (simp add: build_order_def)
qed

lemma renumber_all_controls:
  assumes "lists_ok gs ls"
  shows "all_controls cs (renumber_groups gs) (renumber_loras gs ls) = all_controls cs gs ls"
proof -
  from assms have dg: "distinct (map grp_id gs)" and nz: "0 \<notin> grp_id ` set gs"
    and ref: "\<And>l. l \<in> set ls \<Longrightarrow>
                group_id l \<in> set (map (\<lambda>g. Some (grp_id g)) gs) \<or> \<not> truthy (group_id l)"
    by (simp_all add: lists_ok_def)
  have go: "grouped_order (renumber_groups gs) (renumber_loras gs ls)
        = map (updateLoraIds (final_groupIdMap gs) (final_loraIdMap gs ls)) (grouped_order gs ls)"
    unfolding renumber_groups_def renumber_loras_def
    by (rule grouped_order_cong) (simp add: membership_preserved [OF dg nz ref])
  have ug: "ungrouped (renumber_loras gs ls)
        = map (updateLoraIds (final_groupIdMap gs) (final_loraIdMap gs ls)) (ungrouped ls)"
    unfolding renumber_loras_def
    by (rule ungrouped_cong) (simp add: truthy_preserved [OF dg nz ref])
  have gc: "group_controls cs (renumber_loras gs ls) kg kl (renumber_groups gs)
        = group_controls cs ls kg kl gs" for kg kl
    unfolding renumber_groups_def renumber_loras_def
    by (rule group_controls_cong) (simp add: membership_preserved [OF dg nz ref])
  show ?thesis
    by (simp add: all_controls_def go ug gc lora_controls_update)
qed

lemma renumber_lora_ids:
  assumes "lists_ok gs ls"
  shows "map lora_id (build_order (renumber_groups gs) (renumber_loras gs ls))
         = map Suc [0..<length ls]"
proof -
  from assms have dg: "distinct (map grp_id gs)" and nz: "0 \<notin> grp_id ` set gs"
    and dl: "distinct (map lora_id ls)"
    and ref: "\<forall>l\<in>set ls. group_id l \<in> set (map (\<lambda>g. Some (grp_id g)) gs) \<or> \<not> truthy (group_id l)"
    by (simp_all add: lists_ok_def)
  have len: "length (build_order gs ls) = length ls"
    using dg nz dl ref by (rule length_build_order)
  show ?thesis
  proof (rule nth_equalityI)
    show "length (map lora_id (build_order (renumber_groups gs) (renumber_loras gs ls)))
          = length (map Suc [0..<length ls])"
      by (simp add: renumber_build_order [OF assms] len)
  next
    fix i assume "i < length (map lora_id (build_order (renumber_groups gs) (renumber_loras gs ls)))"
    then have i: "i < length (build_order gs ls)"
      by (simp add: renumber_build_order [OF assms])
    have "lora_id (updateLoraIds (final_groupIdMap gs) (final_loraIdMap gs ls) (build_order gs ls ! i))
          = Suc i"
      by (rule updateLoraIds_id_Some) (simp_all add: final_loraIdMap_nth [OF dg nz dl i])
    then show "map lora_id (build_order (renumber_groups gs) (renumber_loras gs ls)) ! i
          = map Suc [0..<length ls] ! i"
      using i len by (simp add: renumber_build_order [OF assms])
  qed
qed

lemma assign_ids_upt:
  "x \<in> set (map Suc [0..<n]) \<Longrightarrow> assign_ids Map.empty 1 (map Suc [0..<n]) x = Some x"
proof -
  assume "x \<in> set (map Suc [0..<n])"
  then have "x \<in> Suc ` set [0..<n]" by (simp only: set_map)
  then obtain i where "i \<in> set [0..<n]" and xi: "x = Suc i" by blast
  then have i: "i < n" "x = Suc i" by simp_all
  have d: "distinct (map Suc [0..<n])" by (simp add: distinct_map)
  have "assign_ids Map.empty 1 (map Suc [0..<n]) (map Suc [0..<n] ! i) = Some (1 + i)"
    by (rule assign_ids_nth [OF d]) (simp add: i)
  then show ?thesis using i by simp
qed

lemma updateGroupId_fixed: "gm (grp_id g) = Some (grp_id g) \<Longrightarrow> updateGroupId gm g = g"
  by (simp add: updateGroupId_def)

lemma updateLoraIds_fixed:
  assumes "lm (lora_id l) = Some (lora_id l)"
      and "truthy (group_id l) \<Longrightarrow> gm (the (group_id l)) = Some (the (group_id l))"
      and "\<not> truthy (group_id l) \<Longrightarrow> group_id l = None"
  shows "updateLoraIds gm lm l = l"
proof (cases "truthy (group_id l)")
  case True
  then obtain k where "group_id l = Some k" by (auto simp: truthy_def split: option.splits)
  with True assms(1,2) show ?thesis by (simp add: updateLoraIds_def Let_def)
next
  case False
  with assms(1,3) show ?thesis by (simp add: updateLoraIds_def Let_def)
qed

lemma renumber_refs:
  assumes "lists_ok gs ls" and "l1 \<in> set (renumber_loras gs ls)"
  shows "group_id l1 \<in> set (map (\<lambda>g. Some (grp_id g)) (renumber_groups gs)) \<or> group_id l1 = None"
proof -
  from assms(1) have dg: "distinct (map grp_id gs)" and nz: "0 \<notin> grp_id ` set gs"
    and ref: "\<And>l. l \<in> set ls \<Longrightarrow>
                group_id l \<in> set (map (\<lambda>g. Some (grp_id g)) gs) \<or> \<not> truthy (group_id l)"
    by (simp_all add: lists_ok_def)
  from assms(2) obtain l where l: "l \<in> set ls"
    and l1: "l1 = updateLoraIds (final_groupIdMap gs) (final_loraIdMap gs ls) l"
    by (auto simp: renumber_loras_def)
  show ?thesis
  proof (cases "truthy (group_id l)")
    case False
    then show ?thesis by (simp add: l1 updateLoraIds_gid_falsy)
  next
    case True
    with ref [OF l] obtain g where g: "g \<in> set gs" "group_id l = Some (grp_id g)" by auto
    have "group_id l1 = Some (grp_id (updateGroupId (final_groupIdMap gs) g))"
      using membership_preserved [OF dg nz ref [OF l] g(1), of "final_loraIdMap gs ls"] g(2) l1
      by simp
    moreover have "updateGroupId (final_groupIdMap gs) g \<in> set (renumber_groups gs)"
      using g(1) by (simp add: renumber_groups_def)
    ultimately show ?thesis by auto
  qed
qed

lemma lists_ok_renumber:
  assumes "lists_ok gs ls"
  shows "lists_ok (renumber_groups gs) (renumber_loras gs ls)"
proof -
  let ?gs1 = "renumber_groups gs" and ?ls1 = "renumber_loras gs ls"
  from assms have dg: "distinct (map grp_id gs)" and nz: "0 \<notin> grp_id ` set gs"
    and dl: "distinct (map lora_id ls)"
    and ref: "\<forall>l\<in>set ls. group_id l \<in> set (map (\<lambda>g. Some (grp_id g)) gs) \<or> \<not> truthy (group_id l)"
    by (simp_all add: lists_ok_def)
  have ids: "map grp_id ?gs1 = map Suc [0..<length gs]"
    using dg by (rule renumber_groups_ids)
  have dg1: "distinct (map grp_id ?gs1)" by (simp add: ids distinct_map)
  have nz1: "0 \<notin> grp_id ` set ?gs1"
  proof -
    have "0 \<notin> set (map grp_id ?gs1)" unfolding ids by auto
    then show ?thesis by simp
  qed
  have ref1: "\<forall>l\<in>set ?ls1. group_id l \<in> set (map (\<lambda>g. Some (grp_id g)) ?gs1) \<or> \<not> truthy (group_id l)"
  proof
    fix l1 assume a: "l1 \<in> set ?ls1"
    from renumber_refs [OF assms a]
    show "group_id l1 \<in> set (map (\<lambda>g. Some (grp_id g)) ?gs1) \<or> \<not> truthy (group_id l1)"
      by (auto simp: truthy_def)
  qed
  have bo: "map lora_id (build_order ?gs1 ?ls1) = map Suc [0..<length ls]"
    using assms by (rule renumber_lora_ids)
  have dmb: "distinct (map lora_id (build_order ?gs1 ?ls1))" by (simp add: bo distinct_map)
  then have db: "distinct (build_order ?gs1 ?ls1)" and inj: "inj_on lora_id (set (build_order ?gs1 ?ls1))"
    by (simp_all add: distinct_map)
  have seteq: "set (build_order ?gs1 ?ls1) = set ?ls1"
    using ref1 by (rule set_build_order)
  have "length (build_order ?gs1 ?ls1) = length ls"
    using arg_cong [OF bo, of length] by simp
  then have "card (set ?ls1) = length ?ls1"
    using db seteq by (simp add: distinct_card [symmetric] renumber_loras_def)
  then have "distinct ?ls1" by (rule card_distinct)
  moreover have "inj_on lora_id (set ?ls1)" using inj seteq by simp
  ultimately have dl1: "distinct (map lora_id ?ls1)" by (simp add: distinct_map)
  show ?thesis using dg1 nz1 dl1 ref1 by (simp add: lists_ok_def)
qed

lemma canonical_renumber:
  assumes "lists_ok gs ls"
  shows "canonical (renumber_groups gs) (renumber_loras gs ls)"
proof -
  from assms have dg: "distinct (map grp_id gs)" by (simp add: lists_ok_def)
  have "\<forall>l\<in>set (renumber_loras gs ls). \<not> truthy (group_id l) \<longrightarrow> group_id l = None"
  proof
    fix l1 assume "l1 \<in> set (renumber_loras gs ls)"
    from renumber_refs [OF assms this] lists_ok_renumber [OF assms]
    show "\<not> truthy (group_id l1) \<longrightarrow> group_id l1 = None"
      by (auto simp: lists_ok_def truthy_def)
  qed
  then show ?thesis
    using lists_ok_renumber [OF assms] renumber_groups_ids [OF dg] renumber_lora_ids [OF assms]
    by (simp add: canonical_def renumber_groups_def renumber_loras_def)
qed

lemma canonical_groups_fixed:
  assumes "canonical gs ls"
  shows "renumber_groups gs = gs"
proof -
  from assms have ids: "map grp_id gs = map Suc [0..<length gs]" by (simp add: canonical_def)
  have "updateGroupId (final_groupIdMap gs) g = g" if "g \<in> set gs" for g
  proof (rule updateGroupId_fixed)
    from that have "grp_id g \<in> set (map grp_id gs)" by simp
    then have "grp_id g \<in> set (map Suc [0..<length gs])" by (simp only: ids)
    then have "assign_ids Map.empty 1 (map Suc [0..<length gs]) (grp_id g) = Some (grp_id g)"
      by (rule assign_ids_upt)
    then show "final_groupIdMap gs (grp_id g) = Some (grp_id g)"
      by (simp add: final_groupIdMap_def ids)
  qed
  then show ?thesis by (simp add: renumber_groups_def map_idI)
qed

lemma canonical_loras_fixed:
  assumes "canonical gs ls"
  shows "renumber_loras gs ls = ls"
proof -
  from assms have ok: "lists_ok gs ls"
    and ids: "map grp_id gs = map Suc [0..<length gs]"
    and lids: "map lora_id (build_order gs ls) = map Suc [0..<length ls]"
    and fz: "\<And>l. l \<in> set ls \<Longrightarrow> \<not> truthy (group_id l) \<Longrightarrow> group_id l = None"
    by (simp_all add: canonical_def)
  from ok have ref: "\<forall>l\<in>set ls. group_id l \<in> set (map (\<lambda>g. Some (grp_id g)) gs) \<or> \<not> truthy (group_id l)"
    by (simp add: lists_ok_def)
  have seteq: "set (build_order gs ls) = set ls" using ref by (rule set_build_order)
  have "updateLoraIds (final_groupIdMap gs) (final_loraIdMap gs ls) l = l" if l: "l \<in> set ls" for l
  proof (rule updateLoraIds_fixed)
    from l seteq have "lora_id l \<in> set (map lora_id (build_order gs ls))" by simp
    then have "lora_id l \<in> set (map Suc [0..<length ls])" by (simp only: lids)
    then have "assign_ids Map.empty 1 (map Suc [0..<length ls]) (lora_id l) = Some (lora_id l)"
      by (rule assign_ids_upt)
    then show "final_loraIdMap gs ls (lora_id l) = Some (lora_id l)"
      by (simp add: final_loraIdMap_def lids)
  next
    assume t: "truthy (group_id l)"
    with ref l obtain g where g: "g \<in> set gs" "group_id l = Some (grp_id g)" by auto
    then have "grp_id g \<in> set (map grp_id gs)" by simp
    then have "grp_id g \<in> set (map Suc [0..<length gs])" by (simp only: ids)
    then have "assign_ids Map.empty 1 (map Suc [0..<length gs]) (grp_id g) = Some (grp_id g)"
      by (rule assign_ids_upt)
    then show "final_groupIdMap gs (the (group_id l)) = Some (the (group_id l))"
      by (simp add: final_groupIdMap_def ids g(2))
  next
    assume "\<not> truthy (group_id l)"
    then show "group_id l = None" using l by (rule fz [rotated])
  qed
  then show ?thesis by (simp add: renumber_loras_def map_idI)
qed

lemma rebuildUI_canonical_state:
  assumes "canonical (or_empty (groups (loraState n))) (or_empty (loras (loraState n)))"
  shows "loraState (rebuildUI n) = loraState n"
proof -
  let ?gs = "or_empty (groups (loraState n))" and ?ls = "or_empty (loras (loraState n))"
  have g: "map (updateGroupId (final_groupIdMap ?gs)) ?gs = ?gs"
    using canonical_groups_fixed [OF assms] by (simp add: renumber_groups_def)
  have l: "map (updateLoraIds (final_groupIdMap ?gs) (final_loraIdMap ?gs ?ls)) ?ls = ?ls"
    using canonical_loras_fixed [OF assms] by (simp add: renumber_loras_def)
  have "map_option (map (updateGroupId (final_groupIdMap ?gs))) (groups (loraState n)) = groups (loraState n)"
    using g by (cases "groups (loraState n)") (simp_all add: or_empty_def)
  moreover have "map_option (map (updateLoraIds (final_groupIdMap ?gs) (final_loraIdMap ?gs ?ls))) (loras (loraState n))
        = loras (loraState n)"
    using l by (cases "loras (loraState n)") (simp_all add: or_empty_def)
  ultimately show ?thesis by (simp add: rebuildUI_loraState)
qed

lemma rebuildUI_eq:
  "rebuildUI n =
     n\<lparr>widgets := createWidgets (all_controls (collapsedGroups n) (the_groups n) (the_loras n))
                    (clearDynamicWidgets (widgets n)),
       loraState := \<lparr>groups = map_option (map (updateGroupId (final_groupIdMap (the_groups n))))
                                (groups (loraState n)),
                     loras = map_option (map (updateLoraIds (final_groupIdMap (the_groups n))
                                (final_loraIdMap (the_groups n) (the_loras n))))
                                (loras (loraState n))\<rparr>,
       nextGroupId := 1 + length (the_groups n),
       nextLoraId := 1 + length (build_order (the_groups n) (the_loras n)),
       node_size := (450, max 140 (60 + sum_list (map widget_height
                      (createWidgets (all_controls (collapsedGroups n) (the_groups n) (the_loras n))
                         (clearDynamicWidgets (widgets n))))))\<rparr>"
  by (simp add: rebuildUI_def Let_def rebuildGroups_eq rebuildLoras_eq all_controls_def
      ungrouped_def createWidgets_append final_groupIdMap_def final_loraIdMap_def build_order_def
      assign_ids_append computeSize_def the_groups_def the_loras_def)

lemma rebuildUI_more: "node.more (rebuildUI n) = node.more n"
  by (simp add: rebuildUI_def Let_def)

subsection \<open>Evaluating the examples\<close>

lemmas example_defs =
  sample_node_def sample_state_def fresh_node_def onNodeCreated_def or_empty_def
  group_a_def group_b_def item_free_def item_in_b_def item_in_a_def newLora_def truthy_def
  dangling_node_def dangling_state_def the_groups_def the_loras_def

lemmas eval_defs =
  rebuildUI_eq all_controls_def grouped_order_def members_def ungrouped_def build_order_def
  groupWidgets_def loraWidgets_def createGroupedLoraControls_def createUngroupedLoraControls_def
  float_control_def boolean_control_def num_value_def bool_value_def tag_of_def truthy_bool_def
  clearDynamicWidgets_def is_named_def insertBeforeActionButtons_def
  final_groupIdMap_def final_loraIdMap_def updateGroupId_def updateLoraIds_def Let_def

lemma sample_ids_ok: "ids_ok (loraState sample_node)"
  by (simp add: example_defs ids_ok_def)

lemma sample_refs_ok: "refs_ok (loraState sample_node)"
  by (simp add: example_defs refs_ok_def)

lemma saveState_stack_data: "\<not> saving n \<Longrightarrow> stack_data (saveState n) = Text (loraState n)"
  by (simp add: saveState_def Let_def saveStateToLocalStorage_def)

lemma saveState_frame:
  "loraState (saveState n) = loraState n"
  "widgets (saveState n) = widgets n"
  "saving (saveState n) = saving n"
  "collapsedGroups (saveState n) = collapsedGroups n"
  "nextGroupId (saveState n) = nextGroupId n"
  "nextLoraId (saveState n) = nextLoraId n"
  by (simp_all add: saveState_def Let_def saveStateToLocalStorage_def)

lemma saveState_localStorage:
  "\<not> saving n \<Longrightarrow> storage_ok n \<Longrightarrow> truthy_id (node_id n) \<Longrightarrow>
     localStorage (saveState n) (node_id n) = Text (loraState n)"
  by (simp add: saveState_def Let_def saveStateToLocalStorage_def)

lemma restoreState_Text:
  "stack_data n = Text s \<Longrightarrow>
     restoreState n = rebuildUI (n\<lparr>widgets := clearDynamicWidgets (widgets n), loraState := s\<rparr>)"
  by (simp add: restoreState_def)

lemma restoreState_BadText: "stack_data n = BadText \<Longrightarrow> restoreState n = n"
  by (simp add: restoreState_def)

lemma onConfigure_primed:
  "findIndex (is_named ''stack_data'') (widgets m) = Some k \<Longrightarrow> k < length vs \<Longrightarrow>
     vs ! k = Text s \<Longrightarrow>
     onConfigure (Some vs) m =
       rebuildUI (m\<lparr>stack_data := Text s, widgets := clearDynamicWidgets (widgets m), loraState := s\<rparr>)"
  by (simp add: onConfigure_def Let_def restoreState_Text)

lemma list_all2_map_same:
  "(\<And>x. x \<in> set xs \<Longrightarrow> P x (f x)) \<Longrightarrow> list_all2 P xs (map f xs)"
  by (induction xs) auto

lemma rebuild_keeps_typing:
  assumes "ids_ok (loraState n)" and "refs_ok (loraState n)"
  shows "ids_ok (loraState (rebuildUI n))" and "refs_ok (loraState (rebuildUI n))"
proof -
  have "lists_ok (or_empty (groups (loraState (rebuildUI n)))) (or_empty (loras (loraState (rebuildUI n))))"
    unfolding rebuildUI_groups rebuildUI_loras
    using lists_okI [OF assms] by (rule lists_ok_renumber)
  then show "ids_ok (loraState (rebuildUI n))" and "refs_ok (loraState (rebuildUI n))"
    by (simp_all add: lists_ok_def ids_ok_def refs_ok_def list_all_iff)
qed

lemma restoreState_fallback:
  assumes "stack_data n = NoText" and "storage_ok n" and "localStorage n (node_id n) = Text s"
      and "\<not> saving n"
  shows "restoreState n =
           rebuildUI ((saveState (n\<lparr>loraState := s\<rparr>))
                        \<lparr>widgets := clearDynamicWidgets (widgets n), loraState := s\<rparr>)"
proof -
  have l: "loadStateFromLocalStorage (node_id n) n = Some s"
    using assms(2,3) by (simp add: loadStateFromLocalStorage_def)
  have sd: "stack_data (saveState (n\<lparr>loraState := s\<rparr>)) = Text s"
    using assms(4) by (simp add: saveState_stack_data)
  show ?thesis
    using assms(1) by (simp add: restoreState_def l sd saveState_frame)
qed

lemma restoreState_snapshot_of_text:
  "stack_data m = Text s \<Longrightarrow>
     loraState (restoreState m) = loraState (rebuildUI (m'\<lparr>loraState := s\<rparr>))"
  by (simp add: restoreState_Text rebuildUI_loraState)

lemma findIndex_None: "findIndex P xs = None \<longleftrightarrow> (\<forall>x\<in>set xs. \<not> P x)"
  by (induction xs) auto

lemma findIndex_Some:
  "findIndex P xs = Some i \<Longrightarrow> i < length xs \<and> P (xs ! i) \<and> (\<forall>j<i. \<not> P (xs ! j))"
proof (induction xs arbitrary: i)
  case Nil then show ?case by simp
next
  case (Cons x xs)
  show ?case
  proof (cases "P x")
    case True
    with Cons.prems show ?thesis by simp
  next
    case False
    with Cons.prems obtain k where k: "findIndex P xs = Some k" "i = Suc k" by auto
    from Cons.IH [OF k(1)] have ih: "k < length xs" "P (xs ! k)" "\<forall>j<k. \<not> P (xs ! j)" by auto
    have "\<not> P ((x # xs) ! j)" if "j < i" for j
      using that False ih(3) k(2) by (cases j) auto
    with ih k(2) show ?thesis by simp
  qed
qed

lemma removeGroup_missing:
  "groups (loraState n) = Some gs \<Longrightarrow> gid \<notin> grp_id ` set gs \<Longrightarrow> removeGroup gid n = Inr n"
proof -
  assume a: "groups (loraState n) = Some gs" and b: "gid \<notin> grp_id ` set gs"
  from b have "findIndex (\<lambda>g. grp_id g = gid) gs = None" by (auto simp: findIndex_None)
  with a show ?thesis by (simp add: removeGroup_def)
qed

lemma removeLora_missing:
  "loras (loraState n) = Some ls \<Longrightarrow> lid \<notin> lora_id ` set ls \<Longrightarrow> removeLora lid n = Inr n"
proof -
  assume a: "loras (loraState n) = Some ls" and b: "lid \<notin> lora_id ` set ls"
  from b have "findIndex (\<lambda>l. lora_id l = lid) ls = None" by (auto simp: findIndex_None)
  with a show ?thesis by (simp add: removeLora_def)
qed

lemma addLora_loraState:
  "loras (loraState n) = Some ls \<Longrightarrow>
     map_sum id loraState (addLora g n)
       = Inr ((loraState n)\<lparr>loras := Some (ls @ [newLora (nextLoraId n) g])\<rparr>)"
  by (simp add: addLora_def Let_def saveState_frame)

lemma addLora_stack_data:
  "loras (loraState n) = Some ls \<Longrightarrow> \<not> saving n \<Longrightarrow>
     map_sum id stack_data (addLora g n)
       = Inr (Text ((loraState n)\<lparr>loras := Some (ls @ [newLora (nextLoraId n) g])\<rparr>))"
  by (simp add: addLora_def Let_def saveState_stack_data)

lemma addLora_nextLoraId:
  "loras (loraState n) = Some ls \<Longrightarrow>
     map_sum id nextLoraId (addLora g n) = Inr (nextLoraId n + 1)"
  by (simp add: addLora_def Let_def saveState_frame)

lemma findIndex_exists:
  "x \<in> set xs \<Longrightarrow> P x \<Longrightarrow> \<exists>j. findIndex P xs = Some j"
  using findIndex_None [of P xs] by (cases "findIndex P xs") auto

lemma grp_index_updateGroupId: "grp_index (updateGroupId gm g) = grp_index g"
  by (simp add: updateGroupId_def split: option.splits)

lemma grp_index_updateGroupId_comp: "grp_index \<circ> updateGroupId gm = grp_index"
  by (rule ext) (simp add: grp_index_updateGroupId)

lemma reindex_indices: "map grp_index (reindex k xs) = map Suc [k..<k + length xs]"
proof (induction xs arbitrary: k)
  case Nil then show ?case by simp
next
  case (Cons x xs)
  have "[k..<k + length (x # xs)] = k # [Suc k..<Suc k + length xs]"
    by (simp add: upt_rec)
  with Cons.IH [of "k + 1"] show ?case by simp
qed

lemma length_reindex: "length (reindex k xs) = length xs"
  by (induction xs arbitrary: k) auto

lemma reindex_update_same:
  "list_all2 (\<lambda>g g'. g' = g\<lparr>grp_id := grp_id g', grp_index := grp_index g'\<rparr>)
     xs (map (updateGroupId gm) (reindex k xs))"
proof (induction xs arbitrary: k)
  case Nil then show ?case by simp
next
  case (Cons x xs)
  let ?y = "updateGroupId gm (x\<lparr>grp_index := k + 1\<rparr>)"
  have "?y = (x\<lparr>grp_index := k + 1\<rparr>)\<lparr>grp_id := grp_id ?y\<rparr>"
    by (rule updateGroupId_canon)
  moreover have "grp_index ?y = k + 1" by (simp add: grp_index_updateGroupId)
  ultimately have "?y = x\<lparr>grp_id := grp_id ?y, grp_index := grp_index ?y\<rparr>"
    by (metis group.update_convs(1) group.update_convs(2) group.surjective group.select_convs(1) group.select_convs(2) group.select_convs(3) group.select_convs(4))
  with Cons.IH [of "k + 1"] show ?case by simp
qed

lemma same_fields_names:
  "list_all2 (\<lambda>l l'. l' = l\<lparr>lora_id := lora_id l', group_id := group_id l'\<rparr>) xs ys \<Longrightarrow>
     map name ys = map name xs"
proof (induction rule: list_all2_induct)
  case Nil then show ?case by simp
next
  case (Cons x xs y ys)
  from Cons.hyps(1) have "name y = name (x\<lparr>lora_id := lora_id y, group_id := group_id y\<rparr>)"
    by (rule arg_cong)
  with Cons.IH show ?case by simp
qed

lemma filter_remove_nth:
  "i < length ls \<Longrightarrow> \<not> P (ls ! i) \<Longrightarrow> filter P (take i ls @ drop (Suc i) ls) = filter P ls"
proof -
  assume i: "i < length ls" and np: "\<not> P (ls ! i)"
  have "filter P ls = filter P (take i ls @ ls ! i # drop (Suc i) ls)"
    using id_take_nth_drop [OF i] by simp
  also have "\<dots> = filter P (take i ls @ drop (Suc i) ls)" using np by simp
  finally show ?thesis by simp
qed

lemma group_controls_members_cong:
  assumes "\<And>g. g \<in> set gs \<Longrightarrow> members (grp_id g) ls' = members (grp_id g) ls"
  shows "group_controls cs ls' kg kl gs = group_controls cs ls kg kl gs"
  using assms by (induction gs arbitrary: kg kl) simp_all

lemma grouped_order_members_cong:
  assumes "\<And>g. g \<in> set gs \<Longrightarrow> members (grp_id g) ls' = members (grp_id g) ls"
  shows "grouped_order gs ls' = grouped_order gs ls"
  using assms by (induction gs) (simp_all add: grouped_order_def)

lemma updateLoraIds_untouched:
  assumes "lm (lora_id l) = None" and "truthy (group_id l)" and "gm (the (group_id l)) = None"
  shows "updateLoraIds gm lm l = l"
  using assms by (simp add: updateLoraIds_def Let_def)

lemma updateLoraIds_keeps_clip_fields:
  "random_clip (updateLoraIds gm lm l) = random_clip l"
  "min_clip (updateLoraIds gm lm l) = min_clip l"
  "max_clip (updateLoraIds gm lm l) = max_clip l"
  by (simp_all add: updateLoraIds_def Let_def split: option.splits)

lemma lora_controls_nth:
  "q < length xs \<Longrightarrow> set (loraWidgets (k + q) t (xs ! q)) \<subseteq> set (lora_controls t k xs)"
proof (induction xs arbitrary: k q)
  case Nil then show ?case by simp
next
  case (Cons x xs)
  show ?case
  proof (cases q)
    case 0 then show ?thesis by simp
  next
    case (Suc r)
    with Cons.prems have "r < length xs" by simp
    from Cons.IH [OF this, of "k + 1"] Suc show ?thesis by auto
  qed
qed

lemma findIndex_distinct:
  "distinct (map f xs) \<Longrightarrow> i < length xs \<Longrightarrow> findIndex (\<lambda>x. f x = f (xs ! i)) xs = Some i"
proof (induction xs arbitrary: i)
  case Nil then show ?case by simp
next
  case (Cons x xs)
  show ?case
  proof (cases i)
    case 0 then show ?thesis by simp
  next
    case (Suc j)
    with Cons.prems have j: "j < length xs" and d: "distinct (map f xs)" and nx: "f x \<notin> f ` set xs"
      by simp_all
    from j have "xs ! j \<in> set xs" by simp
    with nx have "f x \<noteq> f (xs ! j)" by auto
    with Cons.IH [OF d j] Suc show ?thesis by simp
  qed
qed

lemma ids_of_filter:
  "map lora_id (filter (\<lambda>l. P (group_id l)) ys)
   = map fst (filter (\<lambda>p. P (snd p)) (map (\<lambda>l. (lora_id l, group_id l)) ys))"
  by (induction ys) auto

lemma ids_of_filter_cong:
  assumes "map (\<lambda>l. (lora_id l, group_id l)) ys' = map (\<lambda>l. (lora_id l, group_id l)) ys"
  shows "map lora_id (filter (\<lambda>l. P (group_id l)) ys') = map lora_id (filter (\<lambda>l. P (group_id l)) ys)"
  by (simp add: ids_of_filter assms)

lemma ids_of_build_order_cong:
  assumes "map (\<lambda>l. (lora_id l, group_id l)) ys' = map (\<lambda>l. (lora_id l, group_id l)) ys"
  shows "map lora_id (build_order gs ys') = map lora_id (build_order gs ys)"
proof -
  have m: "map lora_id (members gid ys') = map lora_id (members gid ys)" for gid
    unfolding members_def using assms by (rule ids_of_filter_cong [where P = "\<lambda>g. g = Some gid"])
  have u: "map lora_id (ungrouped ys') = map lora_id (ungrouped ys)"
    unfolding ungrouped_def using assms by (rule ids_of_filter_cong [where P = "\<lambda>g. \<not> truthy g"])
  have g: "map lora_id (grouped_order gs ys') = map lora_id (grouped_order gs ys)"
    by (induction gs) (simp_all add: grouped_order_def m)
  show ?thesis by (simp add: build_order_def g u)
qed

lemma canonical_field_update:
  assumes "canonical gs ls" and "i < length ls"
      and "lora_id x = lora_id (ls ! i)" and "group_id x = group_id (ls ! i)"
  shows "canonical gs (ls[i := x])"
proof -
  have pairs: "map (\<lambda>l. (lora_id l, group_id l)) (ls[i := x]) = map (\<lambda>l. (lora_id l, group_id l)) ls"
    using assms(3,4) by (simp add: map_update list_update_same_conv assms(2))
  have ids: "map lora_id (ls[i := x]) = map lora_id ls"
    using assms(3) by (simp add: map_update list_update_same_conv assms(2))
  have elem: "P l" if "l \<in> set (ls[i := x])" "P x" "\<And>l. l \<in> set ls \<Longrightarrow> P l" for l P
    using that set_update_subset_insert [of ls i x] by auto
  from assms(1) have ok: "lists_ok gs ls"
    and gids: "map grp_id gs = map Suc [0..<length gs]"
    and lids: "map lora_id (build_order gs ls) = map Suc [0..<length ls]"
    and fz: "\<And>l. l \<in> set ls \<Longrightarrow> \<not> truthy (group_id l) \<longrightarrow> group_id l = None"
    by (simp_all add: canonical_def)
  from ok have ref: "\<And>l. l \<in> set ls \<Longrightarrow>
        group_id l \<in> set (map (\<lambda>g. Some (grp_id g)) gs) \<or> \<not> truthy (group_id l)"
    by (simp add: lists_ok_def)
  have li: "ls ! i \<in> set ls" using assms(2) by simp
  have ref': "group_id l \<in> set (map (\<lambda>g. Some (grp_id g)) gs) \<or> \<not> truthy (group_id l)"
    if "l \<in> set (ls[i := x])" for l
    using that
  proof (rule elem)
    show "group_id x \<in> set (map (\<lambda>g. Some (grp_id g)) gs) \<or> \<not> truthy (group_id x)"
      using ref [OF li] by (simp add: assms(4))
  qed (rule ref)
  have fz': "\<not> truthy (group_id l) \<longrightarrow> group_id l = None" if "l \<in> set (ls[i := x])" for l
    using that
  proof (rule elem)
    show "\<not> truthy (group_id x) \<longrightarrow> group_id x = None"
      using fz [OF li] by (simp add: assms(4))
  qed (rule fz)
  have ok': "lists_ok gs (ls[i := x])"
    using ok ref' by (simp add: lists_ok_def ids)
  have lids': "map lora_id (build_order gs (ls[i := x])) = map Suc [0..<length (ls[i := x])]"
    using ids_of_build_order_cong [OF pairs, of gs] lids by simp
  show ?thesis
    using ok' gids lids' fz' by (simp add: canonical_def)
qed

lemma groupWidgets_no_clip_bound:
  "c \<in> set (groupWidgets cs kg g) \<Longrightarrow> \<not> clip_bound_of k c"
  by (auto simp: groupWidgets_def clip_bound_of_def)

lemma grouped_loraWidgets_no_clip_bound:
  "c \<in> set (loraWidgets k' (Some kg) l) \<Longrightarrow> \<not> clip_bound_of k c"
  by (auto simp: loraWidgets_def Let_def createGroupedLoraControls_def clip_bound_of_def
      float_control_def boolean_control_def split: if_splits)

lemma ungrouped_loraWidgets_clip_bound:
  "c \<in> set (loraWidgets k' None l) \<Longrightarrow> clip_bound_of k c \<Longrightarrow>
     k = k' \<and> truthy_bool (random_clip l)"
  by (auto simp: loraWidgets_def Let_def createUngroupedLoraControls_def clip_bound_of_def
      float_control_def boolean_control_def split: if_splits)

lemma grouped_lora_controls_no_clip_bound:
  "c \<in> set (lora_controls (Some kg) k0 xs) \<Longrightarrow> \<not> clip_bound_of k c"
  by (induction xs arbitrary: k0) (auto dest: grouped_loraWidgets_no_clip_bound)

lemma ungrouped_lora_controls_clip_bound:
  "c \<in> set (lora_controls None k0 xs) \<Longrightarrow> clip_bound_of k c \<Longrightarrow>
     \<exists>q<length xs. k = k0 + q \<and> truthy_bool (random_clip (xs ! q))"
proof (induction xs arbitrary: k0)
  case Nil then show ?case by simp
next
  case (Cons x xs)
  from Cons.prems(1) consider "c \<in> set (loraWidgets k0 None x)" | "c \<in> set (lora_controls None (k0 + 1) xs)"
    by auto
  then show ?case
  proof cases
    case 1
    from ungrouped_loraWidgets_clip_bound [OF 1 Cons.prems(2)]
    have "0 < length (x # xs) \<and> k = k0 + 0 \<and> truthy_bool (random_clip ((x # xs) ! 0))" by simp
    then show ?thesis by blast
  next
    case 2
    from Cons.IH [OF 2 Cons.prems(2)] obtain q where
      "q < length xs" "k = k0 + 1 + q" "truthy_bool (random_clip (xs ! q))" by blast
    then have "Suc q < length (x # xs) \<and> k = k0 + Suc q \<and> truthy_bool (random_clip ((x # xs) ! Suc q))"
      by simp
    then show ?thesis by blast
  qed
qed

lemma group_controls_no_clip_bound:
  "c \<in> set (group_controls cs ls kg kl gs) \<Longrightarrow> \<not> clip_bound_of k c"
  by (induction gs arbitrary: kg kl)
     (auto dest: groupWidgets_no_clip_bound grouped_lora_controls_no_clip_bound)

lemma all_controls_clip_bound:
  assumes "c \<in> set (all_controls cs gs ls)" and "clip_bound_of k c"
  shows "\<exists>q<length (ungrouped ls). k = Suc (length (grouped_order gs ls) + q) \<and>
           truthy_bool (random_clip (ungrouped ls ! q))"
proof -
  from assms(1) group_controls_no_clip_bound [of c cs ls 1 1 gs k] assms(2)
  have "c \<in> set (lora_controls None (1 + length (grouped_order gs ls)) (ungrouped ls))"
    by (auto simp: all_controls_def)
  from ungrouped_lora_controls_clip_bound [OF this assms(2)] show ?thesis by simp
qed

lemma canonical_id_of_ungrouped:
  assumes "canonical gs ls" and "q < length (ungrouped ls)"
  shows "lora_id (ungrouped ls ! q) = Suc (length (grouped_order gs ls) + q)"
proof -
  let ?B = "build_order gs ls" and ?G = "grouped_order gs ls"
  from assms(1) have lids: "map lora_id ?B = map Suc [0..<length ls]" by (simp add: canonical_def)
  have "length (map lora_id ?B) = length (map Suc [0..<length ls])" by (simp only: lids)
  then have len: "length ?B = length ls" by simp
  have idx: "length ?G + q < length ?B" using assms(2) by (simp add: build_order_def)
  have "?B ! (length ?G + q) = ungrouped ls ! q" by (simp add: build_order_def nth_append)
  moreover have "map lora_id ?B ! (length ?G + q) = Suc (length ?G + q)"
    unfolding lids using idx len by simp
  ultimately show ?thesis using idx by simp
qed

lemma canonical_distinct_ids: "canonical gs ls \<Longrightarrow> distinct (map lora_id ls)"
  by (simp add: canonical_def lists_ok_def)

lemma clip_bounds_created:
  "truthy_bool (random_clip l) \<Longrightarrow>
     float_control L_Min (min_clip l) (SetMinClip k) (Id k) Unset \<in> set (loraWidgets k None l) \<and>
     float_control L_Max (max_clip l) (SetMaxClip k) (Id k) Unset \<in> set (loraWidgets k None l)"
  by (simp add: loraWidgets_def Let_def createUngroupedLoraControls_def)

lemma lora_controls_in_all_controls:
  "set (lora_controls None (1 + length (grouped_order gs ls)) (ungrouped ls))
     \<subseteq> set (all_controls cs gs ls)"
  by (simp add: all_controls_def)

lemma randomClipCallback_found:
  assumes "loras (loraState n) = Some ls" and "findIndex (\<lambda>l. lora_id l = k) ls = Some i"
  shows "randomClipCallback k v n =
           Inr (saveState (rebuildUI
             (n\<lparr>loraState := (loraState n)\<lparr>loras := Some (ls[i := (ls ! i)\<lparr>random_clip := Some v\<rparr>])\<rparr>\<rparr>)))"
  using assms by (simp add: randomClipCallback_def)

lemma in_control_callbacks:
  "cb \<in> set (control_callbacks ws) \<longleftrightarrow> (\<exists>c. Dynamic c \<in> set ws \<and> callback c = cb)"
proof (induction ws)
  case Nil then show ?case by (simp add: control_callbacks_def)
next
  case (Cons w ws)
  then show ?case by (cases w) (auto simp: control_callbacks_def)
qed

lemma onConfigure_unprimed: "no_prior_text widgets_values n \<Longrightarrow> onConfigure widgets_values n = restoreState n"
  by (auto simp: no_prior_text_def onConfigure_def Let_def split: option.splits)

lemma onConfigure_primed_any:
  "findIndex (is_named ''stack_data'') (widgets m) = Some k \<Longrightarrow> k < length vs \<Longrightarrow>
     vs ! k \<noteq> NoText \<Longrightarrow>
     onConfigure (Some vs) m = restoreState (m\<lparr>stack_data := vs ! k\<rparr>)"
  by (simp add: onConfigure_def Let_def)

lemma assign_ids_last:
  "x \<in> set xs \<Longrightarrow> \<exists>j<length xs. xs ! j = x \<and> assign_ids m k xs x = Some (k + j)"
proof (induction xs arbitrary: m k)
  case Nil then show ?case by simp
next
  case (Cons y ys)
  show ?case
  proof (cases "x \<in> set ys")
    case True
    from Cons.IH [OF True, of "m(y \<mapsto> k)" "k + 1"] obtain j where
      j: "j < length ys" "ys ! j = x" "assign_ids (m(y \<mapsto> k)) (k + 1) ys x = Some (k + 1 + j)"
      by blast
    then have "Suc j < length (y # ys) \<and> (y # ys) ! Suc j = x
               \<and> assign_ids m k (y # ys) x = Some (k + Suc j)" by simp
    then show ?thesis by blast
  next
    case False
    with Cons.prems have xy: "x = y" by simp
    have "assign_ids m k (y # ys) x = Some k" using False xy by (simp add: assign_ids_notin)
    then have "0 < length (y # ys) \<and> (y # ys) ! 0 = x \<and> assign_ids m k (y # ys) x = Some (k + 0)"
      using xy by simp
    then show ?thesis by blast
  qed
qed

lemma final_groupIdMap_last:
  "g \<in> set gs \<Longrightarrow>
     \<exists>j<length gs. grp_id (gs ! j) = grp_id g \<and> final_groupIdMap gs (grp_id g) = Some (Suc j)"
proof -
  assume "g \<in> set gs"
  then have "grp_id g \<in> set (map grp_id gs)" by simp
  from assign_ids_last [OF this, of Map.empty 1] show ?thesis
    by (auto simp: final_groupIdMap_def)
qed

lemma membership_preserved_any:
  assumes nz: "0 \<notin> grp_id ` set gs"
      and ref: "group_id l \<in> set (map (\<lambda>g. Some (grp_id g)) gs) \<or> \<not> truthy (group_id l)"
      and g: "g \<in> set gs"
  shows "(group_id (updateLoraIds (final_groupIdMap gs) lm l)
            = Some (grp_id (updateGroupId (final_groupIdMap gs) g)))
         = (group_id l = Some (grp_id g))"
proof -
  from final_groupIdMap_last [OF g] obtain j where
    j: "j < length gs" "grp_id (gs ! j) = grp_id g" "final_groupIdMap gs (grp_id g) = Some (Suc j)"
    by blast
  have gj: "grp_id (updateGroupId (final_groupIdMap gs) g) = Suc j"
    by (simp add: updateGroupId_def j(3))
  have gnz: "grp_id g \<noteq> 0" using nz g by auto
  show ?thesis
  proof (cases "truthy (group_id l)")
    case False
    then have "group_id (updateLoraIds (final_groupIdMap gs) lm l) = None"
      by (rule updateLoraIds_gid_falsy)
    moreover have "group_id l \<noteq> Some (grp_id g)"
      using False gnz by (auto simp: truthy_def)
    ultimately show ?thesis by simp
  next
    case True
    with ref obtain g' where g': "g' \<in> set gs" "group_id l = Some (grp_id g')" by auto
    from final_groupIdMap_last [OF g'(1)] obtain j' where
      j': "j' < length gs" "grp_id (gs ! j') = grp_id g'"
          "final_groupIdMap gs (grp_id g') = Some (Suc j')"
      by blast
    have g'nz: "grp_id g' \<noteq> 0" using nz g'(1) by auto
    have h: "group_id (updateLoraIds (final_groupIdMap gs) lm l) = Some (Suc j')"
      using g'(2) g'nz j'(3) by (rule updateLoraIds_gid_Some)
    have "(j' = j) = (grp_id g' = grp_id g)"
    proof
      assume "j' = j"
      with j(2) j'(2) show "grp_id g' = grp_id g" by simp
    next
      assume "grp_id g' = grp_id g"
      with j(3) j'(3) show "j' = j" by simp
    qed
    then show ?thesis using h gj g'(2) by simp
  qed
qed

lemma truthy_preserved_any:
  assumes nz: "0 \<notin> grp_id ` set gs"
      and ref: "group_id l \<in> set (map (\<lambda>g. Some (grp_id g)) gs) \<or> \<not> truthy (group_id l)"
  shows "truthy (group_id (updateLoraIds (final_groupIdMap gs) lm l)) = truthy (group_id l)"
proof (cases "truthy (group_id l)")
  case False
  then show ?thesis by (simp add: updateLoraIds_gid_falsy truthy_def)
next
  case True
  with ref obtain g' where g': "g' \<in> set gs" "group_id l = Some (grp_id g')" by auto
  from final_groupIdMap_last [OF g'(1)] obtain j' where
    j': "final_groupIdMap gs (grp_id g') = Some (Suc j')" by blast
  have g'nz: "grp_id g' \<noteq> 0" using nz g'(1) by auto
  have "group_id (updateLoraIds (final_groupIdMap gs) lm l) = Some (Suc j')"
    using g'(2) g'nz j' by (rule updateLoraIds_gid_Some)
  then show ?thesis using True by (simp add: truthy_def)
qed

lemma rebuild_same_up_to_ids_any:
  assumes "refs_ok (loraState n)"
  shows "same_up_to_ids (loraState n) (loraState (rebuildUI n))"
proof -
  let ?s = "loraState n"
  let ?gs = "or_empty (groups ?s)" and ?ls = "or_empty (loras ?s)"
  let ?f = "updateGroupId (final_groupIdMap ?gs)"
  let ?h = "updateLoraIds (final_groupIdMap ?gs) (final_loraIdMap ?gs ?ls)"
  from assms have nz: "0 \<notin> grp_id ` set ?gs"
    and ref: "\<And>l. l \<in> set ?ls \<Longrightarrow>
                group_id l \<in> set (map (\<lambda>g. Some (grp_id g)) ?gs) \<or> \<not> truthy (group_id l)"
    by (simp_all add: refs_ok_def list_all_iff)
  have g: "or_empty (groups (loraState (rebuildUI n))) = map ?f ?gs"
    by (simp add: rebuildUI_loraState)
  have l: "or_empty (loras (loraState (rebuildUI n))) = map ?h ?ls"
    by (simp add: rebuildUI_loraState)
  have 1: "(groups (loraState (rebuildUI n)) = None) = (groups ?s = None)"
          "(loras (loraState (rebuildUI n)) = None) = (loras ?s = None)"
    by (simp_all add: rebuildUI_loraState)
  have 2: "list_all2 (\<lambda>g g'. g' = g\<lparr>grp_id := grp_id g'\<rparr>) ?gs (map ?f ?gs)"
    by (rule list_all2_map_same) (rule updateGroupId_canon)
  have 3: "list_all2 (\<lambda>l l'. l' = l\<lparr>lora_id := lora_id l', group_id := group_id l'\<rparr>) ?ls (map ?h ?ls)"
    by (rule list_all2_map_same) (rule updateLoraIds_canon)
  have 4: "(group_id (map ?h ?ls ! i) = Some (grp_id (map ?f ?gs ! j)))
           = (group_id (?ls ! i) = Some (grp_id (?gs ! j)))"
    if "i < length ?ls" "j < length ?gs" for i j
    using that membership_preserved_any [OF nz ref, of "?ls ! i" "?gs ! j" "final_loraIdMap ?gs ?ls"]
    by simp
  have 5: "truthy (group_id (map ?h ?ls ! i)) = truthy (group_id (?ls ! i))"
    if "i < length ?ls" for i
    using that truthy_preserved_any [OF nz ref, of "?ls ! i" "final_loraIdMap ?gs ?ls"] by simp
  show ?thesis
    unfolding same_up_to_ids_def g l using 1 2 3 4 5 by blast
qed

lemma last_index_exists:
  "x \<in> set xs \<Longrightarrow> \<exists>j<length xs. xs ! j = x \<and> (\<forall>j'. j < j' \<and> j' < length xs \<longrightarrow> xs ! j' \<noteq> x)"
proof (induction xs)
  case Nil then show ?case by simp
next
  case (Cons y ys)
  show ?case
  proof (cases "x \<in> set ys")
    case True
    from Cons.IH [OF True] obtain j where
      j: "j < length ys" "ys ! j = x" "\<forall>j'. j < j' \<and> j' < length ys \<longrightarrow> ys ! j' \<noteq> x" by blast
    have "(y # ys) ! j' \<noteq> x" if "Suc j < j'" "j' < length (y # ys)" for j'
    proof -
      from that obtain i where i: "j' = Suc i" by (cases j') auto
      with that j(3) show ?thesis by simp
    qed
    with j(1,2) have "Suc j < length (y # ys) \<and> (y # ys) ! Suc j = x
        \<and> (\<forall>j'. Suc j < j' \<and> j' < length (y # ys) \<longrightarrow> (y # ys) ! j' \<noteq> x)" by simp
    then show ?thesis by blast
  next
    case False
    with Cons.prems have xy: "x = y" by simp
    have "(y # ys) ! j' \<noteq> x" if "0 < j'" "j' < length (y # ys)" for j'
    proof -
      from that obtain i where i: "j' = Suc i" by (cases j') auto
      with that have "ys ! i \<in> set ys" by simp
      with False i show ?thesis by auto
    qed
    with xy have "0 < length (y # ys) \<and> (y # ys) ! 0 = x
        \<and> (\<forall>j'. 0 < j' \<and> j' < length (y # ys) \<longrightarrow> (y # ys) ! j' \<noteq> x)" by simp
    then show ?thesis by blast
  qed
qed

lemma assign_ids_at_last:
  "j < length xs \<Longrightarrow> (\<forall>j'. j < j' \<and> j' < length xs \<longrightarrow> xs ! j' \<noteq> xs ! j) \<Longrightarrow>
     assign_ids m k xs (xs ! j) = Some (k + j)"
proof (induction xs arbitrary: m k j)
  case Nil then show ?case by simp
next
  case (Cons y ys)
  show ?case
  proof (cases j)
    case 0
    have "y \<notin> set ys"
    proof
      assume "y \<in> set ys"
      then obtain i where "i < length ys" "ys ! i = y" by (auto simp: in_set_conv_nth)
      have "0 < Suc i \<and> Suc i < length (y # ys)" using \<open>i < length ys\<close> by simp
      with Cons.prems(2) [rule_format, of "Suc i"] 0 have "(y # ys) ! Suc i \<noteq> (y # ys) ! 0"
        by blast
      with \<open>ys ! i = y\<close> show False by simp
    qed
    with 0 show ?thesis by (simp add: assign_ids_notin)
  next
    case (Suc i)
    with Cons.prems(1) have i: "i < length ys" by simp
    have "ys ! j' \<noteq> ys ! i" if "i < j'" "j' < length ys" for j'
      using Cons.prems(2) [rule_format, of "Suc j'"] that Suc by simp
    then have "\<forall>j'. i < j' \<and> j' < length ys \<longrightarrow> ys ! j' \<noteq> ys ! i" by blast
    then have ih: "assign_ids (m(y \<mapsto> k)) (Suc k) ys (ys ! i) = Some (Suc k + i)"
      by (rule Cons.IH [OF i])
    show ?thesis using Suc by (simp add: ih)
  qed
qed

lemma assign_ids_renamed:
  assumes "x \<in> set xs"
  shows "assign_ids m' k (map (\<lambda>x. the (assign_ids m k xs x)) xs) (the (assign_ids m k xs x))
         = Some (the (assign_ids m k xs x))
         \<and> assign_ids m k xs x = Some (the (assign_ids m k xs x))
         \<and> k \<le> the (assign_ids m k xs x)"
proof -
  let ?phi = "\<lambda>x. the (assign_ids m k xs x)"
  from last_index_exists [OF assms] obtain j where
    j: "j < length xs" "xs ! j = x" "\<forall>j'. j < j' \<and> j' < length xs \<longrightarrow> xs ! j' \<noteq> x" by blast
  have px: "assign_ids m k xs x = Some (k + j)"
    using assign_ids_at_last [OF j(1), of m k] j(2,3) by simp
  have later: "?phi (xs ! j') \<noteq> ?phi x" if "j < j'" "j' < length xs" for j'
  proof -
    have "xs ! j' \<in> set xs" using that by simp
    from last_index_exists [OF this] obtain i where
      i: "i < length xs" "xs ! i = xs ! j'" "\<forall>i'. i < i' \<and> i' < length xs \<longrightarrow> xs ! i' \<noteq> xs ! j'"
      by blast
    have "j' \<le> i"
    proof (rule ccontr)
      assume "\<not> j' \<le> i"
      then have "i < j' \<and> j' < length xs" using that(2) by simp
      with i(3) show False by blast
    qed
    moreover have "assign_ids m k xs (xs ! j') = Some (k + i)"
      using assign_ids_at_last [OF i(1), of m k] i(2,3) by simp
    ultimately show ?thesis using px that(1) by simp
  qed
  have "assign_ids m' k (map ?phi xs) (map ?phi xs ! j) = Some (k + j)"
  proof (rule assign_ids_at_last)
    show "j < length (map ?phi xs)" using j(1) by simp
    show "\<forall>j'. j < j' \<and> j' < length (map ?phi xs) \<longrightarrow> map ?phi xs ! j' \<noteq> map ?phi xs ! j"
      using later j(1,2) by simp
  qed
  then show ?thesis using px j(1,2) by simp
qed

lemma renumber_build_order_any:
  assumes nz: "0 \<notin> grp_id ` set gs"
      and ref: "\<And>l. l \<in> set ls \<Longrightarrow>
                group_id l \<in> set (map (\<lambda>g. Some (grp_id g)) gs) \<or> \<not> truthy (group_id l)"
  shows "build_order (renumber_groups gs) (renumber_loras gs ls)
         = map (updateLoraIds (final_groupIdMap gs) (final_loraIdMap gs ls)) (build_order gs ls)"
proof -
  have "grouped_order (renumber_groups gs) (renumber_loras gs ls)
        = map (updateLoraIds (final_groupIdMap gs) (final_loraIdMap gs ls)) (grouped_order gs ls)"
    unfolding renumber_groups_def renumber_loras_def
    by (rule grouped_order_cong) (simp add: membership_preserved_any [OF nz ref])
  moreover have "ungrouped (renumber_loras gs ls)
        = map (updateLoraIds (final_groupIdMap gs) (final_loraIdMap gs ls)) (ungrouped ls)"
    unfolding renumber_loras_def
    by (rule ungrouped_cong) (simp add: truthy_preserved_any [OF nz ref])
  ultimately show ?thesis by (simp add: build_order_def)
qed

lemma renumber_all_controls_any:
  assumes nz: "0 \<notin> grp_id ` set gs"
      and ref: "\<And>l. l \<in> set ls \<Longrightarrow>
                group_id l \<in> set (map (\<lambda>g. Some (grp_id g)) gs) \<or> \<not> truthy (group_id l)"
  shows "all_controls cs (renumber_groups gs) (renumber_loras gs ls) = all_controls cs gs ls"
proof -
  have go: "grouped_order (renumber_groups gs) (renumber_loras gs ls)
        = map (updateLoraIds (final_groupIdMap gs) (final_loraIdMap gs ls)) (grouped_order gs ls)"
    unfolding renumber_groups_def renumber_loras_def
    by (rule grouped_order_cong) (simp add: membership_preserved_any [OF nz ref])
  have ug: "ungrouped (renumber_loras gs ls)
        = map (updateLoraIds (final_groupIdMap gs) (final_loraIdMap gs ls)) (ungrouped ls)"
    unfolding renumber_loras_def
    by (rule ungrouped_cong) (simp add: truthy_preserved_any [OF nz ref])
  have gc: "group_controls cs (renumber_loras gs ls) kg kl (renumber_groups gs)
        = group_controls cs ls kg kl gs" for kg kl
    unfolding renumber_groups_def renumber_loras_def
    by (rule group_controls_cong) (simp add: membership_preserved_any [OF nz ref])
  show ?thesis
    by (simp add: all_controls_def go ug gc lora_controls_update)
qed

lemma updateGroupId_id_Some:
  "gm (grp_id g) = Some k \<Longrightarrow> k \<noteq> 0 \<Longrightarrow> grp_id (updateGroupId gm g) = k"
  by (simp add: updateGroupId_def)

lemma final_groupIdMap_value:
  assumes "x \<in> grp_id ` set gs"
  shows "final_groupIdMap gs x = Some (the (final_groupIdMap gs x))"
    and "the (final_groupIdMap gs x) \<noteq> 0"
    and "final_groupIdMap (renumber_groups gs) (the (final_groupIdMap gs x))
         = Some (the (final_groupIdMap gs x))"
proof -
  let ?M = "final_groupIdMap gs"
  from assms have x: "x \<in> set (map grp_id gs)" by simp
  from assign_ids_renamed [OF x, of Map.empty 1 Map.empty]
  have a: "assign_ids Map.empty 1 (map (\<lambda>x. the (?M x)) (map grp_id gs)) (the (?M x)) = Some (the (?M x))"
    and b: "?M x = Some (the (?M x))" and c: "1 \<le> the (?M x)"
    by (simp_all add: final_groupIdMap_def)
  show "?M x = Some (the (?M x))" by (rule b)
  show "the (?M x) \<noteq> 0" using c by simp
  have ids: "map grp_id (renumber_groups gs) = map (\<lambda>x. the (?M x)) (map grp_id gs)"
  proof -
    have "grp_id (updateGroupId ?M g) = the (?M (grp_id g))" if "g \<in> set gs" for g
    proof -
      from that have y: "grp_id g \<in> set (map grp_id gs)" by simp
      from assign_ids_renamed [OF y, of Map.empty 1 Map.empty]
      have "?M (grp_id g) = Some (the (?M (grp_id g)))" "the (?M (grp_id g)) \<noteq> 0"
        by (simp_all add: final_groupIdMap_def)
      then show ?thesis by (rule updateGroupId_id_Some)
    qed
    then show ?thesis by (simp add: renumber_groups_def)
  qed
  show "final_groupIdMap (renumber_groups gs) (the (?M x)) = Some (the (?M x))"
    using a by (simp add: final_groupIdMap_def [of "renumber_groups gs"] ids)
qed

lemma renumbered_group_fixed:
  assumes "g1 \<in> set (renumber_groups gs)"
  shows "updateGroupId (final_groupIdMap (renumber_groups gs)) g1 = g1"
proof (rule updateGroupId_fixed)
  let ?M = "final_groupIdMap gs"
  from assms obtain g where g: "g \<in> set gs" "g1 = updateGroupId ?M g"
    by (auto simp: renumber_groups_def)
  have x: "grp_id g \<in> grp_id ` set gs" using g(1) by simp
  have "grp_id g1 = the (?M (grp_id g))"
    unfolding g(2) using final_groupIdMap_value(1,2) [OF x] by (rule updateGroupId_id_Some)
  then show "final_groupIdMap (renumber_groups gs) (grp_id g1) = Some (grp_id g1)"
    using final_groupIdMap_value(3) [OF x] by simp
qed

lemma renumbered_lora_fixed:
  assumes nz: "0 \<notin> grp_id ` set gs"
      and ref: "\<And>l. l \<in> set ls \<Longrightarrow>
                group_id l \<in> set (map (\<lambda>g. Some (grp_id g)) gs) \<or> \<not> truthy (group_id l)"
      and l1: "l1 \<in> set (renumber_loras gs ls)"
  shows "updateLoraIds (final_groupIdMap (renumber_groups gs))
           (final_loraIdMap (renumber_groups gs) (renumber_loras gs ls)) l1 = l1"
proof (rule updateLoraIds_fixed)
  let ?M = "final_groupIdMap gs" and ?L = "final_loraIdMap gs ls"
  let ?B = "build_order gs ls"
  from l1 obtain l where l: "l \<in> set ls" "l1 = updateLoraIds ?M ?L l"
    by (auto simp: renumber_loras_def)
  have lB: "l \<in> set ?B" using l(1) ref [OF l(1)] by (auto simp: in_build_order)
  have idv: "lora_id (updateLoraIds ?M ?L y) = the (?L (lora_id y))" if "y \<in> set ?B" for y
  proof -
    from that have "lora_id y \<in> set (map lora_id ?B)" by simp
    from assign_ids_renamed [OF this, of Map.empty 1 Map.empty]
    have "?L (lora_id y) = Some (the (?L (lora_id y)))" "the (?L (lora_id y)) \<noteq> 0"
      by (simp_all add: final_loraIdMap_def)
    then show ?thesis by (rule updateLoraIds_id_Some)
  qed
  have ids: "map lora_id (build_order (renumber_groups gs) (renumber_loras gs ls))
             = map (\<lambda>x. the (?L x)) (map lora_id ?B)"
    by (simp add: renumber_build_order_any [OF nz ref] idv)
  have "lora_id l \<in> set (map lora_id ?B)" using lB by simp
  from assign_ids_renamed [OF this, of Map.empty 1 Map.empty]
  have "assign_ids Map.empty 1 (map (\<lambda>x. the (?L x)) (map lora_id ?B)) (the (?L (lora_id l)))
        = Some (the (?L (lora_id l)))"
    by (simp add: final_loraIdMap_def)
  then show "final_loraIdMap (renumber_groups gs) (renumber_loras gs ls) (lora_id l1) = Some (lora_id l1)"
    by (simp add: final_loraIdMap_def [of "renumber_groups gs"] ids l(2) idv [OF lB])
next
  let ?M = "final_groupIdMap gs" and ?L = "final_loraIdMap gs ls"
  from l1 obtain l where l: "l \<in> set ls" "l1 = updateLoraIds ?M ?L l"
    by (auto simp: renumber_loras_def)
  assume t1: "truthy (group_id l1)"
  have t: "truthy (group_id l)"
    using t1 truthy_preserved_any [OF nz ref [OF l(1)], of ?L] by (simp add: l(2))
  with ref [OF l(1)] obtain g where g: "g \<in> set gs" "group_id l = Some (grp_id g)" by auto
  have x: "grp_id g \<in> grp_id ` set gs" using g(1) by simp
  have gnz: "grp_id g \<noteq> 0" using nz g(1) by auto
  have "group_id l1 = Some (the (?M (grp_id g)))"
    unfolding l(2) using g(2) gnz final_groupIdMap_value(1) [OF x] by (rule updateLoraIds_gid_Some)
  then show "final_groupIdMap (renumber_groups gs) (the (group_id l1)) = Some (the (group_id l1))"
    using final_groupIdMap_value(3) [OF x] by simp
next
  let ?M = "final_groupIdMap gs" and ?L = "final_loraIdMap gs ls"
  from l1 obtain l where l: "l \<in> set ls" "l1 = updateLoraIds ?M ?L l"
    by (auto simp: renumber_loras_def)
  assume f1: "\<not> truthy (group_id l1)"
  have "\<not> truthy (group_id l)"
    using f1 truthy_preserved_any [OF nz ref [OF l(1)], of ?L] by (simp add: l(2))
  then show "group_id l1 = None" by (simp add: l(2) updateLoraIds_gid_falsy)
qed

lemma rebuildUI_idem_any:
  assumes "refs_ok (loraState n)"
  shows "rebuildUI (rebuildUI n) = rebuildUI n"
proof -
  let ?gs = "or_empty (groups (loraState n))" and ?ls = "or_empty (loras (loraState n))"
  let ?gs1 = "renumber_groups ?gs" and ?ls1 = "renumber_loras ?gs ?ls"
  from assms have nz: "0 \<notin> grp_id ` set ?gs"
    and ref: "\<And>l. l \<in> set ?ls \<Longrightarrow>
                group_id l \<in> set (map (\<lambda>g. Some (grp_id g)) ?gs) \<or> \<not> truthy (group_id l)"
    by (simp_all add: refs_ok_def list_all_iff)
  have g1: "or_empty (groups (loraState (rebuildUI n))) = ?gs1" by (rule rebuildUI_groups)
  have l1: "or_empty (loras (loraState (rebuildUI n))) = ?ls1" by (rule rebuildUI_loras)
  have gfix: "map (updateGroupId (final_groupIdMap ?gs1)) ?gs1 = ?gs1"
    by (rule map_idI) (rule renumbered_group_fixed)
  have lfix: "map (updateLoraIds (final_groupIdMap ?gs1) (final_loraIdMap ?gs1 ?ls1)) ?ls1 = ?ls1"
    by (rule map_idI) (rule renumbered_lora_fixed [OF nz ref])
  have s: "loraState (rebuildUI (rebuildUI n)) = loraState (rebuildUI n)"
  proof -
    let ?s1 = "loraState (rebuildUI n)"
    have a: "map_option (map (updateGroupId (final_groupIdMap ?gs1))) (groups ?s1) = groups ?s1"
      using gfix g1 by (cases "groups ?s1") (simp_all add: or_empty_def)
    have b: "map_option (map (updateLoraIds (final_groupIdMap ?gs1) (final_loraIdMap ?gs1 ?ls1))) (loras ?s1)
             = loras ?s1"
      using lfix l1 by (cases "loras ?s1") (simp_all add: or_empty_def)
    show ?thesis
      by (simp only: rebuildUI_loraState [of "rebuildUI n"] g1 l1 a b) simp
  qed
  have w: "widgets (rebuildUI (rebuildUI n)) = widgets (rebuildUI n)"
    by (simp add: rebuildUI_widgets [of "rebuildUI n"] g1 l1
        renumber_all_controls_any [OF nz ref] rebuildUI_frame
        rebuildUI_widgets [of n] clear_createWidgets clear_idem)
  have bo: "length (build_order ?gs1 ?ls1) = length (build_order ?gs ?ls)"
    by (simp add: renumber_build_order_any [OF nz ref])
  have c1: "nextGroupId (rebuildUI (rebuildUI n)) = nextGroupId (rebuildUI n)"
    by (simp add: rebuildUI_counters g1 renumber_groups_def)
  have c2: "nextLoraId (rebuildUI (rebuildUI n)) = nextLoraId (rebuildUI n)"
    using bo by (simp add: rebuildUI_counters g1 l1)
  have sz: "node_size (rebuildUI (rebuildUI n)) = node_size (rebuildUI n)"
    by (simp add: rebuildUI_size computeSize_def w)
  show ?thesis
    by (rule node.equality) (simp_all add: w s c1 c2 sz rebuildUI_frame rebuildUI_more)
qed

lemma addLora_Inr:
  "loras (loraState n) = Some ls \<Longrightarrow>
     \<exists>a. addLora g n = Inr a \<and>
         loraState a = (loraState n)\<lparr>loras := Some (ls @ [newLora (nextLoraId n) g])\<rparr> \<and>
         nextLoraId a = nextLoraId n + 1 \<and> nextGroupId a = nextGroupId n"
  by (simp add: addLora_def Let_def saveState_frame)

lemma addGroup_Inr:
  "groups (loraState n) = Some gs \<Longrightarrow>
     \<exists>c. addGroup n = Inr c \<and>
         loraState c = (loraState n)\<lparr>groups := Some (gs @ [\<lparr>grp_id = nextGroupId n,
             grp_index = length gs + 1, grp_max_model = 1.0, grp_max_clip = 1.0\<rparr>])\<rparr>"
  by (simp add: addGroup_def Let_def saveState_frame)

section \<open>The claims\<close>

text \<open>
  Two conditions on a snapshot recur.  \<open>refs_ok\<close> is the well-formedness the claims
  name: every item's \<open>group_id\<close> is an existing group's id or the ungrouped
  sentinel.  \<open>ids_ok\<close> is the uniqueness the data model asks of ids, among groups
  and among items.  Each theorem states the ones it needs.
\<close>

text \<open>
  \<^bold>\<open>C8 (amended)\<close>.  Rebuild idempotence holds for the states in which every item's
  \<open>group_id\<close> is an existing group's id or the ungrouped sentinel (and no group
  has the sentinel 0 as its id): a second rebuild with no mutation in between produces
  the same widget list (same controls, same tags, same order), leaves the snapshot as
  the first rebuild left it, and indeed changes nothing of the node.  Nothing is asked
  of the ids themselves: they may repeat.
\<close>

theorem rebuild_idempotent:
  assumes "refs_ok (loraState n)"
  shows "widgets (rebuildUI (rebuildUI n)) = widgets (rebuildUI n) \<and>
         loraState (rebuildUI (rebuildUI n)) = loraState (rebuildUI n) \<and>
         rebuildUI (rebuildUI n) = rebuildUI n"
  using rebuildUI_idem_any [OF assms] by simp

theorem rebuild_idempotent_witness:
  "refs_ok (loraState sample_node) \<and>
   widgets (rebuildUI (rebuildUI sample_node)) = widgets (rebuildUI sample_node) \<and>
   loraState (rebuildUI (rebuildUI sample_node)) = loraState (rebuildUI sample_node)"
  using rebuild_idempotent [OF sample_refs_ok] sample_refs_ok by simp

text \<open>
  The claim as stated, for every state, fails: with one group of id 5 and one item
  whose \<open>group_id\<close> is 1, the first rebuild renumbers the group to 1 and creates
  no control for the item; the item's \<open>group_id\<close> now names the group, and the
  second rebuild creates five more controls.
\<close>

theorem rebuild_not_idempotent_dangling:
  "ids_ok (loraState dangling_node) \<and> \<not> refs_ok (loraState dangling_node) \<and>
   widgets (rebuildUI (rebuildUI dangling_node)) \<noteq> widgets (rebuildUI dangling_node)"
proof -
  have a: "ids_ok (loraState dangling_node)" by (simp add: example_defs ids_ok_def)
  have b: "\<not> refs_ok (loraState dangling_node)" by (simp add: example_defs refs_ok_def)
  have "length (widgets (rebuildUI dangling_node)) = 9"
    by (simp add: example_defs eval_defs)
  moreover have "length (widgets (rebuildUI (rebuildUI dangling_node))) = 14"
    by (simp add: example_defs eval_defs)
  ultimately have "widgets (rebuildUI (rebuildUI dangling_node)) \<noteq> widgets (rebuildUI dangling_node)"
    by auto
  with a b show ?thesis by simp
qed

text \<open>
  \<^bold>\<open>C9 (amended)\<close>.  Rebuild id renumbering: for every snapshot whose ids are unique
  among groups and among items and in which each item's \<open>group_id\<close> is an
  existing group's id or the ungrouped sentinel, a rebuild numbers the groups 1..N in
  list order and the items 1..M in build order (group by group, then the ungrouped
  ones), maps each grouped item's \<open>group_id\<close> to the new id of its group, sets
  \<open>group_id\<close> of the ungrouped items to null, and leaves the counters at N + 1 and
  M + 1.
\<close>

theorem rebuild_renumbers_ids:
  assumes "ids_ok (loraState n)" and "refs_ok (loraState n)"
  shows "map grp_id (the_groups (rebuildUI n)) = map Suc [0..<length (the_groups n)] \<and>
         map lora_id (build_order (the_groups (rebuildUI n)) (the_loras (rebuildUI n)))
           = map Suc [0..<length (the_loras n)] \<and>
         (\<forall>i<length (the_loras n). \<forall>j<length (the_groups n).
            group_id (the_loras n ! i) = Some (grp_id (the_groups n ! j)) \<longrightarrow>
            group_id (the_loras (rebuildUI n) ! i) = Some (grp_id (the_groups (rebuildUI n) ! j))) \<and>
         (\<forall>i<length (the_loras n).
            \<not> truthy (group_id (the_loras n ! i)) \<longrightarrow> group_id (the_loras (rebuildUI n) ! i) = None) \<and>
         nextGroupId (rebuildUI n) = Suc (length (the_groups n)) \<and>
         nextLoraId (rebuildUI n) = Suc (length (the_loras n))"
proof -
  let ?gs = "the_groups n" and ?ls = "the_loras n"
  have ok: "lists_ok ?gs ?ls"
    unfolding the_groups_def the_loras_def using assms by (rule lists_okI)
  then have dg: "distinct (map grp_id ?gs)" and nz: "0 \<notin> grp_id ` set ?gs"
    and dl: "distinct (map lora_id ?ls)"
    and ref: "\<forall>l\<in>set ?ls. group_id l \<in> set (map (\<lambda>g. Some (grp_id g)) ?gs) \<or> \<not> truthy (group_id l)"
    by (simp_all add: lists_ok_def)
  have g: "the_groups (rebuildUI n) = renumber_groups ?gs"
    by (simp add: the_groups_def rebuildUI_groups)
  have l: "the_loras (rebuildUI n) = renumber_loras ?gs ?ls"
    by (simp add: the_loras_def the_groups_def rebuildUI_loras)
  have 1: "map grp_id (the_groups (rebuildUI n)) = map Suc [0..<length ?gs]"
    unfolding g using dg by (rule renumber_groups_ids)
  have 2: "map lora_id (build_order (the_groups (rebuildUI n)) (the_loras (rebuildUI n)))
           = map Suc [0..<length ?ls]"
    unfolding g l using ok by (rule renumber_lora_ids)
  have 3: "group_id (the_loras (rebuildUI n) ! i) = Some (grp_id (the_groups (rebuildUI n) ! j))"
    if "i < length ?ls" "j < length ?gs" "group_id (?ls ! i) = Some (grp_id (?gs ! j))" for i j
  proof -
    have "?ls ! i \<in> set ?ls" "?gs ! j \<in> set ?gs" using that by simp_all
    then show ?thesis
      using membership_preserved [OF dg nz, of "?ls ! i" "?gs ! j" "final_loraIdMap ?gs ?ls"] ref that
      by (simp add: g l renumber_groups_def renumber_loras_def)
  qed
  have 4: "group_id (the_loras (rebuildUI n) ! i) = None"
    if "i < length ?ls" "\<not> truthy (group_id (?ls ! i))" for i
    using that by (simp add: l renumber_loras_def updateLoraIds_gid_falsy)
  have 5: "nextGroupId (rebuildUI n) = Suc (length ?gs)"
    by (simp add: rebuildUI_counters the_groups_def)
  have 6: "nextLoraId (rebuildUI n) = Suc (length ?ls)"
    using length_build_order [OF dg nz dl ref]
    by (simp add: rebuildUI_counters the_groups_def the_loras_def)
  show ?thesis using 1 2 3 4 5 6 by blast
qed

theorem rebuild_renumbers_ids_witness:
  "ids_ok (loraState sample_node) \<and> refs_ok (loraState sample_node) \<and>
   map grp_id (the_groups sample_node) = [3, 8] \<and>
   map grp_id (the_groups (rebuildUI sample_node)) = [1, 2] \<and>
   map lora_id (the_loras sample_node) = [4, 2, 9] \<and>
   map lora_id (the_loras (rebuildUI sample_node)) = [3, 2, 1] \<and>
   map lora_id (build_order (the_groups (rebuildUI sample_node)) (the_loras (rebuildUI sample_node)))
     = [1, 2, 3] \<and>
   map group_id (the_loras sample_node) = [None, Some 8, Some 3] \<and>
   map group_id (the_loras (rebuildUI sample_node)) = [None, Some 2, Some 1] \<and>
   nextGroupId (rebuildUI sample_node) = 3 \<and> nextLoraId (rebuildUI sample_node) = 4"
proof -
  have e: "map grp_id (the_groups sample_node) = [3, 8]"
          "map lora_id (the_loras sample_node) = [4, 2, 9]"
          "map group_id (the_loras sample_node) = [None, Some 8, Some 3]"
    by (simp_all add: example_defs)
  have r: "map lora_id (the_loras (rebuildUI sample_node)) = [3, 2, 1]"
          "map group_id (the_loras (rebuildUI sample_node)) = [None, Some 2, Some 1]"
    by (simp_all add: example_defs eval_defs)
  have len: "length (the_groups sample_node) = 2" "length (the_loras sample_node) = 3"
    by (simp_all add: example_defs)
  have u2: "[0..<2] = [0, 1]" and u3: "[0..<3] = [0, 1, 2]"
    by (simp_all add: upt_rec)
  from rebuild_renumbers_ids [OF sample_ids_ok sample_refs_ok]
  have "map grp_id (the_groups (rebuildUI sample_node)) = [1, 2]"
    and "map lora_id (build_order (the_groups (rebuildUI sample_node)) (the_loras (rebuildUI sample_node)))
           = [1, 2, 3]"
    and "nextGroupId (rebuildUI sample_node) = 3" and "nextLoraId (rebuildUI sample_node) = 4"
    by (simp_all add: len u2 u3)
  then show ?thesis using e r sample_ids_ok sample_refs_ok by simp
qed

text \<open>
  Without the uniqueness the claim fails, on snapshots that meet its reference
  condition.  On a new node, \<open>addLora\<close> with the id 1 of a group that does not exist,
  \<open>addLora\<close> of an ungrouped item, a rebuild and \<open>addGroup\<close> leave one group of
  id 1 and two items that both have the id 1, the first a member of the group: the
  rebuild then gives both items the id 2, where the claim says 1 and 2.  Likewise two
  groups that share the id 3 both get the id 2.
\<close>

theorem rebuild_keeps_repeated_ids:
  "(\<exists>a b c. addLora (Some 1) fresh_node = Inr a \<and> addLora None a = Inr b \<and>
       addGroup (rebuildUI b) = Inr c \<and>
       refs_ok (loraState c) \<and>
       map grp_id (the_groups c) = [1] \<and>
       map lora_id (the_loras c) = [1, 1] \<and>
       map group_id (the_loras c) = [Some 1, None] \<and>
       map lora_id (the_loras (rebuildUI c)) = [2, 2] \<and>
       map lora_id (build_order (the_groups (rebuildUI c)) (the_loras (rebuildUI c))) = [2, 2]) \<and>
   refs_ok (loraState twin_node) \<and>
   map grp_id (the_groups twin_node) = [3, 3] \<and>
   map grp_id (the_groups (rebuildUI twin_node)) = [2, 2]"
proof -
  have f: "loraState fresh_node = \<lparr>groups = Some [], loras = Some []\<rparr>"
          "nextLoraId fresh_node = 1"
    by (simp_all add: fresh_node_def onNodeCreated_def)
  from addLora_Inr [of fresh_node "[]" "Some 1"] obtain a where
    a: "addLora (Some 1) fresh_node = Inr a"
       "loraState a = \<lparr>groups = Some [], loras = Some [newLora 1 (Some 1)]\<rparr>" "nextLoraId a = 2"
    by (auto simp: f)
  from addLora_Inr [of a "[newLora 1 (Some 1)]" None] obtain b where
    b: "addLora None a = Inr b"
       "loraState b = \<lparr>groups = Some [], loras = Some [newLora 1 (Some 1), newLora 2 None]\<rparr>"
    by (auto simp: a)
  have rb: "loraState (rebuildUI b)
            = \<lparr>groups = Some [], loras = Some [newLora 1 (Some 1), (newLora 2 None)\<lparr>lora_id := 1\<rparr>]\<rparr>"
    by (simp add: rebuildUI_loraState b(2) or_empty_def)
       (simp add: eval_defs newLora_def truthy_def)
  have ng: "nextGroupId (rebuildUI b) = 1"
    by (simp add: rebuildUI_counters b(2) or_empty_def)
  from addGroup_Inr [of "rebuildUI b" "[]"] obtain c where
    c: "addGroup (rebuildUI b) = Inr c"
       "loraState c = \<lparr>groups = Some [\<lparr>grp_id = 1, grp_index = 1, grp_max_model = 1.0, grp_max_clip = 1.0\<rparr>],
                       loras = Some [newLora 1 (Some 1), (newLora 2 None)\<lparr>lora_id := 1\<rparr>]\<rparr>"
    by (auto simp: rb ng)
  have r: "refs_ok (loraState c)"
    by (simp add: c(2) refs_ok_def or_empty_def newLora_def truthy_def)
  have g: "map grp_id (the_groups c) = [1]" by (simp add: c(2) the_groups_def or_empty_def)
  have l: "map lora_id (the_loras c) = [1, 1]"
    by (simp add: c(2) the_loras_def or_empty_def newLora_def)
  have m: "map group_id (the_loras c) = [Some 1, None]"
    by (simp add: c(2) the_loras_def or_empty_def newLora_def)
  have rc: "loraState (rebuildUI c)
            = \<lparr>groups = Some [\<lparr>grp_id = 1, grp_index = 1, grp_max_model = 1.0, grp_max_clip = 1.0\<rparr>],
               loras = Some [(newLora 1 (Some 1))\<lparr>lora_id := 2\<rparr>, (newLora 2 None)\<lparr>lora_id := 2\<rparr>]\<rparr>"
    by (simp add: rebuildUI_loraState c(2) or_empty_def)
       (simp add: eval_defs newLora_def truthy_def)
  have l2: "map lora_id (the_loras (rebuildUI c)) = [2, 2]"
    by (simp add: rc the_loras_def or_empty_def)
  have bo: "map lora_id (build_order (the_groups (rebuildUI c)) (the_loras (rebuildUI c))) = [2, 2]"
    by (simp add: rc the_loras_def the_groups_def or_empty_def)
       (simp add: eval_defs newLora_def truthy_def)
  have t1: "refs_ok (loraState twin_node)"
    by (simp add: twin_node_def refs_ok_def or_empty_def group_a_def)
  have t2: "map grp_id (the_groups twin_node) = [3, 3]"
    by (simp add: twin_node_def the_groups_def or_empty_def group_a_def)
  have t3: "map grp_id (the_groups (rebuildUI twin_node)) = [2, 2]"
    by (simp add: the_groups_def rebuildUI_loraState)
       (simp add: twin_node_def or_empty_def group_a_def eval_defs)
  have "\<exists>a b c. addLora (Some 1) fresh_node = Inr a \<and> addLora None a = Inr b \<and>
       addGroup (rebuildUI b) = Inr c \<and>
       refs_ok (loraState c) \<and>
       map grp_id (the_groups c) = [1] \<and>
       map lora_id (the_loras c) = [1, 1] \<and>
       map group_id (the_loras c) = [Some 1, None] \<and>
       map lora_id (the_loras (rebuildUI c)) = [2, 2] \<and>
       map lora_id (build_order (the_groups (rebuildUI c)) (the_loras (rebuildUI c))) = [2, 2]"
    apply (rule exI [of _ a], rule exI [of _ b], rule exI [of _ c])
    apply (intro conjI)
    apply (rule a(1) b(1) c(1) r g l m l2 bo)+
    done
  then show ?thesis
    apply (intro conjI)
    apply (assumption | rule t1 t2 t3)+
    done
qed

text \<open>
  \<^bold>\<open>C1\<close>.  Document-path round trip: for a snapshot \<open>S\<close> with well-formed groups and
  items, \<open>saveState\<close> (entered with no save in progress) writes the text of \<open>S\<close>
  into the document field, and \<open>onConfigure\<close> on a node that is handed this text at
  the index of its stack-data widget ends with a snapshot equal to \<open>S\<close> up to id
  renumbering: same keys, same groups and items in the same order with every field but
  the ids unchanged, same membership.  When the ids of \<open>S\<close> are unique, the loaded
  snapshot is well formed with unique ids again.
\<close>

theorem save_load_roundtrip:
  assumes "\<not> saving n" and "refs_ok (loraState n)"
      and "findIndex (is_named ''stack_data'') (widgets m) = Some k"
      and "k < length vs" and "vs ! k = stack_data (saveState n)"
  shows "stack_data (saveState n) = Text (loraState n) \<and>
         same_up_to_ids (loraState n) (loraState (onConfigure (Some vs) m)) \<and>
         (ids_ok (loraState n) \<longrightarrow>
            ids_ok (loraState (onConfigure (Some vs) m)) \<and>
            refs_ok (loraState (onConfigure (Some vs) m)))"
proof -
  let ?m1 = "m\<lparr>stack_data := Text (loraState n), widgets := clearDynamicWidgets (widgets m),
               loraState := loraState n\<rparr>"
  have sd: "stack_data (saveState n) = Text (loraState n)"
    using assms(1) by (rule saveState_stack_data)
  have oc: "onConfigure (Some vs) m = rebuildUI ?m1"
    using assms(3,4) assms(5) [unfolded sd] by (rule onConfigure_primed)
  have s: "loraState ?m1 = loraState n" by simp
  have "same_up_to_ids (loraState ?m1) (loraState (rebuildUI ?m1))"
    by (rule rebuild_same_up_to_ids_any) (simp add: assms(2))
  moreover have "ids_ok (loraState (rebuildUI ?m1))" "refs_ok (loraState (rebuildUI ?m1))"
    if "ids_ok (loraState n)"
    by (rule rebuild_keeps_typing; simp add: assms(2) that)+
  ultimately show ?thesis using sd by (simp add: oc)
qed

theorem save_load_roundtrip_witness:
  "\<not> saving sample_node \<and> refs_ok (loraState sample_node) \<and>
   findIndex (is_named ''stack_data'') (widgets fresh_node) = Some 1 \<and>
   [NoText, stack_data (saveState sample_node)] ! 1 = stack_data (saveState sample_node) \<and>
   same_up_to_ids (loraState sample_node)
     (loraState (onConfigure (Some [NoText, stack_data (saveState sample_node)]) fresh_node)) \<and>
   map lora_id (the_loras (onConfigure (Some [NoText, stack_data (saveState sample_node)]) fresh_node))
     = [3, 2, 1]"
proof -
  have a: "\<not> saving sample_node" by (simp add: example_defs)
  have b: "findIndex (is_named ''stack_data'') (widgets fresh_node) = Some 1"
    by (simp add: example_defs is_named_def)
  have c: "(1::nat) < length [NoText, stack_data (saveState sample_node)]" by simp
  have d: "[NoText, stack_data (saveState sample_node)] ! 1 = stack_data (saveState sample_node)"
    by simp
  have e: "stack_data (saveState sample_node) = Text sample_state"
    by (simp add: saveState_stack_data a) (simp add: sample_node_def)
  have f: "map lora_id (the_loras (onConfigure (Some [NoText, stack_data (saveState sample_node)]) fresh_node))
     = [3, 2, 1]"
    unfolding e by (simp add: onConfigure_primed [OF b] the_loras_def rebuildUI_loraState)
      (simp add: example_defs eval_defs)
  from save_load_roundtrip [OF a sample_refs_ok b c d] a b d f sample_refs_ok
  show ?thesis by blast
qed

text \<open>
  \<^bold>\<open>C2 (amended)\<close>.  Fallback on load: when the prior values hold no text for the
  document field, the field itself is empty, and the cache holds the snapshot \<open>S\<close>
  under the node's key, \<open>onConfigure\<close> writes the text of \<open>S\<close> into the document
  field and ends with the snapshot that a rebuild makes of \<open>S\<close>, which is \<open>S\<close>
  up to id renumbering when \<open>S\<close> is well formed.  Any later load that finds this
  text in the document field ends with the same snapshot, whatever its cache holds.
\<close>

theorem load_falls_back_to_cache:
  assumes "no_prior_text wv n" and "stack_data n = NoText" and "storage_ok n"
      and "localStorage n (node_id n) = Text s" and "\<not> saving n"
  shows "stack_data (onConfigure wv n) = Text s \<and>
         loraState (onConfigure wv n) = loraState (rebuildUI (n\<lparr>loraState := s\<rparr>)) \<and>
         (refs_ok s \<longrightarrow> same_up_to_ids s (loraState (onConfigure wv n))) \<and>
         (\<forall>m. stack_data m = stack_data (onConfigure wv n) \<longrightarrow>
               loraState (restoreState m) = loraState (onConfigure wv n))"
proof -
  let ?n1 = "(saveState (n\<lparr>loraState := s\<rparr>))\<lparr>widgets := clearDynamicWidgets (widgets n), loraState := s\<rparr>"
  have oc: "onConfigure wv n = restoreState n" using assms(1) by (rule onConfigure_unprimed)
  have r: "restoreState n = rebuildUI ?n1" using assms(2-5) by (rule restoreState_fallback)
  have sd: "stack_data (restoreState n) = Text s"
    using assms(5) by (simp add: r rebuildUI_frame saveState_stack_data)
  have ls: "loraState (restoreState n) = loraState (rebuildUI (n\<lparr>loraState := s\<rparr>))"
    by (simp add: r rebuildUI_loraState)
  have up: "same_up_to_ids s (loraState (restoreState n))" if "refs_ok s"
  proof -
    have "same_up_to_ids (loraState (n\<lparr>loraState := s\<rparr>)) (loraState (rebuildUI (n\<lparr>loraState := s\<rparr>)))"
      by (rule rebuild_same_up_to_ids_any) (simp add: that)
    then show ?thesis by (simp add: ls)
  qed
  have later: "loraState (restoreState m) = loraState (restoreState n)"
    if "stack_data m = stack_data (restoreState n)" for m
  proof -
    from that sd have "stack_data m = Text s" by simp
    then have "loraState (restoreState m) = loraState (rebuildUI (n\<lparr>loraState := s\<rparr>))"
      by (rule restoreState_snapshot_of_text)
    then show ?thesis by (simp add: ls)
  qed
  show ?thesis unfolding oc using sd ls up later by blast
qed

theorem load_falls_back_to_cache_witness:
  "no_prior_text (Some [NoText, NoText]) cached_node \<and>
   stack_data cached_node = NoText \<and> storage_ok cached_node \<and>
   localStorage cached_node (node_id cached_node) = Text sample_state \<and>
   \<not> saving cached_node \<and>
   stack_data (onConfigure (Some [NoText, NoText]) cached_node) = Text sample_state \<and>
   map lora_id (the_loras (onConfigure (Some [NoText, NoText]) cached_node)) = [3, 2, 1]"
proof -
  let ?n = "cached_node" and ?wv = "Some [NoText, NoText]"
  have p: "no_prior_text ?wv ?n"
    by (simp add: no_prior_text_def cached_node_def fresh_node_def onNodeCreated_def is_named_def
        nth_Cons split: nat.splits)
  have a: "stack_data ?n = NoText" by (simp add: cached_node_def fresh_node_def onNodeCreated_def)
  have b: "storage_ok ?n" by (simp add: cached_node_def fresh_node_def onNodeCreated_def)
  have c: "localStorage ?n (node_id ?n) = Text sample_state"
    by (simp add: cached_node_def fresh_node_def onNodeCreated_def)
  have d: "\<not> saving ?n" by (simp add: cached_node_def fresh_node_def onNodeCreated_def)
  from load_falls_back_to_cache [OF p a b c d]
  have e: "stack_data (onConfigure ?wv ?n) = Text sample_state"
    and f: "loraState (onConfigure ?wv ?n) = loraState (rebuildUI (?n\<lparr>loraState := sample_state\<rparr>))"
    by blast+
  have "map lora_id (the_loras (onConfigure ?wv ?n)) = [3, 2, 1]"
    unfolding the_loras_def f by (simp add: rebuildUI_loraState) (simp add: example_defs eval_defs)
  with p a b c d e show ?thesis by blast
qed

text \<open>
  The claim as stated also covers a field that is present but does not parse.  There
  the code never reads the cache: the field is primed with the corrupt text, the parse
  throws, the handler logs, and the snapshot stays the empty one while the cache holds
  the sample snapshot.
\<close>

theorem load_ignores_cache_when_corrupt:
  "storage_ok cached_node \<and>
   localStorage cached_node (node_id cached_node) = Text sample_state \<and>
   \<not> saving cached_node \<and>
   loraState cached_node = \<lparr>groups = Some [], loras = Some []\<rparr> \<and>
   loraState (onConfigure (Some [NoText, BadText]) cached_node) = \<lparr>groups = Some [], loras = Some []\<rparr> \<and>
   stack_data (onConfigure (Some [NoText, BadText]) cached_node) = BadText \<and>
   groups sample_state \<noteq> Some []"
proof -
  have i: "findIndex (is_named ''stack_data'') (widgets cached_node) = Some 1"
    by (simp add: cached_node_def fresh_node_def onNodeCreated_def is_named_def)
  have oc: "onConfigure (Some [NoText, BadText]) cached_node = cached_node\<lparr>stack_data := BadText\<rparr>"
    by (simp add: onConfigure_primed_any [OF i] restoreState_BadText)
  have a: "storage_ok cached_node" "\<not> saving cached_node"
          "localStorage cached_node (node_id cached_node) = Text sample_state"
          "loraState cached_node = \<lparr>groups = Some [], loras = Some []\<rparr>"
    by (simp_all add: cached_node_def fresh_node_def onNodeCreated_def)
  have b: "groups sample_state \<noteq> Some []" by (simp add: sample_state_def)
  from a b show ?thesis by (simp add: oc)
qed

text \<open>
  \<^bold>\<open>C3\<close>.  Load-time validation.  The code has none: whatever object the field's
  text parses to becomes the snapshot.  When the sample node is configured with the
  text of the empty object, its two groups and three items are replaced by an object
  with neither list, and the next \<open>addGroup\<close> throws.
\<close>

theorem load_adopts_empty_object:
  "loraState sample_node = sample_state \<and>
   loraState (onConfigure (Some [NoText, Text \<lparr>groups = None, loras = None\<rparr>]) sample_node)
     = \<lparr>groups = None, loras = None\<rparr> \<and>
   addGroup (onConfigure (Some [NoText, Text \<lparr>groups = None, loras = None\<rparr>]) sample_node)
     = Inl TypeError"
proof -
  have i: "findIndex (is_named ''stack_data'') (widgets sample_node) = Some 1"
    by (simp add: sample_node_def fresh_node_def onNodeCreated_def is_named_def)
  have b: "loraState sample_node = sample_state" by (simp add: sample_node_def)
  have c: "loraState (onConfigure (Some [NoText, Text \<lparr>groups = None, loras = None\<rparr>]) sample_node)
           = \<lparr>groups = None, loras = None\<rparr>"
    by (simp add: onConfigure_primed [OF i] rebuildUI_loraState)
  have e: "addGroup (onConfigure (Some [NoText, Text \<lparr>groups = None, loras = None\<rparr>]) sample_node)
           = Inl TypeError"
    by (simp add: addGroup_def Let_def c)
  from b c e show ?thesis by blast
qed

text \<open>
  \<^bold>\<open>C5\<close>.  Precondition-violating mutations.  \<open>removeGroup\<close> and \<open>removeLora\<close>
  return at once on an id that is not in the state (lemmas \<open>removeGroup_missing\<close> and
  \<open>removeLora_missing\<close>), but \<open>addLora\<close> never looks the group up: on the fresh node,
  which has no group, \<open>addLora 99\<close> appends an item with \<open>group_id\<close> 99, takes
  the next item id and writes the new snapshot to the document
  field.
\<close>

theorem addLora_missing_group_changes_snapshot:
  "groups (loraState fresh_node) = Some [] \<and> loras (loraState fresh_node) = Some [] \<and>
   stack_data fresh_node = NoText \<and>
   map_sum id loraState (addLora (Some 99) fresh_node)
     = Inr \<lparr>groups = Some [], loras = Some [newLora 1 (Some 99)]\<rparr> \<and>
   map_sum id stack_data (addLora (Some 99) fresh_node)
     = Inr (Text \<lparr>groups = Some [], loras = Some [newLora 1 (Some 99)]\<rparr>) \<and>
   map_sum id nextLoraId (addLora (Some 99) fresh_node) = Inr 2"
proof -
  have f: "loraState fresh_node = \<lparr>groups = Some [], loras = Some []\<rparr>"
          "stack_data fresh_node = NoText" "\<not> saving fresh_node" "nextLoraId fresh_node = 1"
    by (simp_all add: fresh_node_def onNodeCreated_def)
  have l: "loras (loraState fresh_node) = Some []" by (simp add: f)
  have 1: "map_sum id loraState (addLora (Some 99) fresh_node)
     = Inr \<lparr>groups = Some [], loras = Some [newLora 1 (Some 99)]\<rparr>"
    using addLora_loraState [OF l, of "Some 99"] by (simp add: f)
  have 2: "map_sum id stack_data (addLora (Some 99) fresh_node)
     = Inr (Text \<lparr>groups = Some [], loras = Some [newLora 1 (Some 99)]\<rparr>)"
    using addLora_stack_data [OF l f(3), of "Some 99"] by (simp add: f)
  have 3: "map_sum id nextLoraId (addLora (Some 99) fresh_node) = Inr 2"
    using addLora_nextLoraId [OF l, of "Some 99"] by (simp add: f)
  from f l 1 2 3 show ?thesis by simp
qed

text \<open>
  \<^bold>\<open>C6\<close>.  Collapse semantics.  In this file the collapse set only picks the arrow
  of the group's header: \<open>computeSize\<close> never reads it and no control of a collapsed
  group gets a \<open>computeSize\<close> of its own.  With the only group collapsed, its
  Add-LoRA control is in the widget list and adds 30 to the height, and the node is as
  high as with the group expanded.
\<close>

theorem collapsed_group_keeps_height:
  "1 \<in> collapsedGroups (rebuildUI collapsed_node) \<and>
   map widget_height (widgets (rebuildUI collapsed_node)) = [30, 0, 30, 30, 30, 30, 30, 30, 30] \<and>
   widgets (rebuildUI collapsed_node) ! 6 =
     Dynamic \<lparr>label = L_AddLoRAToGroup, wtype = ''button'', wvalue = VNull, options = NoOptions,
            callback = AddLoraTo 1, loraId_tag = Unset, groupId_tag = Id 1, isGroupWidget = True\<rparr> \<and>
   computeSize (rebuildUI collapsed_node) = (450, 300) \<and>
   computeSize (rebuildUI (collapsed_node\<lparr>collapsedGroups := {}\<rparr>)) = (450, 300)"
proof -
  have w: "widgets (rebuildUI collapsed_node) =
     [HostWidget ''seed'' ''number'' None, StackDataWidget]
     @ map Dynamic (groupWidgets {1} 1 \<lparr>grp_id = 1, grp_index = 1, grp_max_model = 1.0, grp_max_clip = 1.0\<rparr>)
     @ [AddLoraButton, AddGroupButton]"
    by (simp add: collapsed_node_def example_defs rebuildUI_widgets all_controls_def
        grouped_order_def members_def ungrouped_def clearDynamicWidgets_def is_named_def
        groupWidgets_def insertBeforeActionButtons_def)
  have w': "widgets (rebuildUI (collapsed_node\<lparr>collapsedGroups := {}\<rparr>)) =
     [HostWidget ''seed'' ''number'' None, StackDataWidget]
     @ map Dynamic (groupWidgets {} 1 \<lparr>grp_id = 1, grp_index = 1, grp_max_model = 1.0, grp_max_clip = 1.0\<rparr>)
     @ [AddLoraButton, AddGroupButton]"
    by (simp add: collapsed_node_def example_defs rebuildUI_widgets all_controls_def
        grouped_order_def members_def ungrouped_def clearDynamicWidgets_def is_named_def
        groupWidgets_def insertBeforeActionButtons_def)
  have 1: "1 \<in> collapsedGroups (rebuildUI collapsed_node)"
    by (simp add: rebuildUI_frame collapsed_node_def)
  have 2: "map widget_height (widgets (rebuildUI collapsed_node)) = [30, 0, 30, 30, 30, 30, 30, 30, 30]"
    unfolding w by (simp add: groupWidgets_def widget_height_def widget_computeSize_def widget_type_def)
  have h2b: "map widget_height (widgets (rebuildUI (collapsed_node\<lparr>collapsedGroups := {}\<rparr>)))
            = [30, 0, 30, 30, 30, 30, 30, 30, 30]"
    unfolding w' by (simp add: groupWidgets_def widget_height_def widget_computeSize_def widget_type_def)
  have 3: "widgets (rebuildUI collapsed_node) ! 6 =
     Dynamic \<lparr>label = L_AddLoRAToGroup, wtype = ''button'', wvalue = VNull, options = NoOptions,
            callback = AddLoraTo 1, loraId_tag = Unset, groupId_tag = Id 1, isGroupWidget = True\<rparr>"
    unfolding w by (simp add: groupWidgets_def)
  have 4: "computeSize (rebuildUI collapsed_node) = (450, 300)"
    unfolding computeSize_def Let_def 2 by simp
  have 5: "computeSize (rebuildUI (collapsed_node\<lparr>collapsedGroups := {}\<rparr>)) = (450, 300)"
    unfolding computeSize_def Let_def h2b by simp
  from 1 2 3 4 5 show ?thesis by blast
qed

text \<open>
  \<^bold>\<open>C4\<close>.  Cascade delete: when a group with id \<open>gid\<close> exists, \<open>removeGroup gid\<close>
  returns normally; the item list afterwards is the old one without the items whose
  \<open>group_id\<close> is \<open>gid\<close>, in the same order and unchanged but for the ids the
  rebuild assigns; the group list is the old one without the first group of id
  \<open>gid\<close>, unchanged but for id and index; and the indices are 1..N in list order.
\<close>

theorem removeGroup_cascades:
  assumes "groups (loraState n) = Some gs" and "loras (loraState n) = Some ls"
      and "gid \<in> grp_id ` set gs"
  shows "\<exists>n' j. removeGroup gid n = Inr n' \<and>
           j < length gs \<and> grp_id (gs ! j) = gid \<and> (\<forall>i<j. grp_id (gs ! i) \<noteq> gid) \<and>
           groups (loraState n') \<noteq> None \<and> loras (loraState n') \<noteq> None \<and>
           list_all2 (\<lambda>l l'. l' = l\<lparr>lora_id := lora_id l', group_id := group_id l'\<rparr>)
             (filter (\<lambda>l. group_id l \<noteq> Some gid) ls) (the_loras n') \<and>
           list_all2 (\<lambda>g g'. g' = g\<lparr>grp_id := grp_id g', grp_index := grp_index g'\<rparr>)
             (take j gs @ drop (Suc j) gs) (the_groups n') \<and>
           map grp_index (the_groups n') = map Suc [0..<length (the_groups n')]"
proof -
  from assms(3) obtain g where "g \<in> set gs" "grp_id g = gid" by auto
  then obtain j where j: "findIndex (\<lambda>g. grp_id g = gid) gs = Some j"
    using findIndex_exists [of g gs "\<lambda>g. grp_id g = gid"] by auto
  from findIndex_Some [OF j]
  have jp: "j < length gs" "grp_id (gs ! j) = gid" "\<forall>i<j. grp_id (gs ! i) \<noteq> gid" by auto
  let ?ls' = "filter (\<lambda>l. group_id l \<noteq> Some gid) ls"
  let ?gs' = "take j gs @ drop (Suc j) gs"
  let ?n1 = "n\<lparr>loraState := (loraState n)\<lparr>loras := Some ?ls', groups := Some (reindex 0 ?gs')\<rparr>\<rparr>"
  let ?n' = "saveState (rebuildUI ?n1)"
  have r: "removeGroup gid n = Inr ?n'"
    by (simp add: removeGroup_def assms(1,2) j Let_def)
  have s: "loraState ?n' = loraState (rebuildUI ?n1)" by (simp add: saveState_frame)
  have g1: "the_groups ?n' = map (updateGroupId (final_groupIdMap (reindex 0 ?gs'))) (reindex 0 ?gs')"
    by (simp add: the_groups_def s rebuildUI_loraState or_empty_def)
  have l1: "the_loras ?n' = map (updateLoraIds (final_groupIdMap (reindex 0 ?gs'))
                (final_loraIdMap (reindex 0 ?gs') ?ls')) ?ls'"
    by (simp add: the_loras_def s rebuildUI_loraState or_empty_def)
  have ne: "groups (loraState ?n') \<noteq> None" "loras (loraState ?n') \<noteq> None"
    by (simp_all add: s rebuildUI_loraState)
  have a: "list_all2 (\<lambda>l l'. l' = l\<lparr>lora_id := lora_id l', group_id := group_id l'\<rparr>) ?ls' (the_loras ?n')"
    unfolding l1 by (rule list_all2_map_same) (rule updateLoraIds_canon)
  have b: "list_all2 (\<lambda>g g'. g' = g\<lparr>grp_id := grp_id g', grp_index := grp_index g'\<rparr>) ?gs' (the_groups ?n')"
    unfolding g1 by (rule reindex_update_same)
  have c: "map grp_index (the_groups ?n') = map Suc [0..<length (the_groups ?n')]"
    using reindex_indices [of 0 ?gs']
    by (simp add: g1 grp_index_updateGroupId_comp length_reindex del: upt_Suc)
  from r jp ne a b c show ?thesis by blast
qed

theorem removeGroup_cascades_witness:
  "groups (loraState sample_node) = Some [group_a, group_b] \<and>
   loras (loraState sample_node) = Some [item_free, item_in_b, item_in_a] \<and>
   3 \<in> grp_id ` set [group_a, group_b] \<and>
   map group_id [item_free, item_in_b, item_in_a] = [None, Some 8, Some 3] \<and>
   map_sum id (map name \<circ> the_loras) (removeGroup 3 sample_node) = Inr [''None'', ''style.safetensors''] \<and>
   map_sum id (map grp_index \<circ> the_groups) (removeGroup 3 sample_node) = Inr [1]"
proof -
  have a: "groups (loraState sample_node) = Some [group_a, group_b]"
    and b: "loras (loraState sample_node) = Some [item_free, item_in_b, item_in_a]"
    by (simp_all add: sample_node_def sample_state_def)
  have c: "3 \<in> grp_id ` set [group_a, group_b]" by (simp add: group_a_def)
  have d: "map group_id [item_free, item_in_b, item_in_a] = [None, Some 8, Some 3]"
    by (simp add: item_free_def item_in_b_def item_in_a_def newLora_def)
  from removeGroup_cascades [OF a b c] obtain n' j where
    r: "removeGroup 3 sample_node = Inr n'" and j: "j < length [group_a, group_b]"
    and l: "list_all2 (\<lambda>l l'. l' = l\<lparr>lora_id := lora_id l', group_id := group_id l'\<rparr>)
             (filter (\<lambda>l. group_id l \<noteq> Some 3) [item_free, item_in_b, item_in_a]) (the_loras n')"
    and g: "list_all2 (\<lambda>g g'. g' = g\<lparr>grp_id := grp_id g', grp_index := grp_index g'\<rparr>)
             (take j [group_a, group_b] @ drop (Suc j) [group_a, group_b]) (the_groups n')"
    and i: "map grp_index (the_groups n') = map Suc [0..<length (the_groups n')]"
    by blast
  have "map name (the_loras n') = map name (filter (\<lambda>l. group_id l \<noteq> Some 3) [item_free, item_in_b, item_in_a])"
    using l by (rule same_fields_names)
  then have e: "map name (the_loras n') = [''None'', ''style.safetensors'']"
    by (simp add: item_free_def item_in_b_def item_in_a_def newLora_def)
  have "length (the_groups n') = length (take j [group_a, group_b] @ drop (Suc j) [group_a, group_b])"
    using g by (rule list_all2_lengthD [symmetric])
  then have "length (the_groups n') = 1" using j by (auto simp: min_def)
  with i have f: "map grp_index (the_groups n') = [1]" by simp
  from a b c d e f show ?thesis by (simp add: r)
qed

text \<open>
  \<^bold>\<open>C10 (amended)\<close>.  A dangling item in one rebuild: in a snapshot whose ids are
  unique, for an item whose \<open>group_id\<close> is truthy and names no group, a rebuild
  creates no control (the widget list is the one built from the snapshot without the
  item), and leaves the item in its place in the item list, unchanged, id and
  \<open>group_id\<close> included; the next save serializes the snapshot with the item in it.
\<close>

theorem dangling_item_invisible_in_rebuild:
  assumes "ids_ok (loraState n)" and "loras (loraState n) = Some ls" and "i < length ls"
      and "truthy (group_id (ls ! i))"
      and "group_id (ls ! i) \<notin> set (map (\<lambda>g. Some (grp_id g)) (the_groups n))"
  shows "widgets (rebuildUI n)
           = widgets (rebuildUI (n\<lparr>loraState :=
                         (loraState n)\<lparr>loras := Some (take i ls @ drop (Suc i) ls)\<rparr>\<rparr>)) \<and>
         length (the_loras (rebuildUI n)) = length ls \<and>
         the_loras (rebuildUI n) ! i = ls ! i \<and>
         (\<not> saving n \<longrightarrow> stack_data (saveState (rebuildUI n)) = Text (loraState (rebuildUI n)))"
proof -
  let ?gs = "or_empty (groups (loraState n))" and ?l = "ls ! i"
  let ?ls' = "take i ls @ drop (Suc i) ls"
  have lsn: "or_empty (loras (loraState n)) = ls" by (simp add: assms(2) or_empty_def)
  from assms(1) have dl: "distinct (map lora_id ls)" by (simp add: ids_ok_def lsn)
  then have inj: "inj_on lora_id (set ls)" by (simp add: distinct_map)
  have lin: "?l \<in> set ls" using assms(3) by simp
  have nog: "\<not> (\<exists>g\<in>set ?gs. group_id ?l = Some (grp_id g))"
    using assms(5) by (auto simp: the_groups_def)
  have notin: "?l \<notin> set (build_order ?gs ls)"
    using nog assms(4) by (simp add: in_build_order)
  have "lora_id ?l \<notin> lora_id ` set (build_order ?gs ls)"
  proof
    assume "lora_id ?l \<in> lora_id ` set (build_order ?gs ls)"
    then obtain x where x: "x \<in> set (build_order ?gs ls)" "lora_id x = lora_id ?l" by auto
    then have "x \<in> set ls" by (simp add: in_build_order)
    with inj lin x(2) have "x = ?l" by (simp add: inj_on_def)
    with x(1) notin show False by simp
  qed
  then have lm: "final_loraIdMap ?gs ls (lora_id ?l) = None"
    by (rule final_loraIdMap_None)
  from assms(4) obtain k where k: "group_id ?l = Some k"
    by (auto simp: truthy_def split: option.splits)
  with nog have "k \<notin> grp_id ` set ?gs" by auto
  then have gm: "final_groupIdMap ?gs (the (group_id ?l)) = None"
    by (simp add: k final_groupIdMap_None)
  have fixed: "updateLoraIds (final_groupIdMap ?gs) (final_loraIdMap ?gs ls) ?l = ?l"
    using lm assms(4) gm by (rule updateLoraIds_untouched)
  have l1: "the_loras (rebuildUI n)
            = map (updateLoraIds (final_groupIdMap ?gs) (final_loraIdMap ?gs ls)) ls"
    by (simp add: the_loras_def rebuildUI_loras renumber_loras_def lsn)
  have 2: "length (the_loras (rebuildUI n)) = length ls" by (simp add: l1)
  have 3: "the_loras (rebuildUI n) ! i = ls ! i" using assms(3) by (simp add: l1 fixed)
  have m: "members (grp_id g) ?ls' = members (grp_id g) ls" if "g \<in> set ?gs" for g
    unfolding members_def
    by (rule filter_remove_nth [OF assms(3)]) (use nog that in blast)
  have u: "ungrouped ?ls' = ungrouped ls"
    unfolding ungrouped_def
    by (rule filter_remove_nth [OF assms(3)]) (simp add: assms(4))
  have ac: "all_controls cs ?gs ?ls' = all_controls cs ?gs ls" for cs
    by (simp add: all_controls_def u group_controls_members_cong [OF m]
        grouped_order_members_cong [OF m])
  have 1: "widgets (rebuildUI n)
           = widgets (rebuildUI (n\<lparr>loraState := (loraState n)\<lparr>loras := Some ?ls'\<rparr>\<rparr>))"
    using ac [of "collapsedGroups n"]
    by (simp add: rebuildUI_widgets lsn or_empty_def [of "Some ?ls'"])
  have 4: "stack_data (saveState (rebuildUI n)) = Text (loraState (rebuildUI n))" if "\<not> saving n"
    by (rule saveState_stack_data) (simp add: rebuildUI_frame that)
  from 1 2 3 4 show ?thesis by blast
qed

theorem dangling_item_invisible_in_rebuild_witness:
  "ids_ok (loraState stray_node) \<and>
   loras (loraState stray_node) = Some [newLora 1 None, newLora 2 (Some 1)] \<and>
   map grp_id (the_groups stray_node) = [2] \<and>
   the_loras (rebuildUI stray_node) ! 1 = newLora 2 (Some 1) \<and>
   control_callbacks (widgets (rebuildUI stray_node))
     = [ToggleGroupCollapse 1, RemoveGroup 1, SetGroupMaxModel 1, SetGroupMaxClip 1, AddLoraTo 1,
        SetName 1, RemoveLora 1, SetPreset 1,
        SetModelStrength 1, SetRandomModel 1, SetClipStrength 1, SetRandomClip 1]"
proof -
  have a: "ids_ok (loraState stray_node)"
    by (simp add: stray_node_def stray_state_def ids_ok_def or_empty_def newLora_def)
  have b: "loras (loraState stray_node) = Some [newLora 1 None, newLora 2 (Some 1)]"
    by (simp add: stray_node_def stray_state_def)
  have c: "(1::nat) < length [newLora 1 None, newLora 2 (Some 1)]" by simp
  have d: "truthy (group_id ([newLora 1 None, newLora 2 (Some 1)] ! 1))"
    by (simp add: newLora_def truthy_def)
  have g: "map grp_id (the_groups stray_node) = [2]"
    by (simp add: stray_node_def stray_state_def the_groups_def or_empty_def)
  have e: "group_id ([newLora 1 None, newLora 2 (Some 1)] ! 1)
             \<notin> set (map (\<lambda>g. Some (grp_id g)) (the_groups stray_node))"
    by (simp add: stray_node_def stray_state_def the_groups_def or_empty_def newLora_def)
  from dangling_item_invisible_in_rebuild [OF a b c d e]
  have w: "widgets (rebuildUI stray_node)
           = widgets (rebuildUI (stray_node\<lparr>loraState :=
                (loraState stray_node)\<lparr>loras := Some (take 1 [newLora 1 None, newLora 2 (Some 1)]
                    @ drop (Suc 1) [newLora 1 None, newLora 2 (Some 1)])\<rparr>\<rparr>))"
    and f: "the_loras (rebuildUI stray_node) ! 1 = [newLora 1 None, newLora 2 (Some 1)] ! 1"
    by blast+
  have h: "control_callbacks (widgets (rebuildUI stray_node))
     = [ToggleGroupCollapse 1, RemoveGroup 1, SetGroupMaxModel 1, SetGroupMaxClip 1, AddLoraTo 1,
        SetName 1, RemoveLora 1, SetPreset 1,
        SetModelStrength 1, SetRandomModel 1, SetClipStrength 1, SetRandomClip 1]"
    unfolding w
    by (simp add: stray_node_def stray_state_def example_defs eval_defs control_callbacks_def)
  from a b g f h show ?thesis by simp
qed

text \<open>
  The claim goes on to say that the item is never rendered afterwards.  That fails:
  the rebuild renumbers the groups, and a regenerated group id can be the very id the
  dangling item names.  With one group of id 2, an ungrouped item and an item of
  \<open>group_id\<close> 1, the first rebuild creates no control for the third and renumbers
  the group to 1; the second rebuild lists the item under the group, with its lock
  controls, and gives it the id 1.
\<close>

theorem dangling_item_rendered_by_next_rebuild:
  "ids_ok (loraState stray_node) \<and>
   map grp_id (the_groups stray_node) = [2] \<and>
   map group_id (the_loras stray_node) = [None, Some 1] \<and>
   control_callbacks (widgets (rebuildUI stray_node))
     = [ToggleGroupCollapse 1, RemoveGroup 1, SetGroupMaxModel 1, SetGroupMaxClip 1, AddLoraTo 1,
        SetName 1, RemoveLora 1, SetPreset 1,
        SetModelStrength 1, SetRandomModel 1, SetClipStrength 1, SetRandomClip 1] \<and>
   map grp_id (the_groups (rebuildUI stray_node)) = [1] \<and>
   map group_id (the_loras (rebuildUI stray_node)) = [None, Some 1] \<and>
   control_callbacks (widgets (rebuildUI (rebuildUI stray_node)))
     = [ToggleGroupCollapse 1, RemoveGroup 1, SetGroupMaxModel 1, SetGroupMaxClip 1, AddLoraTo 1,
        SetName 1, RemoveLora 1, SetPreset 1, SetLockModel 1, SetLockClip 1,
        SetName 2, RemoveLora 2, SetPreset 2,
        SetModelStrength 2, SetRandomModel 2, SetClipStrength 2, SetRandomClip 2] \<and>
   map lora_id (the_loras (rebuildUI (rebuildUI stray_node))) = [2, 1]"
proof -
  have a: "ids_ok (loraState stray_node)"
    by (simp add: stray_node_def stray_state_def ids_ok_def or_empty_def newLora_def)
  have b: "map grp_id (the_groups stray_node) = [2]"
          "map group_id (the_loras stray_node) = [None, Some 1]"
    by (simp_all add: stray_node_def stray_state_def the_groups_def the_loras_def or_empty_def newLora_def)
  have s1: "loraState (rebuildUI stray_node) =
     \<lparr>groups = Some [\<lparr>grp_id = 1, grp_index = 1, grp_max_model = 1.0, grp_max_clip = 1.0\<rparr>],
      loras = Some [newLora 1 None, newLora 2 (Some 1)]\<rparr>"
    by (simp add: rebuildUI_loraState) (simp add: stray_node_def stray_state_def example_defs eval_defs)
  have c: "control_callbacks (widgets (rebuildUI stray_node))
     = [ToggleGroupCollapse 1, RemoveGroup 1, SetGroupMaxModel 1, SetGroupMaxClip 1, AddLoraTo 1,
        SetName 1, RemoveLora 1, SetPreset 1,
        SetModelStrength 1, SetRandomModel 1, SetClipStrength 1, SetRandomClip 1]"
    by (simp add: stray_node_def stray_state_def example_defs eval_defs control_callbacks_def)
  have d: "map grp_id (the_groups (rebuildUI stray_node)) = [1]"
          "map group_id (the_loras (rebuildUI stray_node)) = [None, Some 1]"
    by (simp_all add: the_groups_def the_loras_def s1 or_empty_def newLora_def)
  have w1: "clearDynamicWidgets (widgets (rebuildUI stray_node))
            = [HostWidget ''seed'' ''number'' None, StackDataWidget, AddLoraButton, AddGroupButton]"
    by (simp add: rebuildUI_widgets clear_createWidgets clear_idem)
       (simp add: stray_node_def example_defs clearDynamicWidgets_def is_named_def)
  have e: "control_callbacks (widgets (rebuildUI (rebuildUI stray_node)))
     = [ToggleGroupCollapse 1, RemoveGroup 1, SetGroupMaxModel 1, SetGroupMaxClip 1, AddLoraTo 1,
        SetName 1, RemoveLora 1, SetPreset 1, SetLockModel 1, SetLockClip 1,
        SetName 2, RemoveLora 2, SetPreset 2,
        SetModelStrength 2, SetRandomModel 2, SetClipStrength 2, SetRandomClip 2]"
    by (simp add: rebuildUI_widgets [of "rebuildUI stray_node"] w1 s1 rebuildUI_frame)
       (simp add: stray_node_def example_defs all_controls_def grouped_order_def members_def
          ungrouped_def groupWidgets_def loraWidgets_def createGroupedLoraControls_def
          createUngroupedLoraControls_def float_control_def boolean_control_def truthy_bool_def
          insertBeforeActionButtons_def control_callbacks_def)
  have f: "map lora_id (the_loras (rebuildUI (rebuildUI stray_node))) = [2, 1]"
    by (simp add: the_loras_def rebuildUI_loraState [of "rebuildUI stray_node"] s1)
       (simp add: example_defs final_groupIdMap_def final_loraIdMap_def build_order_def
          grouped_order_def members_def ungrouped_def updateLoraIds_def Let_def)
  from a b c d e f show ?thesis by blast
qed

text \<open>
  \<^bold>\<open>C7\<close>.  Randomize toggle: take a well-formed snapshot with unique ids and an
  ungrouped item at position \<open>i\<close> with \<open>random_clip\<close> true.  After a rebuild
  the item has an id \<open>k\<close>, and the widget list holds a Min and a Max control tagged \<open>k\<close>, showing
  the stored \<open>min_clip\<close> and \<open>max_clip\<close> and bound to these two fields.  The
  callback of the item's Random toggle, called with false, sets the flag, rebuilds and
  saves: afterwards no control of the widget list is bound to the clip bounds of
  \<open>k\<close>, the item is still at position \<open>i\<close> with id \<open>k\<close>, and its stored
  \<open>min_clip\<close> and \<open>max_clip\<close> are what they were (0.2 and 0.8 on the sample node).
\<close>

theorem randomize_toggle_hides_bounds_keeps_values:
  assumes "ids_ok (loraState n)" and "refs_ok (loraState n)"
      and "loras (loraState n) = Some ls" and "i < length ls"
      and "\<not> truthy (group_id (ls ! i))" and "random_clip (ls ! i) = Some True"
  shows "\<exists>k n2.
           lora_id (the_loras (rebuildUI n) ! i) = k \<and>
           Dynamic (float_control L_Min (min_clip (ls ! i)) (SetMinClip k) (Id k) Unset)
             \<in> set (widgets (rebuildUI n)) \<and>
           Dynamic (float_control L_Max (max_clip (ls ! i)) (SetMaxClip k) (Id k) Unset)
             \<in> set (widgets (rebuildUI n)) \<and>
           randomClipCallback k False (rebuildUI n) = Inr n2 \<and>
           (\<forall>c. Dynamic c \<in> set (widgets n2) \<longrightarrow> \<not> clip_bound_of k c) \<and>
           lora_id (the_loras n2 ! i) = k \<and>
           random_clip (the_loras n2 ! i) = Some False \<and>
           min_clip (the_loras n2 ! i) = min_clip (ls ! i) \<and>
           max_clip (the_loras n2 ! i) = max_clip (ls ! i)"
proof -
  let ?gs = "or_empty (groups (loraState n))"
  let ?n1 = "rebuildUI n"
  let ?gs1 = "renumber_groups ?gs" and ?ls1 = "renumber_loras ?gs ls"
  let ?k = "lora_id (?ls1 ! i)"
  let ?x = "(?ls1 ! i)\<lparr>random_clip := Some False\<rparr>"
  let ?ls2 = "?ls1[i := ?x]"
  let ?n1' = "?n1\<lparr>loraState := (loraState ?n1)\<lparr>loras := Some ?ls2\<rparr>\<rparr>"
  let ?n2 = "saveState (rebuildUI ?n1')"
  have lsn: "or_empty (loras (loraState n)) = ls" by (simp add: assms(3) or_empty_def)
  have ok: "lists_ok ?gs ls" using lists_okI [OF assms(1,2)] by (simp add: lsn)
  have can1: "canonical ?gs1 ?ls1" using ok by (rule canonical_renumber)
  have len1: "length ?ls1 = length ls" by (simp add: renumber_loras_def)
  have i1: "i < length ?ls1" using assms(4) by (simp add: len1)
  have item: "?ls1 ! i = updateLoraIds (final_groupIdMap ?gs) (final_loraIdMap ?gs ls) (ls ! i)"
    using assms(4) by (simp add: renumber_loras_def)
  have flds: "random_clip (?ls1 ! i) = Some True" "min_clip (?ls1 ! i) = min_clip (ls ! i)"
             "max_clip (?ls1 ! i) = max_clip (ls ! i)"
    by (simp_all add: item updateLoraIds_keeps_clip_fields assms(6))
  have gid1: "\<not> truthy (group_id (?ls1 ! i))"
    using assms(5) by (simp add: item updateLoraIds_gid_falsy truthy_def)
  have g1: "or_empty (groups (loraState ?n1)) = ?gs1" by (rule rebuildUI_groups)
  have l1: "loras (loraState ?n1) = Some ?ls1"
    by (simp add: rebuildUI_loraState assms(3) renumber_loras_def or_empty_def [of "Some ls"])
  have tl1: "the_loras ?n1 = ?ls1" by (simp add: the_loras_def l1 or_empty_def)
  \<comment> \<open>the two controls after the first rebuild\<close>
  have w1: "set (widgets ?n1) =
              set (clearDynamicWidgets (widgets n)) \<union> Dynamic ` set (all_controls (collapsedGroups n) ?gs1 ?ls1)"
    by (simp add: rebuildUI_widgets set_createWidgets lsn renumber_all_controls [OF ok])
  have "?ls1 ! i \<in> set (ungrouped ?ls1)" using i1 gid1 by (simp add: in_ungrouped)
  then obtain q where q: "q < length (ungrouped ?ls1)" "ungrouped ?ls1 ! q = ?ls1 ! i"
    by (auto simp: in_set_conv_nth)
  have kq: "?k = 1 + length (grouped_order ?gs1 ?ls1) + q"
    using canonical_id_of_ungrouped [OF can1 q(1)] q(2) by simp
  have sub: "set (loraWidgets ?k None (?ls1 ! i)) \<subseteq> set (all_controls (collapsedGroups n) ?gs1 ?ls1)"
    using lora_controls_nth [OF q(1), of "1 + length (grouped_order ?gs1 ?ls1)" None]
      lora_controls_in_all_controls [of ?gs1 ?ls1 "collapsedGroups n"]
    by (simp only: kq q(2))
  have "truthy_bool (random_clip (?ls1 ! i))" by (simp add: flds truthy_bool_def)
  from clip_bounds_created [OF this, of ?k] sub
  have cmin: "Dynamic (float_control L_Min (min_clip (ls ! i)) (SetMinClip ?k) (Id ?k) Unset)
               \<in> set (widgets ?n1)"
    and cmax: "Dynamic (float_control L_Max (max_clip (ls ! i)) (SetMaxClip ?k) (Id ?k) Unset)
               \<in> set (widgets ?n1)"
    unfolding w1 flds by blast+
  \<comment> \<open>the callback\<close>
  have d1: "distinct (map lora_id ?ls1)" using can1 by (rule canonical_distinct_ids)
  have fi: "findIndex (\<lambda>l. lora_id l = ?k) ?ls1 = Some i"
    using d1 i1 by (rule findIndex_distinct)
  have r: "randomClipCallback ?k False ?n1 = Inr ?n2"
    using l1 fi by (rule randomClipCallback_found)
  have can2: "canonical ?gs1 ?ls2"
    using can1 i1 by (rule canonical_field_update) simp_all
  have g2: "or_empty (groups (loraState ?n1')) = ?gs1" using g1 by simp
  have l2: "or_empty (loras (loraState ?n1')) = ?ls2" by (simp add: or_empty_def)
  have st: "loraState (rebuildUI ?n1') = loraState ?n1'"
    by (rule rebuildUI_canonical_state) (simp only: g2 l2 can2)
  have tl2: "the_loras ?n2 = ?ls2"
    by (simp only: the_loras_def saveState_frame st l2)
  have x2: "?ls2 ! i = ?x" using i1 by simp
  have f2: "lora_id (the_loras ?n2 ! i) = ?k" "random_clip (the_loras ?n2 ! i) = Some False"
           "min_clip (the_loras ?n2 ! i) = min_clip (ls ! i)"
           "max_clip (the_loras ?n2 ! i) = max_clip (ls ! i)"
    by (simp_all only: tl2 x2) (simp_all add: flds)
  have w2: "set (widgets ?n2) =
              set (clearDynamicWidgets (widgets ?n1')) \<union> Dynamic ` set (all_controls (collapsedGroups n) ?gs1 ?ls2)"
    by (simp only: saveState_frame rebuildUI_widgets set_createWidgets g2 l2) (simp add: rebuildUI_frame)
  have none: "\<not> clip_bound_of ?k c" if c: "Dynamic c \<in> set (widgets ?n2)" for c
  proof
    assume cb: "clip_bound_of ?k c"
    from c have "c \<in> set (all_controls (collapsedGroups n) ?gs1 ?ls2)"
      unfolding w2 using clear_no_dynamic [of c "widgets ?n1'"] by auto
    from all_controls_clip_bound [OF this cb] obtain p where
      p: "p < length (ungrouped ?ls2)" "?k = Suc (length (grouped_order ?gs1 ?ls2) + p)"
         "truthy_bool (random_clip (ungrouped ?ls2 ! p))" by blast
    have idp: "lora_id (ungrouped ?ls2 ! p) = ?k"
      using canonical_id_of_ungrouped [OF can2 p(1)] p(2) by simp
    have "ungrouped ?ls2 ! p \<in> set (ungrouped ?ls2)" using p(1) by simp
    then have pin: "ungrouped ?ls2 ! p \<in> set ?ls2" by (simp add: in_ungrouped)
    have xin: "?x \<in> set ?ls2" using i1 x2 by (metis length_list_update nth_mem)
    have "inj_on lora_id (set ?ls2)"
      using canonical_distinct_ids [OF can2] by (simp add: distinct_map)
    from inj_onD [OF this _ pin xin] idp have "ungrouped ?ls2 ! p = ?x" by simp
    with p(3) show False by (simp add: truthy_bool_def)
  qed
  from cmin cmax r none f2 show ?thesis
    unfolding tl1 by blast
qed

theorem randomize_toggle_hides_bounds_keeps_values_witness:
  "ids_ok (loraState sample_node) \<and> refs_ok (loraState sample_node) \<and>
   loras (loraState sample_node) = Some [item_free, item_in_b, item_in_a] \<and>
   \<not> truthy (group_id ([item_free, item_in_b, item_in_a] ! 0)) \<and>
   random_clip ([item_free, item_in_b, item_in_a] ! 0) = Some True \<and>
   min_clip ([item_free, item_in_b, item_in_a] ! 0) = Some 0.2 \<and>
   max_clip ([item_free, item_in_b, item_in_a] ! 0) = Some 0.8 \<and>
   lora_id (the_loras (rebuildUI sample_node) ! 0) = 3 \<and>
   Dynamic (float_control L_Min (Some 0.2) (SetMinClip 3) (Id 3) Unset)
     \<in> set (widgets (rebuildUI sample_node)) \<and>
   Dynamic (float_control L_Max (Some 0.8) (SetMaxClip 3) (Id 3) Unset)
     \<in> set (widgets (rebuildUI sample_node)) \<and>
   map_sum id (\<lambda>n2. SetMinClip 3 \<in> set (control_callbacks (widgets n2)))
     (randomClipCallback 3 False (rebuildUI sample_node)) = Inr False \<and>
   map_sum id (\<lambda>n2. SetMaxClip 3 \<in> set (control_callbacks (widgets n2)))
     (randomClipCallback 3 False (rebuildUI sample_node)) = Inr False \<and>
   map_sum id (\<lambda>n2. (lora_id (the_loras n2 ! 0), random_clip (the_loras n2 ! 0),
                      min_clip (the_loras n2 ! 0), max_clip (the_loras n2 ! 0)))
     (randomClipCallback 3 False (rebuildUI sample_node)) = Inr (3, Some False, Some 0.2, Some 0.8)"
proof -
  let ?ls = "[item_free, item_in_b, item_in_a]"
  have a: "loras (loraState sample_node) = Some ?ls"
    by (simp add: sample_node_def sample_state_def)
  have b: "(0::nat) < length ?ls" by simp
  have c: "\<not> truthy (group_id (?ls ! 0))" "random_clip (?ls ! 0) = Some True"
          "min_clip (?ls ! 0) = Some 0.2" "max_clip (?ls ! 0) = Some 0.8"
    by (simp_all add: item_free_def newLora_def truthy_def)
  have k: "lora_id (the_loras (rebuildUI sample_node) ! 0) = 3"
    by (simp add: the_loras_def rebuildUI_loraState) (simp add: example_defs eval_defs)
  from randomize_toggle_hides_bounds_keeps_values [OF sample_ids_ok sample_refs_ok a b c(1,2)]
  obtain n2 where
    w: "Dynamic (float_control L_Min (min_clip (?ls ! 0)) (SetMinClip 3) (Id 3) Unset)
          \<in> set (widgets (rebuildUI sample_node))"
       "Dynamic (float_control L_Max (max_clip (?ls ! 0)) (SetMaxClip 3) (Id 3) Unset)
          \<in> set (widgets (rebuildUI sample_node))"
    and r: "randomClipCallback 3 False (rebuildUI sample_node) = Inr n2"
    and none: "\<forall>c. Dynamic c \<in> set (widgets n2) \<longrightarrow> \<not> clip_bound_of 3 c"
    and f: "lora_id (the_loras n2 ! 0) = 3" "random_clip (the_loras n2 ! 0) = Some False"
           "min_clip (the_loras n2 ! 0) = min_clip (?ls ! 0)"
           "max_clip (the_loras n2 ! 0) = max_clip (?ls ! 0)"
    unfolding k by blast
  have m1: "SetMinClip 3 \<notin> set (control_callbacks (widgets n2))"
    using none by (auto simp: in_control_callbacks clip_bound_of_def)
  have m2: "SetMaxClip 3 \<notin> set (control_callbacks (widgets n2))"
    using none by (auto simp: in_control_callbacks clip_bound_of_def)
  from w have w': "Dynamic (float_control L_Min (Some 0.2) (SetMinClip 3) (Id 3) Unset)
          \<in> set (widgets (rebuildUI sample_node))"
       "Dynamic (float_control L_Max (Some 0.8) (SetMaxClip 3) (Id 3) Unset)
          \<in> set (widgets (rebuildUI sample_node))"
    by (simp_all only: c)
  from f have f': "lora_id (the_loras n2 ! 0) = 3" "random_clip (the_loras n2 ! 0) = Some False"
           "min_clip (the_loras n2 ! 0) = Some 0.2" "max_clip (the_loras n2 ! 0) = Some 0.8"
    by (simp_all only: c)
  from sample_ids_ok sample_refs_ok a c k w' m1 m2 f' show ?thesis
    by (simp add: r)
qed

end
